theory Spec2Isabelle
  imports Main "HOL-Library.Word" "HOL-Library.Sublist" "HOL-Library.Char_ord"
    "HOL-Library.List_Lexorder"
begin

unbundle bit_operations_syntax

section \<open>Shared data model of \<open>ostree-repo.c\<close>\<close>

text \<open>
  Source functions whose C name starts with an underscore carry the prefix \<open>u\<close> here,
  since an Isabelle name cannot start with one: \<open>_ostree_repo_get_remote\<close> is
  \<open>u_ostree_repo_get_remote\<close>.
\<close>

type_synonym u32 = "32 word"

text \<open>A C byte buffer is a \<open>string\<close>: a list of 8-bit characters.\<close>

type_synonym bytes = string

datatype OstreeRepoMode =
  OSTREE_REPO_MODE_BARE
| OSTREE_REPO_MODE_ARCHIVE_Z2
| OSTREE_REPO_MODE_BARE_USER
| OSTREE_REPO_MODE_BARE_USER_ONLY

datatype OstreeObjectType =
  OSTREE_OBJECT_TYPE_FILE
| OSTREE_OBJECT_TYPE_DIR_TREE
| OSTREE_OBJECT_TYPE_DIR_META
| OSTREE_OBJECT_TYPE_COMMIT
| OSTREE_OBJECT_TYPE_TOMBSTONE_COMMIT
| OSTREE_OBJECT_TYPE_COMMIT_META

text \<open>The \<open>errno\<close> values the code tells apart, and the rest.\<close>

datatype errno = ENOENT | EEXIST | EACCES | EIO | EBADF | ENODATA | EOTHER nat

text \<open>
  A \<open>GError\<close> is modelled by its domain and code; the message is dropped.
  \<open>AssertionFailed\<close> stands for a failed \<open>g_assert\<close> or \<open>g_assert_not_reached\<close>,
  which aborts the process, and \<open>ReturnIfFail\<close> for a failed \<open>g_return_val_if_fail\<close>,
  which returns \<open>FALSE\<close> without setting an error.
\<close>

datatype GError =
  G_IO_ERROR_NOT_FOUND
| G_IO_ERROR_EXISTS
| G_IO_ERROR_FAILED
| G_IO_ERROR_ERRNO errno
| G_KEY_FILE_ERROR_GROUP_NOT_FOUND
| G_KEY_FILE_ERROR_KEY_NOT_FOUND
| G_KEY_FILE_ERROR_INVALID_VALUE
| GPG_ERROR nat
| ReturnIfFail
| AssertionFailed

text \<open>
  \<open>glnx_throw_errno\<close> turns \<open>errno\<close> into a \<open>G_IO_ERROR\<close> code with
  \<open>g_io_error_from_errno\<close>: \<open>ENOENT\<close> is \<open>G_IO_ERROR_NOT_FOUND\<close>, \<open>EEXIST\<close> is
  \<open>G_IO_ERROR_EXISTS\<close>; the other values keep their identity in the model.
\<close>

fun glnx_throw_errno :: "errno \<Rightarrow> GError" where
  "glnx_throw_errno ENOENT = G_IO_ERROR_NOT_FOUND"
| "glnx_throw_errno EEXIST = G_IO_ERROR_EXISTS"
| "glnx_throw_errno e = G_IO_ERROR_ERRNO e"

subsection \<open>Key files\<close>

text \<open>
  A \<open>GKeyFile\<close> maps a group name to its keys, and a key to its raw value. The three
  GLib getters used by the repository are modelled by their documented results: a missing
  group, a missing key, and a value that does not parse are three different errors.
\<close>

type_synonym GKeyFile = "string \<Rightarrow> (string \<Rightarrow> string option) option"

definition g_key_file_get_string :: "GKeyFile \<Rightarrow> string \<Rightarrow> string \<Rightarrow> GError + string" where
  "g_key_file_get_string kf grp key =
     (case kf grp of
        None \<Rightarrow> Inl G_KEY_FILE_ERROR_GROUP_NOT_FOUND
      | Some g \<Rightarrow>
          (case g key of
             None \<Rightarrow> Inl G_KEY_FILE_ERROR_KEY_NOT_FOUND
           | Some v \<Rightarrow> Inr v))"

definition g_key_file_get_boolean :: "GKeyFile \<Rightarrow> string \<Rightarrow> string \<Rightarrow> GError + bool" where
  "g_key_file_get_boolean kf grp key =
     (case g_key_file_get_string kf grp key of
        Inl e \<Rightarrow> Inl e
      | Inr v \<Rightarrow>
          if v = ''true'' \<or> v = ''1'' then Inr True
          else if v = ''false'' \<or> v = ''0'' then Inr False
          else Inl G_KEY_FILE_ERROR_INVALID_VALUE)"

text \<open>List values are separated by \<open>;\<close>; a trailing separator ends the last element.\<close>

fun split_list_value :: "string \<Rightarrow> string \<Rightarrow> string list" where
  "split_list_value acc [] = (if acc = [] then [] else [acc])"
| "split_list_value acc (c # cs) =
     (if c = CHR '';'' then acc # split_list_value [] cs
      else split_list_value (acc @ [c]) cs)"

definition g_key_file_get_string_list ::
  "GKeyFile \<Rightarrow> string \<Rightarrow> string \<Rightarrow> GError + string list" where
  "g_key_file_get_string_list kf grp key =
     (case g_key_file_get_string kf grp key of
        Inl e \<Rightarrow> Inl e
      | Inr v \<Rightarrow> Inr (split_list_value [] v))"

subsection \<open>Files and directories\<close>

text \<open>
  \<open>struct stat\<close> with the fields the code reads, and an inode: what \<open>fstatat\<close> reports,
  the data of a regular file, the target of a symbolic link, the extended attributes, the
  decoded \<open>user.ostreemeta\<close> attribute \<open>(uid, gid, mode, xattrs)\<close> of a bare-user file,
  and the errors that \<open>openat\<close>, \<open>fstat\<close> and the reading calls (\<open>read\<close>, \<open>mmap\<close>,
  \<open>readlinkat\<close>, \<open>fgetxattr\<close>) meet on it.
\<close>

type_synonym xattr_list = "(bytes \<times> bytes) list"

record stat =
  st_mode :: u32
  st_uid :: u32
  st_gid :: u32
  st_size :: nat

record inode = stat +
  contents :: bytes
  link_target :: string
  xattrs :: xattr_list
  ostreemeta :: "(u32 \<times> u32 \<times> u32 \<times> xattr_list) option"
  open_error :: "errno option"
  fstat_error :: "errno option"
  read_error :: "errno option"

definition S_ISREG :: "u32 \<Rightarrow> bool" where
  "S_ISREG m = (m AND 0xF000 = 0x8000)"

definition S_ISLNK :: "u32 \<Rightarrow> bool" where
  "S_ISLNK m = (m AND 0xF000 = 0xA000)"

text \<open>
  A directory descriptor is the lookup of a relative path in it: the inode, or the
  \<open>errno\<close> of the lookup (\<open>ENOENT\<close> when there is no such entry).
\<close>

type_synonym dir = "string \<Rightarrow> errno + inode"

text \<open>
  \<open>fstatat\<close> is always called with \<open>AT_SYMLINK_NOFOLLOW\<close>: it reports the entry
  itself. The stat buffer it fills is the \<open>stat\<close> part of the inode it returns.
\<close>

definition fstatat :: "dir \<Rightarrow> string \<Rightarrow> errno + inode" where
  "fstatat dfd path = dfd path"

definition openat :: "dir \<Rightarrow> string \<Rightarrow> errno + inode" where
  "openat dfd path =
     (case dfd path of
        Inl e \<Rightarrow> Inl e
      | Inr f \<Rightarrow> (case open_error f of Some e \<Rightarrow> Inl e | None \<Rightarrow> Inr f))"

text \<open>\<open>unlinkat\<close> returns the \<open>errno\<close> of a failure and the directory afterwards.\<close>

definition unlinkat :: "dir \<Rightarrow> string \<Rightarrow> errno option \<times> dir" where
  "unlinkat dfd path =
     (case dfd path of
        Inl e \<Rightarrow> (Some e, dfd)
      | Inr f \<Rightarrow> (None, dfd(path := Inl ENOENT)))"

text \<open>
  \<open>ot_openat_ignore_enoent\<close> (libotutil) opens read-only; a missing entry is not an
  error and leaves the descriptor at \<open>-1\<close>, here \<open>None\<close>.
\<close>

definition ot_openat_ignore_enoent :: "dir \<Rightarrow> string \<Rightarrow> GError + inode option" where
  "ot_openat_ignore_enoent dfd path =
     (case openat dfd path of
        Inl e \<Rightarrow> if e = ENOENT then Inr None else Inl (glnx_throw_errno e)
      | Inr f \<Rightarrow> Inr (Some f))"

subsection \<open>Variants\<close>

text \<open>
  A metadata object loaded from disk is a serialised variant: its type (given by the
  object type), its bytes, and the memory that backs it.
\<close>

datatype backing = MappedFile | HeapBuffer

record GVariantBlob =
  variant_type :: OstreeObjectType
  variant_data :: bytes
  variant_backing :: backing

text \<open>Variants that the code builds itself, by the constructors it uses.\<close>

datatype GVariant =
  GV_string string
| GV_bytestring bytes
| GV_uint64 "64 word"
| GV_ay bytes
| GV_aay "bytes list"
| GV_dict "(string \<times> GVariant) list"
| GV_collection_map "(string \<times> (string \<times> nat \<times> bytes \<times> (string \<times> GVariant) list) list) list"

text \<open>
  An entry \<open>(s(taya{sv}))\<close> of a refs array of the summary: the ref name, the size of
  the commit object, the digest bytes and the metadata of the commit. A collection map
  \<open>a{sa(s(taya{sv}))}\<close> is a list of collection IDs, each with its refs array.
\<close>

type_synonym ref_entry = "string \<times> nat \<times> bytes \<times> (string \<times> GVariant) list"

subsection \<open>Loose object paths\<close>

text \<open>
  Modelled from the spec: \<open>ostree_object_type_to_string\<close>, \<open>_ostree_loose_path\<close> and
  the macro \<open>OSTREE_OBJECT_TYPE_IS_META\<close> are defined in \<open>ostree-core\<close>. The path is
  relative to the object directory: the first two characters of the digest, a slash, the
  remaining characters, a dot and the extension of the object type; \<open>.filez\<close> replaces
  \<open>.file\<close> in an archive-z2 repository. The spec names no extension for tombstones;
  \<open>commit-tombstone\<close> stands for it. Every kind but \<open>FILE\<close> is metadata.
\<close>

fun ostree_object_type_to_string :: "OstreeObjectType \<Rightarrow> string" where
  "ostree_object_type_to_string OSTREE_OBJECT_TYPE_FILE = ''file''"
| "ostree_object_type_to_string OSTREE_OBJECT_TYPE_DIR_TREE = ''dirtree''"
| "ostree_object_type_to_string OSTREE_OBJECT_TYPE_DIR_META = ''dirmeta''"
| "ostree_object_type_to_string OSTREE_OBJECT_TYPE_COMMIT = ''commit''"
| "ostree_object_type_to_string OSTREE_OBJECT_TYPE_TOMBSTONE_COMMIT = ''commit-tombstone''"
| "ostree_object_type_to_string OSTREE_OBJECT_TYPE_COMMIT_META = ''commitmeta''"

definition u_ostree_loose_path :: "string \<Rightarrow> OstreeObjectType \<Rightarrow> OstreeRepoMode \<Rightarrow> string" where
  "u_ostree_loose_path checksum objtype repo_mode =
     take 2 checksum @ ''/'' @ drop 2 checksum @ ''.'' @ ostree_object_type_to_string objtype
       @ (if objtype = OSTREE_OBJECT_TYPE_FILE \<and> repo_mode = OSTREE_REPO_MODE_ARCHIVE_Z2
          then ''z'' else [])"

definition OSTREE_OBJECT_TYPE_IS_META :: "OstreeObjectType \<Rightarrow> bool" where
  "OSTREE_OBJECT_TYPE_IS_META objtype = (objtype \<noteq> OSTREE_OBJECT_TYPE_FILE)"

subsection \<open>Remotes and the repository handle\<close>

text \<open>
  \<open>struct OstreeRemote\<close>. Its field \<open>file\<close> is \<open>origin_file\<close> here, the name being
  a keyword of Isabelle.
\<close>

record OstreeRemote =
  name :: string
  group :: string
  keyring :: string
  origin_file :: "string option"
  options :: GKeyFile

text \<open>
  The fields of \<open>struct OstreeRepo\<close> that the modelled functions read or write. The
  hash table \<open>remotes\<close> is an association list: its order is the unspecified iteration
  order of the table. \<open>objects_dir\<close> is \<open>objects_dir_fd\<close>; \<open>commit_stagedir\<close> is
  \<open>commit_stagedir_fd\<close>, \<open>None\<close> when it is \<open>-1\<close>; \<open>dirmeta_cache\<close> is \<open>None\<close>
  when the table is \<open>NULL\<close>. \<open>parent_repo\<close> is the only recursive field, so it lives in
  the datatype that wraps the record.
\<close>

record OstreeRepoSelf =
  repodir :: string
  mode :: OstreeRepoMode
  objects_dir :: dir
  commit_stagedir :: "dir option"
  dirmeta_cache :: "(string \<Rightarrow> GVariantBlob option) option"
  remotes :: "(string \<times> OstreeRemote) list"
  config :: GKeyFile
  collection_id :: "string option"
  disable_xattrs :: bool

datatype OstreeRepo =
  OstreeRepo (self_of: OstreeRepoSelf) (parent_repo: "OstreeRepo option")

section \<open>Remote options\<close>

definition u_ostree_repo_get_remote :: "OstreeRepoSelf \<Rightarrow> string \<Rightarrow> GError + OstreeRemote" where
  "u_ostree_repo_get_remote self remote_name =
     (case map_of (remotes self) remote_name of
        Some remote \<Rightarrow> Inr remote
      | None \<Rightarrow> Inl G_IO_ERROR_NOT_FOUND)"

definition u_ostree_repo_remote_name_is_file :: "string \<Rightarrow> bool" where
  "u_ostree_repo_remote_name_is_file remote_name = prefix ''file://'' remote_name"

text \<open>
  The \<open>char *\<close> default and result of \<open>ostree_repo_get_remote_option\<close> may be \<open>NULL\<close>:
  they are \<open>string option\<close>. The recursive call on the parent that passes \<open>NULL\<close> for
  \<open>error\<close> keeps the parent's value when it succeeds and drops its error otherwise.
\<close>

fun ostree_repo_get_remote_option ::
  "OstreeRepo \<Rightarrow> string \<Rightarrow> string \<Rightarrow> string option \<Rightarrow> GError + string option" where
  "ostree_repo_get_remote_option (OstreeRepo self parent) remote_name option_name default_value =
     (if u_ostree_repo_remote_name_is_file remote_name then Inr default_value
      else
        case u_ostree_repo_get_remote self remote_name of
          Inr remote \<Rightarrow>
            (case g_key_file_get_string (options remote) (group remote) option_name of
               Inr v \<Rightarrow> Inr (Some v)
             | Inl temp_error \<Rightarrow>
                 if temp_error = G_KEY_FILE_ERROR_KEY_NOT_FOUND then
                   (case parent of
                      Some p \<Rightarrow>
                        (case ostree_repo_get_remote_option p remote_name option_name
                                default_value of
                           Inr v \<Rightarrow> Inr v
                         | Inl _ \<Rightarrow> Inr default_value)
                    | None \<Rightarrow> Inr default_value)
                 else Inl temp_error)
        | Inl temp_error \<Rightarrow>
            (case parent of
               Some p \<Rightarrow> ostree_repo_get_remote_option p remote_name option_name default_value
             | None \<Rightarrow> Inl temp_error))"

fun ostree_repo_get_remote_list_option ::
  "OstreeRepo \<Rightarrow> string \<Rightarrow> string \<Rightarrow> GError + string list option" where
  "ostree_repo_get_remote_list_option (OstreeRepo self parent) remote_name option_name =
     (if u_ostree_repo_remote_name_is_file remote_name then Inr None
      else
        case u_ostree_repo_get_remote self remote_name of
          Inr remote \<Rightarrow>
            (case g_key_file_get_string_list (options remote) (group remote) option_name of
               Inr v \<Rightarrow> Inr (Some v)
             | Inl temp_error \<Rightarrow>
                 if temp_error = G_KEY_FILE_ERROR_KEY_NOT_FOUND then
                   (case parent of
                      Some p \<Rightarrow>
                        (case ostree_repo_get_remote_list_option p remote_name option_name of
                           Inr v \<Rightarrow> Inr v
                         | Inl _ \<Rightarrow> Inr None)
                    | None \<Rightarrow> Inr None)
                 else Inl temp_error)
        | Inl temp_error \<Rightarrow>
            (case parent of
               Some p \<Rightarrow> ostree_repo_get_remote_list_option p remote_name option_name
             | None \<Rightarrow> Inl temp_error))"

fun ostree_repo_get_remote_boolean_option ::
  "OstreeRepo \<Rightarrow> string \<Rightarrow> string \<Rightarrow> bool \<Rightarrow> GError + bool" where
  "ostree_repo_get_remote_boolean_option (OstreeRepo self parent) remote_name option_name
       default_value =
     (if u_ostree_repo_remote_name_is_file remote_name then Inr default_value
      else
        case u_ostree_repo_get_remote self remote_name of
          Inr remote \<Rightarrow>
            (case g_key_file_get_boolean (options remote) (group remote) option_name of
               Inr v \<Rightarrow> Inr v
             | Inl temp_error \<Rightarrow>
                 if temp_error = G_KEY_FILE_ERROR_KEY_NOT_FOUND then
                   (case parent of
                      Some p \<Rightarrow>
                        (case ostree_repo_get_remote_boolean_option p remote_name option_name
                                default_value of
                           Inr v \<Rightarrow> Inr v
                         | Inl _ \<Rightarrow> Inr default_value)
                    | None \<Rightarrow> Inr default_value)
                 else Inl temp_error)
        | Inl temp_error \<Rightarrow>
            (case parent of
               Some p \<Rightarrow>
                 ostree_repo_get_remote_boolean_option p remote_name option_name default_value
             | None \<Rightarrow> Inl temp_error))"

definition ostree_repo_remote_get_gpg_verify :: "OstreeRepo \<Rightarrow> string \<Rightarrow> GError + bool" where
  "ostree_repo_remote_get_gpg_verify self remote_name =
     (if u_ostree_repo_remote_name_is_file remote_name then Inr False
      else ostree_repo_get_remote_boolean_option self remote_name ''gpg-verify'' True)"

section \<open>Listing remotes\<close>

text \<open>
  The output hash table of \<open>_ostree_repo_remote_list\<close> has keys only: it is the list of
  its keys, and \<open>g_hash_table_insert\<close> of a key that is present leaves the keys as they
  are. The helper calls itself on \<open>self\<close> when a parent repository is set, so it need not
  return: its result is an \<open>option\<close>, \<open>None\<close> when the call does not return.
\<close>

partial_function (option) u_ostree_repo_remote_list ::
  "OstreeRepo \<Rightarrow> string list \<Rightarrow> string list option" where
  "u_ostree_repo_remote_list self out =
     (if parent_repo self \<noteq> None
      then u_ostree_repo_remote_list self
             (fold List.insert (map fst (remotes (self_of self))) out)
      else Some (fold List.insert (map fst (remotes (self_of self))) out))"

text \<open>
  \<open>ostree_repo_remote_list\<close> returns the array (\<open>NULL\<close> when there is no remote) and
  the count written to \<open>out_n_remotes\<close>. \<open>g_list_sort\<close> with \<open>strcmp\<close> sorts by the
  lexicographic order of the bytes, which is the order of \<open>string\<close> here.
\<close>

definition ostree_repo_remote_list :: "OstreeRepo \<Rightarrow> (string list option \<times> nat) option" where
  "ostree_repo_remote_list self =
     (case u_ostree_repo_remote_list self [] of
        None \<Rightarrow> None
      | Some remotes_ht \<Rightarrow>
          Some (if length remotes_ht > 0 then Some (sort remotes_ht) else None,
                length remotes_ht))"

section \<open>Loading metadata objects\<close>

text \<open>
  The three out-parameters of \<open>load_metadata_internal\<close> are requested by a non-\<open>NULL\<close>
  pointer: \<open>want_variant\<close>, \<open>want_stream\<close>, \<open>want_size\<close>. A stream is the inode it
  reads. The function may store into the dirmeta cache, so it returns the repository too.
\<close>

record metadata_out =
  out_variant :: "GVariantBlob option"
  out_stream :: "inode option"
  out_size :: "nat option"

definition dirmeta_cache_lookup :: "OstreeRepoSelf \<Rightarrow> string \<Rightarrow> GVariantBlob option" where
  "dirmeta_cache_lookup self sha256 =
     (case dirmeta_cache self of None \<Rightarrow> None | Some cache \<Rightarrow> cache sha256)"

definition dirmeta_cache_replace :: "OstreeRepoSelf \<Rightarrow> string \<Rightarrow> GVariantBlob \<Rightarrow> OstreeRepoSelf" where
  "dirmeta_cache_replace self sha256 v =
     (case dirmeta_cache self of
        None \<Rightarrow> self
      | Some cache \<Rightarrow> self\<lparr>dirmeta_cache := Some (cache(sha256 \<mapsto> v))\<rparr>)"

text \<open>
  Lines 2565 to 2596: the variant of an open metadata file. Above 16 KiB the file is
  mapped and the variant borrows the mapping; otherwise it is read into a heap buffer.
\<close>

definition variant_from_fd :: "OstreeObjectType \<Rightarrow> inode \<Rightarrow> GError + GVariantBlob" where
  "variant_from_fd objtype fd =
     (if st_size fd > 16 * 1024 then
        (case read_error fd of
           Some e \<Rightarrow> Inl (glnx_throw_errno e)
         | None \<Rightarrow>
             Inr \<lparr>variant_type = objtype, variant_data = contents fd,
                  variant_backing = MappedFile\<rparr>)
      else
        (case read_error fd of
           Some e \<Rightarrow> Inl (glnx_throw_errno e)
         | None \<Rightarrow>
             Inr \<lparr>variant_type = objtype, variant_data = contents fd,
                  variant_backing = HeapBuffer\<rparr>))"

text \<open>
  Lines 2552 to 2563: the object directory is opened first, and the commit staging
  directory only when the object directory has no such file and a staging directory is
  open.
\<close>

definition metadata_open :: "OstreeRepoSelf \<Rightarrow> string \<Rightarrow> GError + inode option" where
  "metadata_open self loose_path_buf =
     (case ot_openat_ignore_enoent (objects_dir self) loose_path_buf of
        Inl e \<Rightarrow> Inl e
      | Inr (Some fd) \<Rightarrow> Inr (Some fd)
      | Inr None \<Rightarrow>
          (case commit_stagedir self of
             None \<Rightarrow> Inr None
           | Some stagedir \<Rightarrow> ot_openat_ignore_enoent stagedir loose_path_buf))"

text \<open>
  The parent is asked through \<open>ostree_repo_load_variant\<close>, that is
  \<open>load_metadata_internal\<close> with \<open>error_if_not_found\<close> set and the variant alone
  requested; the stream and the size of the caller are then left unset.
\<close>

fun load_metadata_internal ::
  "OstreeRepo \<Rightarrow> OstreeObjectType \<Rightarrow> string \<Rightarrow> bool \<Rightarrow> bool \<Rightarrow> bool \<Rightarrow> bool
     \<Rightarrow> (GError + metadata_out) \<times> OstreeRepo" where
  "load_metadata_internal (OstreeRepo self parent) objtype sha256 error_if_not_found
       want_variant want_stream want_size =
     (if \<not> OSTREE_OBJECT_TYPE_IS_META objtype then (Inl ReturnIfFail, OstreeRepo self parent)
      else if objtype = OSTREE_OBJECT_TYPE_DIR_META \<and> want_variant \<and> \<not> want_stream
              \<and> dirmeta_cache_lookup self sha256 \<noteq> None
      then (Inr \<lparr>out_variant = dirmeta_cache_lookup self sha256, out_stream = None,
                 out_size = None\<rparr>, OstreeRepo self parent)
      else
        case metadata_open self (u_ostree_loose_path sha256 objtype (mode self)) of
          Inl e \<Rightarrow> (Inl e, OstreeRepo self parent)
        | Inr (Some fd) \<Rightarrow>
            (case fstat_error fd of
               Some e \<Rightarrow> (Inl (glnx_throw_errno e), OstreeRepo self parent)
             | None \<Rightarrow>
                 if want_variant then
                   (case variant_from_fd objtype fd of
                      Inl e \<Rightarrow> (Inl e, OstreeRepo self parent)
                    | Inr ret_variant \<Rightarrow>
                        (Inr \<lparr>out_variant = Some ret_variant, out_stream = None,
                              out_size = (if want_size then Some (st_size fd) else None)\<rparr>,
                         OstreeRepo
                           (if objtype = OSTREE_OBJECT_TYPE_DIR_META \<and> \<not> want_stream
                            then dirmeta_cache_replace self sha256 ret_variant else self)
                           parent))
                 else
                   (Inr \<lparr>out_variant = None,
                         out_stream = (if want_stream then Some fd else None),
                         out_size = (if want_size then Some (st_size fd) else None)\<rparr>,
                    OstreeRepo self parent))
        | Inr None \<Rightarrow>
            (case parent of
               Some p \<Rightarrow>
                 (case load_metadata_internal p objtype sha256 True True False False of
                    (Inl e, p') \<Rightarrow> (Inl e, OstreeRepo self (Some p'))
                  | (Inr r, p') \<Rightarrow>
                      (Inr \<lparr>out_variant = (if want_variant then out_variant r else None),
                            out_stream = None, out_size = None\<rparr>,
                       OstreeRepo self (Some p')))
             | None \<Rightarrow>
                 if error_if_not_found then (Inl G_IO_ERROR_NOT_FOUND, OstreeRepo self parent)
                 else (Inr \<lparr>out_variant = None, out_stream = None, out_size = None\<rparr>,
                       OstreeRepo self parent)))"

definition ostree_repo_load_variant ::
  "OstreeRepo \<Rightarrow> OstreeObjectType \<Rightarrow> string \<Rightarrow> (GError + GVariantBlob option) \<times> OstreeRepo" where
  "ostree_repo_load_variant self objtype sha256 =
     (case load_metadata_internal self objtype sha256 True True False False of
        (Inl e, self') \<Rightarrow> (Inl e, self')
      | (Inr r, self') \<Rightarrow> (Inr (out_variant r), self'))"

definition ostree_repo_load_variant_if_exists ::
  "OstreeRepo \<Rightarrow> OstreeObjectType \<Rightarrow> string \<Rightarrow> (GError + GVariantBlob option) \<times> OstreeRepo" where
  "ostree_repo_load_variant_if_exists self objtype sha256 =
     (case load_metadata_internal self objtype sha256 False True False False of
        (Inl e, self') \<Rightarrow> (Inl e, self')
      | (Inr r, self') \<Rightarrow> (Inr (out_variant r), self'))"

section \<open>Loading content objects\<close>

text \<open>
  The out-parameters of \<open>_ostree_repo_load_file_bare\<close>, each requested by a non-\<open>NULL\<close>
  pointer. \<open>bare_fd\<close> is the open file, \<open>None\<close> for \<open>-1\<close>.
\<close>

record file_bare_out =
  bare_fd :: "inode option"
  bare_stbuf :: "stat option"
  bare_symlink :: "string option"
  bare_xattrs :: "xattr_list option"

text \<open>
  Lines 2728 to 2736: \<open>fstatat\<close> in the object directory, and in the commit staging
  directory when the first sets \<open>ENOENT\<close> and a staging directory is open. The result is
  the directory that was asked last and what it answered.
\<close>

definition load_file_bare_locate :: "OstreeRepoSelf \<Rightarrow> string \<Rightarrow> dir \<times> (errno + inode)" where
  "load_file_bare_locate self loose_path_buf =
     (case fstatat (objects_dir self) loose_path_buf of
        Inr f \<Rightarrow> (objects_dir self, Inr f)
      | Inl e \<Rightarrow>
          (case commit_stagedir self of
             None \<Rightarrow> (objects_dir self, Inl e)
           | Some stagedir \<Rightarrow>
               if e = ENOENT then (stagedir, fstatat stagedir loose_path_buf)
               else (objects_dir self, Inl e)))"

text \<open>
  Lines 2773 to 2834: identity and extended attributes by storage mode, for an entry
  that is a regular file or a symbolic link. \<open>fd\<close> is the descriptor opened before, if any.
  The result is the descriptor, the stat buffer, the symbolic link target and the
  extended attributes as they stand before the out-parameters are filled.
\<close>

definition PATH_MAX :: nat where
  "PATH_MAX = 4096"

definition load_file_bare_project ::
  "OstreeRepoSelf \<Rightarrow> inode \<Rightarrow> inode option \<Rightarrow> string option \<Rightarrow> bool \<Rightarrow> bool
     \<Rightarrow> GError + file_bare_out" where
  "load_file_bare_project self f fd ret_symlink want_symlink want_xattrs =
     (if mode self = OSTREE_REPO_MODE_BARE_USER then
        (case fd of
           None \<Rightarrow> Inl (glnx_throw_errno EBADF)
         | Some g \<Rightarrow>
             (case read_error g of
                Some e \<Rightarrow> Inl (glnx_throw_errno e)
              | None \<Rightarrow>
                  (case ostreemeta g of
                     None \<Rightarrow> Inl (glnx_throw_errno ENODATA)
                   | Some (uid, gid, file_mode, file_xattrs) \<Rightarrow>
                       if S_ISLNK file_mode then
                         Inr \<lparr>bare_fd = None,
                              bare_stbuf = Some ((stat.truncate f)
                                \<lparr>st_uid := uid, st_gid := gid, st_mode := file_mode\<rparr>),
                              bare_symlink =
                                (if want_symlink then Some (take (PATH_MAX + 1) (contents g))
                                 else ret_symlink),
                              bare_xattrs = Some file_xattrs\<rparr>
                       else
                         Inr \<lparr>bare_fd = fd,
                              bare_stbuf = Some ((stat.truncate f)
                                \<lparr>st_uid := uid, st_gid := gid, st_mode := file_mode\<rparr>),
                              bare_symlink = ret_symlink,
                              bare_xattrs = Some file_xattrs\<rparr>)))
      else if mode self = OSTREE_REPO_MODE_BARE_USER_ONLY then
        Inr \<lparr>bare_fd = fd,
             bare_stbuf = Some ((stat.truncate f)\<lparr>st_uid := 0, st_gid := 0\<rparr>),
             bare_symlink = ret_symlink,
             bare_xattrs = (if want_xattrs then Some [] else None)\<rparr>
      else if mode self \<noteq> OSTREE_REPO_MODE_BARE then Inl AssertionFailed
      else if S_ISREG (st_mode f) \<and> want_xattrs then
        (if disable_xattrs self then
           Inr \<lparr>bare_fd = fd, bare_stbuf = Some (stat.truncate f),
                bare_symlink = ret_symlink, bare_xattrs = Some []\<rparr>
         else
           (case fd of
              None \<Rightarrow> Inl (glnx_throw_errno EBADF)
            | Some g \<Rightarrow>
                (case read_error g of
                   Some e \<Rightarrow> Inl (glnx_throw_errno e)
                 | None \<Rightarrow>
                     Inr \<lparr>bare_fd = fd, bare_stbuf = Some (stat.truncate f),
                          bare_symlink = ret_symlink, bare_xattrs = Some (xattrs g)\<rparr>)))
      else if S_ISLNK (st_mode f) \<and> want_xattrs then
        (if disable_xattrs self then
           Inr \<lparr>bare_fd = fd, bare_stbuf = Some (stat.truncate f),
                bare_symlink = ret_symlink, bare_xattrs = Some []\<rparr>
         else
           (case read_error f of
              Some e \<Rightarrow> Inl (glnx_throw_errno e)
            | None \<Rightarrow>
                Inr \<lparr>bare_fd = fd, bare_stbuf = Some (stat.truncate f),
                     bare_symlink = ret_symlink, bare_xattrs = Some (xattrs f)\<rparr>))
      else
        Inr \<lparr>bare_fd = fd, bare_stbuf = Some (stat.truncate f),
             bare_symlink = ret_symlink, bare_xattrs = None\<rparr>)"

text \<open>
  \<open>_ostree_repo_load_file_bare\<close> takes a repository that may be \<open>NULL\<close>: the bottom
  of the recursion on the parent.
\<close>

fun u_ostree_repo_load_file_bare ::
  "OstreeRepo option \<Rightarrow> string \<Rightarrow> bool \<Rightarrow> bool \<Rightarrow> bool \<Rightarrow> bool \<Rightarrow> GError + file_bare_out" where
  "u_ostree_repo_load_file_bare None checksum want_fd want_stbuf want_symlink want_xattrs =
     Inl G_IO_ERROR_NOT_FOUND"
| "u_ostree_repo_load_file_bare (Some (OstreeRepo self parent)) checksum want_fd want_stbuf
       want_symlink want_xattrs =
     (case load_file_bare_locate self
             (u_ostree_loose_path checksum OSTREE_OBJECT_TYPE_FILE (mode self)) of
        (objdir_fd, Inl e) \<Rightarrow>
          if e \<noteq> ENOENT then Inl (glnx_throw_errno e)
          else u_ostree_repo_load_file_bare parent checksum want_fd want_stbuf want_symlink
                 want_xattrs
      | (objdir_fd, Inr f) \<Rightarrow>
          (case (if (want_fd \<or> want_xattrs \<or> mode self = OSTREE_REPO_MODE_BARE_USER)
                    \<and> S_ISREG (st_mode f)
                 then (case openat objdir_fd
                              (u_ostree_loose_path checksum OSTREE_OBJECT_TYPE_FILE (mode self)) of
                         Inl e \<Rightarrow> Inl (glnx_throw_errno e)
                       | Inr g \<Rightarrow> Inr (Some g))
                 else Inr None) of
             Inl e \<Rightarrow> Inl e
           | Inr fd \<Rightarrow>
               if \<not> (S_ISREG (st_mode f) \<or> S_ISLNK (st_mode f)) then Inl G_IO_ERROR_FAILED
               else
                 (case (if mode self \<noteq> OSTREE_REPO_MODE_BARE_USER \<and> S_ISLNK (st_mode f)
                           \<and> want_symlink
                        then (case read_error f of
                                Some e \<Rightarrow> Inl (glnx_throw_errno e)
                              | None \<Rightarrow> Inr (Some (link_target f)))
                        else Inr None) of
                    Inl e \<Rightarrow> Inl e
                  | Inr ret_symlink \<Rightarrow>
                      (case load_file_bare_project self f fd ret_symlink want_symlink
                              want_xattrs of
                         Inl e \<Rightarrow> Inl e
                       | Inr r \<Rightarrow>
                           Inr \<lparr>bare_fd = (if want_fd then bare_fd r else None),
                                bare_stbuf = (if want_stbuf then bare_stbuf r else None),
                                bare_symlink = (if want_symlink then bare_symlink r else None),
                                bare_xattrs = (if want_xattrs then bare_xattrs r else None)\<rparr>))))"

text \<open>
  The three parts of a content object as \<open>ostree_repo_load_file\<close> returns them. The file
  information is the stat buffer and, for a symbolic link, its target.
\<close>

record load_file_out =
  out_input :: "inode option"
  out_file_info :: "(stat \<times> string option) option"
  out_xattrs :: "xattr_list option"

text \<open>
  \<open>ostree_content_stream_parse\<close> (ostree-core) decodes an archive-z2 file; it is the
  parameter \<open>parse\<close>, applied to the open file.
\<close>

type_synonym content_stream_parse = "inode \<Rightarrow> GError + load_file_out"

definition archive_open :: "OstreeRepoSelf \<Rightarrow> string \<Rightarrow> GError + inode option" where
  "archive_open self loose_path_buf =
     (case ot_openat_ignore_enoent (objects_dir self) loose_path_buf of
        Inl e \<Rightarrow> Inl e
      | Inr (Some fd) \<Rightarrow> Inr (Some fd)
      | Inr None \<Rightarrow>
          (case commit_stagedir self of
             None \<Rightarrow> Inr None
           | Some stagedir \<Rightarrow> ot_openat_ignore_enoent stagedir loose_path_buf))"

fun ostree_repo_load_file ::
  "content_stream_parse \<Rightarrow> OstreeRepo \<Rightarrow> string \<Rightarrow> bool \<Rightarrow> bool \<Rightarrow> bool
     \<Rightarrow> GError + load_file_out"
and repo_load_file_archive ::
  "content_stream_parse \<Rightarrow> OstreeRepo \<Rightarrow> string \<Rightarrow> bool \<Rightarrow> bool \<Rightarrow> bool
     \<Rightarrow> GError + load_file_out" where
  "ostree_repo_load_file parse (OstreeRepo self parent) checksum want_input want_file_info
       want_xattrs =
     (if mode self = OSTREE_REPO_MODE_ARCHIVE_Z2
      then repo_load_file_archive parse (OstreeRepo self parent) checksum want_input
             want_file_info want_xattrs
      else
        case u_ostree_repo_load_file_bare (Some (OstreeRepo self parent)) checksum want_input
               want_file_info want_file_info want_xattrs of
          Inl e \<Rightarrow> Inl e
        | Inr r \<Rightarrow>
            (case bare_stbuf r of
               None \<Rightarrow>
                 Inr \<lparr>out_input = bare_fd r, out_file_info = None,
                      out_xattrs = bare_xattrs r\<rparr>
             | Some stbuf \<Rightarrow>
                 if S_ISLNK (st_mode stbuf) then
                   Inr \<lparr>out_input = bare_fd r,
                        out_file_info = Some (stbuf, bare_symlink r),
                        out_xattrs = bare_xattrs r\<rparr>
                 else if \<not> S_ISREG (st_mode stbuf) then Inl AssertionFailed
                 else
                   Inr \<lparr>out_input = bare_fd r, out_file_info = Some (stbuf, None),
                        out_xattrs = bare_xattrs r\<rparr>))"
| "repo_load_file_archive parse (OstreeRepo self parent) checksum want_input want_file_info
       want_xattrs =
     (case archive_open self
             (u_ostree_loose_path checksum OSTREE_OBJECT_TYPE_FILE (mode self)) of
        Inl e \<Rightarrow> Inl e
      | Inr (Some fd) \<Rightarrow>
          (case fstat_error fd of
             Some e \<Rightarrow> Inl (glnx_throw_errno e)
           | None \<Rightarrow>
               (case parse fd of
                  Inl e \<Rightarrow> Inl e
                | Inr r \<Rightarrow>
                    Inr \<lparr>out_input = (if want_input then out_input r else None),
                         out_file_info = (if want_file_info then out_file_info r else None),
                         out_xattrs = (if want_xattrs then out_xattrs r else None)\<rparr>))
      | Inr None \<Rightarrow>
          (case parent of
             Some p \<Rightarrow>
               ostree_repo_load_file parse p checksum want_input want_file_info want_xattrs
           | None \<Rightarrow> Inl G_IO_ERROR_NOT_FOUND))"

section \<open>Existence of objects\<close>

text \<open>
  The loop of \<open>_ostree_repo_has_loose_object\<close> over the array
  \<open>{commit_stagedir_fd, objects_dir_fd}\<close>: a descriptor of \<open>-1\<close> is skipped, \<open>ENOENT\<close>
  moves on to the next one, another error is returned, and a hit ends the loop.
\<close>

fun dfd_searches_loop :: "dir option list \<Rightarrow> string \<Rightarrow> GError + bool" where
  "dfd_searches_loop [] loose_path_buf = Inr False"
| "dfd_searches_loop (None # dfds) loose_path_buf = dfd_searches_loop dfds loose_path_buf"
| "dfd_searches_loop (Some dfd # dfds) loose_path_buf =
     (case fstatat dfd loose_path_buf of
        Inl e \<Rightarrow>
          if e = ENOENT then dfd_searches_loop dfds loose_path_buf
          else Inl (glnx_throw_errno e)
      | Inr stbuf \<Rightarrow> Inr True)"

definition u_ostree_repo_has_loose_object ::
  "OstreeRepoSelf \<Rightarrow> string \<Rightarrow> OstreeObjectType \<Rightarrow> GError + bool" where
  "u_ostree_repo_has_loose_object self checksum objtype =
     dfd_searches_loop [commit_stagedir self, Some (objects_dir self)]
       (u_ostree_loose_path checksum objtype (mode self))"

fun ostree_repo_has_object :: "OstreeRepo \<Rightarrow> OstreeObjectType \<Rightarrow> string \<Rightarrow> GError + bool" where
  "ostree_repo_has_object (OstreeRepo self parent) objtype checksum =
     (case u_ostree_repo_has_loose_object self checksum objtype of
        Inl e \<Rightarrow> Inl e
      | Inr ret_have_object \<Rightarrow>
          if \<not> ret_have_object then
            (case parent of
               Some p \<Rightarrow> ostree_repo_has_object p objtype checksum
             | None \<Rightarrow> Inr ret_have_object)
          else Inr ret_have_object)"

section \<open>Deleting objects\<close>

text \<open>
  \<open>ot_keyfile_get_boolean_with_default\<close> (libotutil) is not in this file. Like the
  remote option getters above, it takes a missing key for the default and returns any
  other error of the key file.
\<close>

definition ot_keyfile_get_boolean_with_default ::
  "GKeyFile \<Rightarrow> string \<Rightarrow> string \<Rightarrow> bool \<Rightarrow> GError + bool" where
  "ot_keyfile_get_boolean_with_default keyfile section_name key default_value =
     (case g_key_file_get_boolean keyfile section_name key of
        Inr v \<Rightarrow> Inr v
      | Inl e \<Rightarrow> if e = G_KEY_FILE_ERROR_KEY_NOT_FOUND then Inr default_value else Inl e)"

text \<open>
  \<open>ostree_repo_write_metadata_trusted\<close> is defined in \<open>ostree-repo-commit.c\<close>: it is the
  parameter \<open>write_metadata_trusted\<close>, from the repository, the object type, the digest
  and the variant to an optional error and the repository afterwards.
\<close>

type_synonym write_metadata_trusted =
  "OstreeRepo \<Rightarrow> OstreeObjectType \<Rightarrow> string \<Rightarrow> GVariant \<Rightarrow> GError option \<times> OstreeRepo"

text \<open>
  \<open>ostree_repo_delete_object\<close> returns the error, if any, and the repository as the call
  leaves it, also when it fails.
\<close>

definition ostree_repo_delete_object ::
  "write_metadata_trusted \<Rightarrow> OstreeRepo \<Rightarrow> OstreeObjectType \<Rightarrow> string
     \<Rightarrow> GError option \<times> OstreeRepo" where
  "ostree_repo_delete_object write_metadata_trusted repo objtype sha256 =
     (case repo of OstreeRepo self parent \<Rightarrow>
        (case (if objtype = OSTREE_OBJECT_TYPE_COMMIT
               then unlinkat (objects_dir self)
                      (u_ostree_loose_path sha256 OSTREE_OBJECT_TYPE_COMMIT_META (mode self))
               else (None, objects_dir self)) of
           (meta_res, objects1) \<Rightarrow>
             if meta_res \<noteq> None \<and> meta_res \<noteq> Some ENOENT
             then (map_option glnx_throw_errno meta_res,
                   OstreeRepo (self\<lparr>objects_dir := objects1\<rparr>) parent)
             else
               (case unlinkat objects1 (u_ostree_loose_path sha256 objtype (mode self)) of
                  (Some e, objects2) \<Rightarrow>
                    (Some (glnx_throw_errno e),
                     OstreeRepo (self\<lparr>objects_dir := objects2\<rparr>) parent)
                | (None, objects2) \<Rightarrow>
                    if objtype = OSTREE_OBJECT_TYPE_COMMIT then
                      (case ot_keyfile_get_boolean_with_default (config self) ''core''
                              ''tombstone-commits'' False of
                         Inl e \<Rightarrow>
                           (Some e, OstreeRepo (self\<lparr>objects_dir := objects2\<rparr>) parent)
                       | Inr tombstone_commits \<Rightarrow>
                           if tombstone_commits then
                             write_metadata_trusted
                               (OstreeRepo (self\<lparr>objects_dir := objects2\<rparr>) parent)
                               OSTREE_OBJECT_TYPE_TOMBSTONE_COMMIT sha256
                               (GV_dict [(''commit'', GV_bytestring sha256)])
                           else (None, OstreeRepo (self\<lparr>objects_dir := objects2\<rparr>) parent))
                    else (None, OstreeRepo (self\<lparr>objects_dir := objects2\<rparr>) parent))))"

section \<open>Signatures on commits\<close>

text \<open>
  \<open>g_variant_lookup_value\<close> on an \<open>a{sv}\<close> dictionary is \<open>map_of\<close>;
  \<open>g_variant_dict_insert_value\<close> replaces the value of a key that is there and adds the
  entry otherwise.
\<close>

fun g_variant_dict_insert_value ::
  "(string \<times> GVariant) list \<Rightarrow> string \<Rightarrow> GVariant \<Rightarrow> (string \<times> GVariant) list" where
  "g_variant_dict_insert_value [] key v = [(key, v)]"
| "g_variant_dict_insert_value ((k, w) # dict) key v =
     (if k = key then (key, v) # dict else (k, w) # g_variant_dict_insert_value dict key v)"

text \<open>
  The signatures of a detached-metadata dictionary: the array of type \<open>aay\<close> under
  \<open>ostree.gpgsigs\<close>, if there is one of that type.
\<close>

definition lookup_gpgsigs :: "(string \<times> GVariant) list option \<Rightarrow> bytes list option" where
  "lookup_gpgsigs metadata =
     (case metadata of
        None \<Rightarrow> None
      | Some dict \<Rightarrow>
          (case map_of dict ''ostree.gpgsigs'' of
             Some (GV_aay sigs) \<Rightarrow> Some sigs
           | _ \<Rightarrow> None))"

text \<open>
  Modelled from the spec: \<open>_ostree_detached_metadata_append_gpg_sig\<close> is defined in
  \<open>ostree-core\<close>. It appends the signature to the array under the key
  \<open>ostree.gpgsigs\<close> of the detached-metadata dictionary, which it creates when the
  metadata or the key is missing.
\<close>

definition u_ostree_detached_metadata_append_gpg_sig ::
  "(string \<times> GVariant) list option \<Rightarrow> bytes \<Rightarrow> (string \<times> GVariant) list" where
  "u_ostree_detached_metadata_append_gpg_sig existing_metadata signature_bytes =
     g_variant_dict_insert_value
       (case existing_metadata of None \<Rightarrow> [] | Some dict \<Rightarrow> dict)
       ''ostree.gpgsigs''
       (GV_aay ((case lookup_gpgsigs existing_metadata of None \<Rightarrow> [] | Some sigs \<Rightarrow> sigs)
                @ [signature_bytes]))"

text \<open>
  The remote a verification is for: \<open>NULL\<close>, the sentinel pointer
  \<open>OSTREE_ALL_REMOTES\<close>, or a name. The verifier is the list of key sources added to it.
\<close>

datatype remote_selector = NO_REMOTE | OSTREE_ALL_REMOTES | REMOTE_NAMED string

datatype keyring_source =
  KEYRING_DIR string
| KEYRING_FILE string
| KEY_ASCII_FILE string
| GLOBAL_KEYRING_DIR

text \<open>
  What the signature code calls outside this file: the reader and writer of detached
  metadata (\<open>ostree-repo-commit.c\<close>), the file tests of \<open>find_keyring\<close>, the GPG verifier
  with its result type \<open>'r\<close>, and the GPGME calls of \<open>sign_data\<close>. A GPGME error is its
  code, \<open>0\<close> for \<open>GPG_ERR_NO_ERROR\<close>.
\<close>

record 'r signature_engine =
  read_commit_detached_metadata ::
    "OstreeRepo \<Rightarrow> string \<Rightarrow> GError + (string \<times> GVariant) list option"
  write_commit_detached_metadata ::
    "OstreeRepo \<Rightarrow> string \<Rightarrow> (string \<times> GVariant) list \<Rightarrow> GError option \<times> OstreeRepo"
  g_file_query_exists :: "string \<Rightarrow> bool"
  get_remotes_d_dir :: "OstreeRepoSelf \<Rightarrow> string option"
  gpg_verifier_add_keyring_dir :: "string \<Rightarrow> GError option"
  gpg_verifier_add_global_keyring_dir :: "GError option"
  gpg_verifier_check_signature :: "keyring_source list \<Rightarrow> bytes \<Rightarrow> bytes \<Rightarrow> GError + 'r"
  gpg_verify_result_lookup :: "'r \<Rightarrow> string \<Rightarrow> bool"
  glnx_open_tmpfile_linkable_at :: "GError option"
  ot_gpgme_new_ctx :: "string option \<Rightarrow> GError option"
  gpgme_get_key :: "string option \<Rightarrow> string \<Rightarrow> nat + string"
  gpgme_signers_add :: "string \<Rightarrow> nat"
  gpgme_data_new_from_mem :: "bytes \<Rightarrow> nat"
  gpgme_op_sign :: "string option \<Rightarrow> string \<Rightarrow> bytes \<Rightarrow> nat + bytes"
  g_output_stream_close :: "GError option"
  g_mapped_file_new_from_fd :: "GError option"

definition GPG_ERR_EOF :: nat where
  "GPG_ERR_EOF = 16383"

text \<open>\<open>ot_gpgme_error_to_gio_error\<close> (libotutil) keeps the code in the model.\<close>

definition ot_gpgme_error_to_gio_error :: "nat \<Rightarrow> GError" where
  "ot_gpgme_error_to_gio_error err = GPG_ERROR err"

definition sign_data ::
  "'r signature_engine \<Rightarrow> bytes \<Rightarrow> string \<Rightarrow> string option \<Rightarrow> GError + bytes" where
  "sign_data engine input_data key_id homedir =
     (case glnx_open_tmpfile_linkable_at engine of
        Some e \<Rightarrow> Inl e
      | None \<Rightarrow>
     (case ot_gpgme_new_ctx engine homedir of
        Some e \<Rightarrow> Inl e
      | None \<Rightarrow>
     (case gpgme_get_key engine homedir key_id of
        Inl err \<Rightarrow>
          if err = GPG_ERR_EOF then Inl G_IO_ERROR_FAILED
          else Inl (ot_gpgme_error_to_gio_error err)
      | Inr key \<Rightarrow>
          if gpgme_signers_add engine key \<noteq> 0
          then Inl (ot_gpgme_error_to_gio_error (gpgme_signers_add engine key))
          else if gpgme_data_new_from_mem engine input_data \<noteq> 0
          then Inl (ot_gpgme_error_to_gio_error (gpgme_data_new_from_mem engine input_data))
          else
            (case gpgme_op_sign engine homedir key input_data of
               Inl err \<Rightarrow> Inl (ot_gpgme_error_to_gio_error err)
             | Inr ret_signature \<Rightarrow>
                 (case g_output_stream_close engine of
                    Some e \<Rightarrow> Inl e
                  | None \<Rightarrow>
                      (case g_mapped_file_new_from_fd engine of
                         Some e \<Rightarrow> Inl e
                       | None \<Rightarrow> Inr ret_signature))))))"

fun u_ostree_repo_get_remote_inherited :: "OstreeRepo \<Rightarrow> string \<Rightarrow> GError + OstreeRemote" where
  "u_ostree_repo_get_remote_inherited (OstreeRepo self parent) remote_name =
     (case u_ostree_repo_get_remote self remote_name of
        Inr remote \<Rightarrow> Inr remote
      | Inl temp_error \<Rightarrow>
          (case parent of
             Some p \<Rightarrow> u_ostree_repo_get_remote_inherited p remote_name
           | None \<Rightarrow> Inl temp_error))"

fun find_keyring :: "'r signature_engine \<Rightarrow> OstreeRepo \<Rightarrow> OstreeRemote \<Rightarrow> string option" where
  "find_keyring engine (OstreeRepo self parent) remote =
     (if g_file_query_exists engine (repodir self @ ''/'' @ keyring remote)
      then Some (repodir self @ ''/'' @ keyring remote)
      else
        case (case get_remotes_d_dir engine self of
                None \<Rightarrow> None
              | Some remotes_d \<Rightarrow>
                  if g_file_query_exists engine (remotes_d @ ''/'' @ keyring remote)
                  then Some (remotes_d @ ''/'' @ keyring remote) else None) of
          Some file2 \<Rightarrow> Some file2
        | None \<Rightarrow>
            (case parent of
               Some p \<Rightarrow> find_keyring engine p remote
             | None \<Rightarrow> None))"

text \<open>
  \<open>ot_keyfile_get_value_with_default\<close> (libotutil), like its boolean sibling: a missing
  key gives the default.
\<close>

definition ot_keyfile_get_value_with_default ::
  "GKeyFile \<Rightarrow> string \<Rightarrow> string \<Rightarrow> string option \<Rightarrow> GError + string option" where
  "ot_keyfile_get_value_with_default keyfile section_name key default_value =
     (case g_key_file_get_string keyfile section_name key of
        Inr v \<Rightarrow> Inr (Some v)
      | Inl e \<Rightarrow> if e = G_KEY_FILE_ERROR_KEY_NOT_FOUND then Inr default_value else Inl e)"

text \<open>
  Lines 4247 to 4283 of \<open>_ostree_repo_gpg_verify_data_internal\<close>: the key sources that
  the remote gives, and whether the global keyring directory is still to be added.
\<close>

definition verifier_for_remote ::
  "'r signature_engine \<Rightarrow> OstreeRepo \<Rightarrow> remote_selector \<Rightarrow> GError + keyring_source list \<times> bool" where
  "verifier_for_remote engine repo remote_name =
     (case remote_name of
        OSTREE_ALL_REMOTES \<Rightarrow>
          (case gpg_verifier_add_keyring_dir engine (repodir (self_of repo)) of
             Some e \<Rightarrow> Inl e
           | None \<Rightarrow> Inr ([KEYRING_DIR (repodir (self_of repo))], True))
      | REMOTE_NAMED n \<Rightarrow>
          (case u_ostree_repo_get_remote_inherited repo n of
             Inl e \<Rightarrow> Inl e
           | Inr remote \<Rightarrow>
               (case ot_keyfile_get_value_with_default (options remote) (group remote)
                       ''gpgkeypath'' None of
                  Inl e \<Rightarrow> Inl e
                | Inr gpgkeypath \<Rightarrow>
                    Inr ((case find_keyring engine repo remote of
                            Some file \<Rightarrow> [KEYRING_FILE file]
                          | None \<Rightarrow> [])
                         @ (case gpgkeypath of Some path \<Rightarrow> [KEY_ASCII_FILE path] | None \<Rightarrow> []),
                         find_keyring engine repo remote = None)))
      | NO_REMOTE \<Rightarrow> Inr ([], True))"

definition u_ostree_repo_gpg_verify_data_internal ::
  "'r signature_engine \<Rightarrow> OstreeRepo \<Rightarrow> remote_selector \<Rightarrow> bytes \<Rightarrow> bytes \<Rightarrow> string option
     \<Rightarrow> string option \<Rightarrow> GError + 'r" where
  "u_ostree_repo_gpg_verify_data_internal engine repo remote_name data signatures keyringdir
       extra_keyring =
     (case verifier_for_remote engine repo remote_name of
        Inl e \<Rightarrow> Inl e
      | Inr (verifier, add_global_keyring_dir) \<Rightarrow>
          (case (if add_global_keyring_dir then gpg_verifier_add_global_keyring_dir engine
                 else None) of
             Some e \<Rightarrow> Inl e
           | None \<Rightarrow>
               (case (case keyringdir of
                        None \<Rightarrow> None
                      | Some d \<Rightarrow> gpg_verifier_add_keyring_dir engine d) of
                  Some e \<Rightarrow> Inl e
                | None \<Rightarrow>
                    gpg_verifier_check_signature engine
                      (verifier
                       @ (if add_global_keyring_dir then [GLOBAL_KEYRING_DIR] else [])
                       @ (case keyringdir of None \<Rightarrow> [] | Some d \<Rightarrow> [KEYRING_DIR d])
                       @ (case extra_keyring of None \<Rightarrow> [] | Some f \<Rightarrow> [KEYRING_FILE f]))
                      data signatures)))"

definition u_ostree_repo_gpg_verify_with_metadata ::
  "'r signature_engine \<Rightarrow> OstreeRepo \<Rightarrow> bytes \<Rightarrow> (string \<times> GVariant) list option
     \<Rightarrow> remote_selector \<Rightarrow> string option \<Rightarrow> string option \<Rightarrow> GError + 'r" where
  "u_ostree_repo_gpg_verify_with_metadata engine repo signed_data metadata remote_name keyringdir
       extra_keyring =
     (case lookup_gpgsigs metadata of
        None \<Rightarrow> Inl G_IO_ERROR_NOT_FOUND
      | Some signaturedata \<Rightarrow>
          u_ostree_repo_gpg_verify_data_internal engine repo remote_name signed_data
            (concat signaturedata) keyringdir extra_keyring)"

text \<open>
  \<open>ostree_repo_sign_commit\<close> returns the error, if any, and the repository afterwards.
  \<open>glnx_prefix_error\<close> changes the message of an error only. A successful
  \<open>ostree_repo_load_variant\<close> always gives a variant; the model keeps the \<open>NULL\<close> case
  as the crash it would be.
\<close>

definition ostree_repo_sign_commit ::
  "'r signature_engine \<Rightarrow> OstreeRepo \<Rightarrow> string \<Rightarrow> string \<Rightarrow> string option
     \<Rightarrow> GError option \<times> OstreeRepo" where
  "ostree_repo_sign_commit engine repo commit_checksum key_id homedir =
     (case ostree_repo_load_variant repo OSTREE_OBJECT_TYPE_COMMIT commit_checksum of
        (Inl e, repo1) \<Rightarrow> (Some e, repo1)
      | (Inr None, repo1) \<Rightarrow> (Some AssertionFailed, repo1)
      | (Inr (Some commit_variant), repo1) \<Rightarrow>
          (case read_commit_detached_metadata engine repo1 commit_checksum of
             Inl e \<Rightarrow> (Some e, repo1)
           | Inr old_metadata \<Rightarrow>
               (case (case u_ostree_repo_gpg_verify_with_metadata engine repo1
                             (variant_data commit_variant) old_metadata NO_REMOTE None None of
                        Inl local_error \<Rightarrow>
                          if local_error = G_IO_ERROR_NOT_FOUND then None
                          else Some local_error
                      | Inr result \<Rightarrow>
                          if gpg_verify_result_lookup engine result key_id
                          then Some G_IO_ERROR_EXISTS else None) of
                  Some e \<Rightarrow> (Some e, repo1)
                | None \<Rightarrow>
                    (case sign_data engine (variant_data commit_variant) key_id homedir of
                       Inl e \<Rightarrow> (Some e, repo1)
                     | Inr signature \<Rightarrow>
                         write_commit_detached_metadata engine repo1 commit_checksum
                           (u_ostree_detached_metadata_append_gpg_sig old_metadata signature)))))"

section \<open>The summary file\<close>

text \<open>
  A hash table whose iteration order matters to no result is an association list with
  each key once; \<open>g_hash_table_insert\<close> replaces the value of a key that is there.
\<close>

fun g_hash_table_insert :: "('k \<times> 'v) list \<Rightarrow> 'k \<Rightarrow> 'v \<Rightarrow> ('k \<times> 'v) list" where
  "g_hash_table_insert [] key v = [(key, v)]"
| "g_hash_table_insert ((k, w) # table) key v =
     (if k = key then (k, v) # table else (k, w) # g_hash_table_insert table key v)"

text \<open>
  What \<open>ostree_repo_regenerate_summary\<close> calls outside this file: the ref listings
  (\<open>ostree-repo-refs.c\<close>), \<open>ostree_parse_refspec\<close>, \<open>ostree_commit_get_timestamp\<close> and
  \<open>ostree_checksum_to_bytes_v\<close> (\<open>ostree-core\<close>), the static-delta names, the digest of
  the superblock of a delta (parsing its name, opening and hashing the file), the clock in
  microseconds, the atomic replacement of a file of the repository directory and the
  \<open>unlinkat\<close> of \<open>summary.sig\<close>. \<open>g_date_time_new_from_unix_utc\<close> is the test that the
  date it builds is not \<open>NULL\<close>. A parsed refspec is the optional remote and the ref.
\<close>

type_synonym summary = "ref_entry list \<times> (string \<times> GVariant) list"

record summary_env =
  ostree_repo_list_refs :: "OstreeRepo \<Rightarrow> GError + (string \<times> string) list"
  ostree_repo_list_collection_refs ::
    "OstreeRepo \<Rightarrow> GError + ((string \<times> string) \<times> string) list"
  ostree_parse_refspec :: "string \<Rightarrow> (string option \<times> string) option"
  ostree_commit_get_timestamp :: "GVariantBlob \<Rightarrow> 64 word"
  g_date_time_new_from_unix_utc :: "64 word \<Rightarrow> bool"
  ostree_checksum_to_bytes_v :: "string \<Rightarrow> bytes"
  ostree_repo_list_static_delta_names :: "OstreeRepo \<Rightarrow> GError + string list"
  static_delta_superblock_digest :: "OstreeRepo \<Rightarrow> string \<Rightarrow> GError + bytes"
  g_get_real_time :: nat
  u_ostree_repo_file_replace_contents :: "OstreeRepo \<Rightarrow> string \<Rightarrow> summary \<Rightarrow> GError option"
  unlinkat_summary_sig :: "OstreeRepo \<Rightarrow> errno option"

text \<open>
  \<open>summary_add_ref_entry\<close>: the checksum is the result of a table lookup and may be
  \<open>NULL\<close>, which the assertion at the top rejects. The timestamp goes into the entry
  as big-endian bytes; the model keeps the number.
\<close>

definition summary_add_ref_entry ::
  "summary_env \<Rightarrow> OstreeRepo \<Rightarrow> string \<Rightarrow> string option \<Rightarrow> ref_entry list
     \<Rightarrow> GError + ref_entry list" where
  "summary_add_ref_entry env repo ref checksum refs_builder =
     (case checksum of
        None \<Rightarrow> Inl AssertionFailed
      | Some csum \<Rightarrow>
          (case ostree_parse_refspec env ref of
             None \<Rightarrow> Inl AssertionFailed
           | Some (remotename, refname) \<Rightarrow>
               if remotename \<noteq> None then Inr refs_builder
               else
                 (case fst (ostree_repo_load_variant repo OSTREE_OBJECT_TYPE_COMMIT csum) of
                    Inl e \<Rightarrow> Inl e
                  | Inr None \<Rightarrow> Inl AssertionFailed
                  | Inr (Some commit_obj) \<Rightarrow>
                      Inr (refs_builder @
                        [(ref, length (variant_data commit_obj),
                          ostree_checksum_to_bytes_v env csum,
                          (if g_date_time_new_from_unix_utc env
                                (ostree_commit_get_timestamp env commit_obj)
                           then [(''ostree.commit.timestamp'',
                                  GV_uint64 (ostree_commit_get_timestamp env commit_obj))]
                           else []))]))))"

text \<open>
  The loops \<open>for (iter = ordered_keys; iter; iter = iter->next)\<close> over the sorted
  names of a table \<open>refs\<close>, adding each ref with the checksum the table has for it.
\<close>

fun summary_add_refs ::
  "summary_env \<Rightarrow> OstreeRepo \<Rightarrow> (string \<times> string) list \<Rightarrow> string list \<Rightarrow> ref_entry list
     \<Rightarrow> GError + ref_entry list" where
  "summary_add_refs env repo refs [] refs_builder = Inr refs_builder"
| "summary_add_refs env repo refs (ref # ordered_keys) refs_builder =
     (case summary_add_ref_entry env repo ref (map_of refs ref) refs_builder of
        Inl e \<Rightarrow> Inl e
      | Inr refs_builder' \<Rightarrow> summary_add_refs env repo refs ordered_keys refs_builder')"

text \<open>Lines 4684 to 4703: the main refs array of a repository without collection ID.\<close>

definition summary_main_refs :: "summary_env \<Rightarrow> OstreeRepo \<Rightarrow> GError + ref_entry list" where
  "summary_main_refs env repo =
     (if collection_id (self_of repo) = None then
        (case ostree_repo_list_refs env repo of
           Inl e \<Rightarrow> Inl e
         | Inr refs \<Rightarrow> summary_add_refs env repo refs (sort (map fst refs)) [])
      else Inr [])"

text \<open>Lines 4705 to 4742: the digests of the static deltas, by name.\<close>

fun summary_deltas ::
  "summary_env \<Rightarrow> OstreeRepo \<Rightarrow> string list \<Rightarrow> (string \<times> GVariant) list
     \<Rightarrow> GError + (string \<times> GVariant) list" where
  "summary_deltas env repo [] deltas_builder = Inr deltas_builder"
| "summary_deltas env repo (delta_name # delta_names) deltas_builder =
     (case static_delta_superblock_digest env repo delta_name of
        Inl e \<Rightarrow> Inl e
      | Inr csum \<Rightarrow>
          summary_deltas env repo delta_names
            (g_variant_dict_insert_value deltas_builder delta_name (GV_ay csum)))"

text \<open>
  Lines 4762 to 4779: the table from collection ID to the table from ref name to
  checksum, filled from the collection refs in the order of their iteration.
\<close>

definition collection_map_of ::
  "((string \<times> string) \<times> string) list \<Rightarrow> (string \<times> (string \<times> string) list) list" where
  "collection_map_of collection_refs =
     fold (\<lambda>((ref_collection_id, ref_name), checksum) collection_map.
             g_hash_table_insert collection_map ref_collection_id
               (g_hash_table_insert
                  (case map_of collection_map ref_collection_id of
                     None \<Rightarrow> []
                   | Some ref_map \<Rightarrow> ref_map)
                  ref_name checksum))
       collection_refs []"

text \<open>
  Lines 4786 to 4821: the loop over the sorted collection IDs. Its state is the main
  refs builder, the collection map builder and \<open>collection_map_size\<close>. The refs of the
  repository's own collection go to the main refs array, the others to a new entry of the
  collection map.
\<close>

fun summary_collections ::
  "summary_env \<Rightarrow> OstreeRepo \<Rightarrow> string option \<Rightarrow> (string \<times> (string \<times> string) list) list
     \<Rightarrow> string list \<Rightarrow> ref_entry list \<times> (string \<times> ref_entry list) list \<times> nat
     \<Rightarrow> GError + ref_entry list \<times> (string \<times> ref_entry list) list \<times> nat" where
  "summary_collections env repo main_collection_id collection_map [] st = Inr st"
| "summary_collections env repo main_collection_id collection_map
       (cid # ordered_collection_ids) (refs_builder, collection_refs_builder, collection_map_size) =
     (if main_collection_id = Some cid then
        (case summary_add_refs env repo
                (case map_of collection_map cid of None \<Rightarrow> [] | Some ref_map \<Rightarrow> ref_map)
                (sort (map fst
                   (case map_of collection_map cid of None \<Rightarrow> [] | Some ref_map \<Rightarrow> ref_map)))
                refs_builder of
           Inl e \<Rightarrow> Inl e
         | Inr refs_builder' \<Rightarrow>
             summary_collections env repo main_collection_id collection_map
               ordered_collection_ids
               (refs_builder', collection_refs_builder, collection_map_size))
      else
        (case summary_add_refs env repo
                (case map_of collection_map cid of None \<Rightarrow> [] | Some ref_map \<Rightarrow> ref_map)
                (sort (map fst
                   (case map_of collection_map cid of None \<Rightarrow> [] | Some ref_map \<Rightarrow> ref_map)))
                [] of
           Inl e \<Rightarrow> Inl e
         | Inr entries \<Rightarrow>
             summary_collections env repo main_collection_id collection_map
               ordered_collection_ids
               (refs_builder, collection_refs_builder @ [(cid, entries)],
                collection_map_size
                + length (case map_of collection_map cid of
                            None \<Rightarrow> [] | Some ref_map \<Rightarrow> ref_map))))"

text \<open>
  Lines 4740 to 4747 and 4823 to 4828: the metadata dictionary of the summary, begun
  from the caller's additional metadata.
\<close>

definition summary_metadata ::
  "summary_env \<Rightarrow> OstreeRepo \<Rightarrow> (string \<times> GVariant) list option \<Rightarrow> string list
     \<Rightarrow> (string \<times> GVariant) list \<Rightarrow> (string \<times> ref_entry list) list \<Rightarrow> nat
     \<Rightarrow> (string \<times> GVariant) list" where
  "summary_metadata env repo additional_metadata delta_names deltas collection_refs_builder
       collection_map_size =
     (if collection_map_size > 0
      then (\<lambda>d. g_variant_dict_insert_value d ''ostree.summary.collection-map''
                  (GV_collection_map collection_refs_builder))
      else id)
       ((case collection_id (self_of repo) of
           None \<Rightarrow> id
         | Some main_collection_id \<Rightarrow>
             (\<lambda>d. g_variant_dict_insert_value d ''ostree.summary.collection-id''
                     (GV_string main_collection_id)))
          (g_variant_dict_insert_value
             ((if length delta_names > 0
               then (\<lambda>d. g_variant_dict_insert_value d ''ostree.static-deltas''
                           (GV_dict deltas))
               else id)
                (case additional_metadata of None \<Rightarrow> [] | Some d \<Rightarrow> d))
             ''ostree.summary.last-modified''
             (GV_uint64 (of_nat (g_get_real_time env div 1000000)))))"

text \<open>
  \<open>ostree_repo_regenerate_summary\<close> returns the error, if any, and the summary it has
  written to the file \<open>summary\<close>, if it got that far: a failure to unlink
  \<open>summary.sig\<close> comes after the file is replaced.
\<close>

definition ostree_repo_regenerate_summary ::
  "summary_env \<Rightarrow> OstreeRepo \<Rightarrow> (string \<times> GVariant) list option
     \<Rightarrow> GError option \<times> summary option" where
  "ostree_repo_regenerate_summary env repo additional_metadata =
     (case summary_main_refs env repo of
        Inl e \<Rightarrow> (Some e, None)
      | Inr refs_builder \<Rightarrow>
     (case ostree_repo_list_static_delta_names env repo of
        Inl e \<Rightarrow> (Some e, None)
      | Inr delta_names \<Rightarrow>
     (case summary_deltas env repo delta_names [] of
        Inl e \<Rightarrow> (Some e, None)
      | Inr deltas \<Rightarrow>
     (case ostree_repo_list_collection_refs env repo of
        Inl e \<Rightarrow> (Some e, None)
      | Inr collection_refs \<Rightarrow>
     (case summary_collections env repo (collection_id (self_of repo))
             (collection_map_of collection_refs)
             (sort (map fst (collection_map_of collection_refs)))
             (refs_builder, [], 0) of
        Inl e \<Rightarrow> (Some e, None)
      | Inr (refs_array, collection_refs_builder, collection_map_size) \<Rightarrow>
     (case u_ostree_repo_file_replace_contents env repo ''summary''
             (refs_array,
              summary_metadata env repo additional_metadata delta_names deltas
                collection_refs_builder collection_map_size) of
        Some e \<Rightarrow> (Some e, None)
      | None \<Rightarrow>
          ((case unlinkat_summary_sig env repo of
              None \<Rightarrow> None
            | Some e \<Rightarrow> if e \<noteq> ENOENT then Some (glnx_throw_errno e) else None),
           Some
             (refs_array,
              summary_metadata env repo additional_metadata delta_names deltas
                collection_refs_builder collection_map_size))))))))"

section \<open>Statements of the specification, and example inputs\<close>

text \<open>
  The lookup order in the words of the specification: the commit staging directory first,
  when one is open, then the object directory.
\<close>

definition spec_lookup_loose :: "OstreeRepoSelf \<Rightarrow> string \<Rightarrow> errno + inode" where
  "spec_lookup_loose self loose_path_buf =
     (case commit_stagedir self of
        None \<Rightarrow> objects_dir self loose_path_buf
      | Some stagedir \<Rightarrow>
          (case stagedir loose_path_buf of
             Inr f \<Rightarrow> Inr f
           | Inl e \<Rightarrow> if e = ENOENT then objects_dir self loose_path_buf else Inl e))"

text \<open>Neither the object directory nor an open staging directory has the path.\<close>

definition absent_locally :: "OstreeRepoSelf \<Rightarrow> string \<Rightarrow> bool" where
  "absent_locally self loose_path_buf =
     (objects_dir self loose_path_buf = Inl ENOENT
      \<and> (case commit_stagedir self of
           None \<Rightarrow> True
         | Some stagedir \<Rightarrow> stagedir loose_path_buf = Inl ENOENT))"

definition example_file :: "u32 \<Rightarrow> u32 \<Rightarrow> u32 \<Rightarrow> nat \<Rightarrow> bytes \<Rightarrow> xattr_list \<Rightarrow> inode" where
  "example_file m uid gid sz data xs =
     \<lparr>st_mode = m, st_uid = uid, st_gid = gid, st_size = sz, contents = data,
      link_target = [], xattrs = xs, ostreemeta = None, open_error = None,
      fstat_error = None, read_error = None\<rparr>"

definition empty_dir :: dir where
  "empty_dir = (\<lambda>path. Inl ENOENT)"

definition example_remote :: "string \<Rightarrow> (string \<times> string) list \<Rightarrow> OstreeRemote" where
  "example_remote n kvs =
     \<lparr>name = n, group = ''remote '' @ n, keyring = n @ ''.trustedkeys.gpg'', origin_file = None,
      options = (\<lambda>g. if g = ''remote '' @ n then Some (map_of kvs) else None)\<rparr>"

definition example_self ::
  "OstreeRepoMode \<Rightarrow> dir \<Rightarrow> dir option \<Rightarrow> (string \<times> OstreeRemote) list \<Rightarrow> OstreeRepoSelf" where
  "example_self m objs stage rs =
     \<lparr>repodir = ''/repo'', mode = m, objects_dir = objs, commit_stagedir = stage, dirmeta_cache = None,
      remotes = rs, config = (\<lambda>g. None), collection_id = None, disable_xattrs = False\<rparr>"

text \<open>A writer that stores an empty file at the loose path of the object.\<close>

definition example_write_metadata_trusted :: write_metadata_trusted where
  "example_write_metadata_trusted repo objtype sha v =
     (case repo of OstreeRepo self parent \<Rightarrow>
        (None,
         OstreeRepo
           (self\<lparr>objects_dir := (objects_dir self)
              (u_ostree_loose_path sha objtype (mode self)
                 := Inr (example_file 0x81A4 0 0 0 [] []))\<rparr>)
           parent))"

definition example_parse :: content_stream_parse where
  "example_parse fd = Inl G_IO_ERROR_FAILED"

text \<open>
  A ref that \<open>ostree_parse_refspec\<close> parses without a remote, and the collection map
  of a summary: the value of type \<open>a{sa(s(taya{sv}))}\<close> under
  \<open>ostree.summary.collection-map\<close> of its metadata, if there is one.
\<close>

definition ref_is_local :: "summary_env \<Rightarrow> string \<Rightarrow> bool" where
  "ref_is_local env ref =
     (case ostree_parse_refspec env ref of
        Some (None, refname) \<Rightarrow> True
      | _ \<Rightarrow> False)"

definition summary_collection_map :: "summary \<Rightarrow> (string \<times> ref_entry list) list option" where
  "summary_collection_map s =
     (case map_of (snd s) ''ostree.summary.collection-map'' of
        Some (GV_collection_map m) \<Rightarrow> Some m
      | _ \<Rightarrow> None)"

text \<open>Every table of a collection map holds each of its keys once.\<close>

definition tables_distinct :: "(string \<times> (string \<times> string) list) list \<Rightarrow> bool" where
  "tables_distinct collection_map =
     (distinct (map fst collection_map)
      \<and> (\<forall>cid ref_map. map_of collection_map cid = Some ref_map \<longrightarrow> distinct (map fst ref_map)))"

text \<open>
  An engine for examples. The keys \<open>KEY1\<close> and \<open>KEY2\<close> exist; the signature of a key
  over data is the key ID, a slash, the data and a semicolon; the verifier returns the key
  IDs of the signatures it is given. The commit \<open>abcd\<close> has detached metadata with a
  signature by \<open>KEY1\<close> and a vendor entry, any other commit has none. The writer stores
  the signatures, one after the other, as the contents of the \<open>.commitmeta\<close> file.
\<close>

definition example_engine :: "(string list) signature_engine" where
  "example_engine =
     \<lparr>read_commit_detached_metadata =
        (\<lambda>repo checksum.
           if checksum = ''abcd''
           then Inr (Some [(''vendor'', GV_string ''acme''),
                           (''ostree.gpgsigs'', GV_aay [''KEY1/c;''])])
           else Inr None),
      write_commit_detached_metadata =
        (\<lambda>repo checksum metadata.
           case repo of OstreeRepo self parent \<Rightarrow>
             (None,
              OstreeRepo
                (self\<lparr>objects_dir := (objects_dir self)
                   (u_ostree_loose_path checksum OSTREE_OBJECT_TYPE_COMMIT_META (mode self)
                      := Inr (example_file 0x81A4 0 0 0
                                (concat (case lookup_gpgsigs (Some metadata) of
                                           None \<Rightarrow> [] | Some sigs \<Rightarrow> sigs)) []))\<rparr>)
                parent)),
      g_file_query_exists = (\<lambda>path. False),
      get_remotes_d_dir = (\<lambda>self. None),
      gpg_verifier_add_keyring_dir = (\<lambda>path. None),
      gpg_verifier_add_global_keyring_dir = None,
      gpg_verifier_check_signature =
        (\<lambda>verifier data signatures.
           Inr (map (takeWhile (\<lambda>c. c \<noteq> CHR ''/'')) (split_list_value [] signatures))),
      gpg_verify_result_lookup = (\<lambda>result key_id. key_id \<in> set result),
      glnx_open_tmpfile_linkable_at = None,
      ot_gpgme_new_ctx = (\<lambda>homedir. None),
      gpgme_get_key =
        (\<lambda>homedir key_id.
           if key_id = ''KEY1'' \<or> key_id = ''KEY2'' then Inr key_id else Inl GPG_ERR_EOF),
      gpgme_signers_add = (\<lambda>key. 0),
      gpgme_data_new_from_mem = (\<lambda>data. 0),
      gpgme_op_sign = (\<lambda>homedir key data. Inr (key @ ''/'' @ data @ '';'')),
      g_output_stream_close = None,
      g_mapped_file_new_from_fd = None\<rparr>"

text \<open>A repository with the commits \<open>abcd\<close> and \<open>eeee\<close>.\<close>

definition example_sign_repo :: OstreeRepo where
  "example_sign_repo =
     OstreeRepo
       (example_self OSTREE_REPO_MODE_BARE
          (empty_dir(''ab/cd.commit'' := Inr (example_file 0x81A4 0 0 1 ''c'' []),
                     ''ee/ee.commit'' := Inr (example_file 0x81A4 0 0 1 ''d'' [])))
          None [])
       None"

text \<open>
  An environment for examples of the summary: a refspec has a remote when it contains a
  colon; the listings are given.
\<close>

definition example_parse_refspec :: "string \<Rightarrow> (string option \<times> string) option" where
  "example_parse_refspec refspec =
     (if CHR '':'' \<in> set refspec
      then Some (Some (takeWhile (\<lambda>c. c \<noteq> CHR '':'') refspec),
                 drop 1 (dropWhile (\<lambda>c. c \<noteq> CHR '':'') refspec))
      else Some (None, refspec))"

definition example_summary_env ::
  "(string \<times> string) list \<Rightarrow> ((string \<times> string) \<times> string) list \<Rightarrow> summary_env" where
  "example_summary_env refs collection_refs =
     \<lparr>ostree_repo_list_refs = (\<lambda>repo. Inr refs),
      ostree_repo_list_collection_refs = (\<lambda>repo. Inr collection_refs),
      ostree_parse_refspec = example_parse_refspec,
      ostree_commit_get_timestamp = (\<lambda>commit. 7),
      g_date_time_new_from_unix_utc = (\<lambda>t. True),
      ostree_checksum_to_bytes_v = (\<lambda>checksum. checksum),
      ostree_repo_list_static_delta_names = (\<lambda>repo. Inr []),
      static_delta_superblock_digest = (\<lambda>repo delta_name. Inr []),
      g_get_real_time = 5000000,
      u_ostree_repo_file_replace_contents = (\<lambda>repo file_name s. None),
      unlinkat_summary_sig = (\<lambda>repo. Some ENOENT)\<rparr>"

definition example_summary_repo :: OstreeRepo where
  "example_summary_repo =
     OstreeRepo
       (example_self OSTREE_REPO_MODE_BARE
          (empty_dir(''de/adbeef.commit'' := Inr (example_file 0x81A4 0 0 2 ''c1'' []),
                     ''ca/febabe.commit'' := Inr (example_file 0x81A4 0 0 3 ''c22'' [])))
          None [])
       None"

text \<open>A file that opens, stats and reads without an error.\<close>

definition readable :: "inode \<Rightarrow> bool" where
  "readable fd = (open_error fd = None \<and> fstat_error fd = None \<and> read_error fd = None)"

text \<open>
  A repository for the lookup order: \<open>abcd\<close> is in the object directory and in the
  staging directory with different contents, \<open>cccc\<close> is staged only, the object directory
  refuses to open \<open>eeee\<close>, \<open>dddd\<close> is in the parent only, and \<open>ffff\<close> is nowhere.
\<close>

definition example_lookup_objects :: dir where
  "example_lookup_objects =
     empty_dir(''ab/cd.commit'' := Inr (example_file 0x81A4 0 0 4 ''main'' []),
               ''ab/cd.file'' := Inr (example_file 0x81A4 0 0 4 ''main'' []),
               ''ee/ee.commit'' := Inl EACCES)"

definition example_lookup_staging :: dir where
  "example_lookup_staging =
     empty_dir(''ab/cd.commit'' := Inr (example_file 0x81A4 0 0 6 ''staged'' []),
               ''ab/cd.file'' := Inr (example_file 0x81A4 0 0 6 ''staged'' []),
               ''cc/cc.commit'' := Inr (example_file 0x81A4 0 0 5 ''fresh'' []),
               ''cc/cc.file'' := Inr (example_file 0x81A4 0 0 5 ''fresh'' []),
               ''ee/ee.commit'' := Inr (example_file 0x81A4 0 0 6 ''staged'' []))"

definition example_lookup_parent :: OstreeRepo where
  "example_lookup_parent =
     OstreeRepo
       (example_self OSTREE_REPO_MODE_BARE
          (empty_dir(''dd/dd.commit'' := Inr (example_file 0x81A4 0 0 9 ''inherited'' [])))
          None [])
       None"

definition example_lookup_self :: OstreeRepoSelf where
  "example_lookup_self =
     example_self OSTREE_REPO_MODE_BARE example_lookup_objects (Some example_lookup_staging) []"

text \<open>
  The registries of the remote inheritance scenario: the parent configures \<open>upstream\<close>
  fully, the child overrides \<open>gpg-verify\<close> only.
\<close>

definition example_option_parent :: OstreeRepoSelf where
  "example_option_parent =
     example_self OSTREE_REPO_MODE_BARE empty_dir None
       [(''upstream'',
         example_remote ''upstream''
           [(''url'', ''https://a/''), (''branches'', ''stable;testing;''),
            (''gpg-verify-summary'', ''true'')])]"

definition example_option_child :: OstreeRepoSelf where
  "example_option_child =
     example_self OSTREE_REPO_MODE_BARE empty_dir None
       [(''upstream'', example_remote ''upstream'' [(''gpg-verify'', ''false'')])]"

text \<open>The repository of the summary examples, with the collection ID \<open>org.a\<close>.\<close>

definition example_collection_repo :: OstreeRepo where
  "example_collection_repo =
     OstreeRepo
       ((example_self OSTREE_REPO_MODE_BARE
           (empty_dir(''de/adbeef.commit'' := Inr (example_file 0x81A4 0 0 2 ''c1'' []),
                      ''ca/febabe.commit'' := Inr (example_file 0x81A4 0 0 3 ''c22'' [])))
           None [])
        \<lparr>collection_id := Some ''org.a''\<rparr>)
       None"

section \<open>Lookup order of the object reads\<close>

lemma load_metadata_keeps_repo:
  "objtype \<noteq> OSTREE_OBJECT_TYPE_DIR_META \<Longrightarrow>
     snd (load_metadata_internal r objtype sha enf wv ws wsz) = r"
proof (induction r objtype sha enf wv ws wsz rule: load_metadata_internal.induct)
  case (1 self parent objtype sha enf wv ws wsz)
  show ?case
  proof (cases parent)
    case None
    then show ?thesis
      using 1(2) by (auto split: sum.splits option.splits prod.splits)
  next
    case (Some p)
    have ih: "metadata_open self (u_ostree_loose_path sha objtype (mode self)) = Inr None
                \<Longrightarrow> OSTREE_OBJECT_TYPE_IS_META objtype
                \<Longrightarrow> snd (load_metadata_internal p objtype sha True True False False) = p"
      using 1(1) [of None p] 1(2) Some by (auto split: if_splits)
    show ?thesis
      using 1(2) Some ih
      by (auto split: sum.splits option.splits prod.splits)
  qed
qed

text \<open>
  C1, as the specification states it: every object read tries the commit staging directory
  first, then the object directory, then the parent. The code does so for the existence
  check only. Here the same commit path holds the file \<open>staged\<close> in the staging directory
  and the file \<open>main\<close> in the object directory: the order of the specification finds
  \<open>staged\<close>, \<open>ostree_repo_load_variant\<close> and \<open>_ostree_repo_load_file_bare\<close> return
  \<open>main\<close>. An object that is nowhere makes \<open>ostree_repo_has_object\<close> succeed with
  \<open>FALSE\<close>, not fail.
\<close>

theorem lookup_order_counterexample:
  "spec_lookup_loose
     (example_self OSTREE_REPO_MODE_BARE
        (empty_dir(''ab/cd.commit'' := Inr (example_file 0x81A4 0 0 4 ''main'' [])))
        (Some (empty_dir(''ab/cd.commit'' := Inr (example_file 0x81A4 0 0 6 ''staged'' []))))
        [])
     ''ab/cd.commit'' = Inr (example_file 0x81A4 0 0 6 ''staged'' [])
   \<and> fst (ostree_repo_load_variant
        (OstreeRepo
           (example_self OSTREE_REPO_MODE_BARE
              (empty_dir(''ab/cd.commit'' := Inr (example_file 0x81A4 0 0 4 ''main'' [])))
              (Some (empty_dir(''ab/cd.commit'' := Inr (example_file 0x81A4 0 0 6 ''staged'' []))))
              [])
           None)
        OSTREE_OBJECT_TYPE_COMMIT ''abcd'')
       = Inr (Some \<lparr>variant_type = OSTREE_OBJECT_TYPE_COMMIT, variant_data = ''main'',
                     variant_backing = HeapBuffer\<rparr>)
   \<and> map_sum id (map_option contents \<circ> bare_fd)
        (u_ostree_repo_load_file_bare
           (Some (OstreeRepo
              (example_self OSTREE_REPO_MODE_BARE
                 (empty_dir(''ab/cd.file'' := Inr (example_file 0x81A4 0 0 4 ''main'' [])))
                 (Some (empty_dir(''ab/cd.file'' := Inr (example_file 0x81A4 0 0 6 ''staged'' []))))
                 [])
              None))
           ''abcd'' True True True True)
       = Inr (Some ''main'')
   \<and> ostree_repo_has_object
        (OstreeRepo
           (example_self OSTREE_REPO_MODE_BARE
              (empty_dir(''ab/cd.commit'' := Inr (example_file 0x81A4 0 0 4 ''main'' [])))
              (Some (empty_dir(''ab/cd.commit'' := Inr (example_file 0x81A4 0 0 6 ''staged'' []))))
              [])
           None)
        OSTREE_OBJECT_TYPE_COMMIT ''ffff'' = Inr False"
  by (simp add: spec_lookup_loose_def example_self_def example_file_def empty_dir_def
      ostree_repo_load_variant_def OSTREE_OBJECT_TYPE_IS_META_def u_ostree_loose_path_def
      metadata_open_def ot_openat_ignore_enoent_def openat_def variant_from_fd_def
      load_file_bare_locate_def fstatat_def load_file_bare_project_def S_ISREG_def S_ISLNK_def
      u_ostree_repo_has_loose_object_def dirmeta_cache_lookup_def)

lemma lookup_order_metadata:
  assumes "OSTREE_OBJECT_TYPE_IS_META objtype"
    and "dirmeta_cache_lookup self sha = None"
  shows
    "(\<forall>fd. objects_dir self (u_ostree_loose_path sha objtype (mode self)) = Inr fd
          \<and> readable fd \<longrightarrow>
        fst (load_metadata_internal (OstreeRepo self parent) objtype sha enf wv ws wsz)
          = Inr \<lparr>out_variant =
                   (if wv then Some \<lparr>variant_type = objtype, variant_data = contents fd,
                                      variant_backing =
                                        (if 16384 < st_size fd then MappedFile else HeapBuffer)\<rparr>
                    else None),
                 out_stream = (if \<not> wv \<and> ws then Some fd else None),
                 out_size = (if wsz then Some (st_size fd) else None)\<rparr>)
   \<and> (\<forall>e. objects_dir self (u_ostree_loose_path sha objtype (mode self)) = Inl e
          \<and> e \<noteq> ENOENT \<longrightarrow>
        fst (load_metadata_internal (OstreeRepo self parent) objtype sha enf wv ws wsz)
          = Inl (glnx_throw_errno e))
   \<and> (\<forall>stagedir fd.
        objects_dir self (u_ostree_loose_path sha objtype (mode self)) = Inl ENOENT
          \<and> commit_stagedir self = Some stagedir
          \<and> stagedir (u_ostree_loose_path sha objtype (mode self)) = Inr fd
          \<and> readable fd \<longrightarrow>
        fst (load_metadata_internal (OstreeRepo self parent) objtype sha enf wv ws wsz)
          = Inr \<lparr>out_variant =
                   (if wv then Some \<lparr>variant_type = objtype, variant_data = contents fd,
                                      variant_backing =
                                        (if 16384 < st_size fd then MappedFile else HeapBuffer)\<rparr>
                    else None),
                 out_stream = (if \<not> wv \<and> ws then Some fd else None),
                 out_size = (if wsz then Some (st_size fd) else None)\<rparr>)
   \<and> (\<forall>p. absent_locally self (u_ostree_loose_path sha objtype (mode self))
          \<and> parent = Some p \<longrightarrow>
        fst (load_metadata_internal (OstreeRepo self parent) objtype sha enf wv ws wsz)
          = (case fst (load_metadata_internal p objtype sha True True False False) of
               Inl e \<Rightarrow> Inl e
             | Inr r \<Rightarrow>
                 Inr \<lparr>out_variant = (if wv then out_variant r else None),
                      out_stream = None, out_size = None\<rparr>))
   \<and> (absent_locally self (u_ostree_loose_path sha objtype (mode self))
          \<and> parent = None \<longrightarrow>
        fst (load_metadata_internal (OstreeRepo self parent) objtype sha enf wv ws wsz)
          = (if enf then Inl G_IO_ERROR_NOT_FOUND
             else Inr \<lparr>out_variant = None, out_stream = None, out_size = None\<rparr>))"
proof -
  let ?p = "u_ostree_loose_path sha objtype (mode self)"
  have nohit: "\<not> (objtype = OSTREE_OBJECT_TYPE_DIR_META \<and> wv \<and> \<not> ws
                    \<and> dirmeta_cache_lookup self sha \<noteq> None)"
    using assms(2) by simp
  have m1: "metadata_open self ?p = Inr (Some fd)"
    if "objects_dir self ?p = Inr fd" "readable fd" for fd
    using that by (simp add: metadata_open_def ot_openat_ignore_enoent_def openat_def readable_def)
  have m1e: "metadata_open self ?p = Inl (glnx_throw_errno e)"
    if "objects_dir self ?p = Inl e" "e \<noteq> ENOENT" for e
    using that by (simp add: metadata_open_def ot_openat_ignore_enoent_def openat_def)
  have m2: "metadata_open self ?p = Inr (Some fd)"
    if "objects_dir self ?p = Inl ENOENT" "commit_stagedir self = Some stagedir"
       "stagedir ?p = Inr fd" "readable fd" for stagedir fd
    using that by (simp add: metadata_open_def ot_openat_ignore_enoent_def openat_def readable_def)
  have m3: "metadata_open self ?p = Inr None" if "absent_locally self ?p"
    using that
    by (auto simp: metadata_open_def ot_openat_ignore_enoent_def openat_def absent_locally_def
        split: option.splits)
  have found: "fst (load_metadata_internal (OstreeRepo self parent) objtype sha enf wv ws wsz)
          = Inr \<lparr>out_variant =
                   (if wv then Some \<lparr>variant_type = objtype, variant_data = contents fd,
                                      variant_backing =
                                        (if 16384 < st_size fd then MappedFile else HeapBuffer)\<rparr>
                    else None),
                 out_stream = (if \<not> wv \<and> ws then Some fd else None),
                 out_size = (if wsz then Some (st_size fd) else None)\<rparr>"
    if "metadata_open self ?p = Inr (Some fd)" "readable fd" for fd
    using that assms
    by (simp add: variant_from_fd_def readable_def)
  have c1: "\<forall>fd. objects_dir self ?p = Inr fd \<and> readable fd \<longrightarrow>
        fst (load_metadata_internal (OstreeRepo self parent) objtype sha enf wv ws wsz)
          = Inr \<lparr>out_variant =
                   (if wv then Some \<lparr>variant_type = objtype, variant_data = contents fd,
                                      variant_backing =
                                        (if 16384 < st_size fd then MappedFile else HeapBuffer)\<rparr>
                    else None),
                 out_stream = (if \<not> wv \<and> ws then Some fd else None),
                 out_size = (if wsz then Some (st_size fd) else None)\<rparr>"
    using m1 found by blast
  have c2: "\<forall>e. objects_dir self ?p = Inl e \<and> e \<noteq> ENOENT \<longrightarrow>
        fst (load_metadata_internal (OstreeRepo self parent) objtype sha enf wv ws wsz)
          = Inl (glnx_throw_errno e)"
    using m1e assms by simp
  have c3: "\<forall>stagedir fd. objects_dir self ?p = Inl ENOENT
          \<and> commit_stagedir self = Some stagedir \<and> stagedir ?p = Inr fd \<and> readable fd \<longrightarrow>
        fst (load_metadata_internal (OstreeRepo self parent) objtype sha enf wv ws wsz)
          = Inr \<lparr>out_variant =
                   (if wv then Some \<lparr>variant_type = objtype, variant_data = contents fd,
                                      variant_backing =
                                        (if 16384 < st_size fd then MappedFile else HeapBuffer)\<rparr>
                    else None),
                 out_stream = (if \<not> wv \<and> ws then Some fd else None),
                 out_size = (if wsz then Some (st_size fd) else None)\<rparr>"
    using m2 found by blast
  have c4: "\<forall>p. absent_locally self ?p \<and> parent = Some p \<longrightarrow>
        fst (load_metadata_internal (OstreeRepo self parent) objtype sha enf wv ws wsz)
          = (case fst (load_metadata_internal p objtype sha True True False False) of
               Inl e \<Rightarrow> Inl e
             | Inr r \<Rightarrow>
                 Inr \<lparr>out_variant = (if wv then out_variant r else None),
                      out_stream = None, out_size = None\<rparr>)"
    using m3 assms
    by (auto split: sum.splits prod.splits)
  have c5: "absent_locally self ?p \<and> parent = None \<longrightarrow>
        fst (load_metadata_internal (OstreeRepo self parent) objtype sha enf wv ws wsz)
          = (if enf then Inl G_IO_ERROR_NOT_FOUND
             else Inr \<lparr>out_variant = None, out_stream = None, out_size = None\<rparr>)"
    using m3 assms by auto
  from c1 c2 c3 c4 c5 show ?thesis by blast
qed

lemma S_ISREG_not_LNK: "S_ISREG m \<Longrightarrow> \<not> S_ISLNK m"
  by (simp add: S_ISREG_def S_ISLNK_def)

lemma lookup_order_file_bare:
  "(\<forall>f. mode self = OSTREE_REPO_MODE_BARE
        \<and> objects_dir self (u_ostree_loose_path checksum OSTREE_OBJECT_TYPE_FILE (mode self))
            = Inr f
        \<and> S_ISREG (st_mode f) \<and> readable f \<longrightarrow>
      u_ostree_repo_load_file_bare (Some (OstreeRepo self parent)) checksum wfd wst wsl wxa
        = Inr \<lparr>bare_fd = (if wfd then Some f else None),
               bare_stbuf = (if wst then Some (stat.truncate f) else None),
               bare_symlink = None,
               bare_xattrs =
                 (if wxa then Some (if disable_xattrs self then [] else xattrs f) else None)\<rparr>)
 \<and> (\<forall>stagedir f. mode self = OSTREE_REPO_MODE_BARE
        \<and> objects_dir self (u_ostree_loose_path checksum OSTREE_OBJECT_TYPE_FILE (mode self))
            = Inl ENOENT
        \<and> commit_stagedir self = Some stagedir
        \<and> stagedir (u_ostree_loose_path checksum OSTREE_OBJECT_TYPE_FILE (mode self)) = Inr f
        \<and> S_ISREG (st_mode f) \<and> readable f \<longrightarrow>
      u_ostree_repo_load_file_bare (Some (OstreeRepo self parent)) checksum wfd wst wsl wxa
        = Inr \<lparr>bare_fd = (if wfd then Some f else None),
               bare_stbuf = (if wst then Some (stat.truncate f) else None),
               bare_symlink = None,
               bare_xattrs =
                 (if wxa then Some (if disable_xattrs self then [] else xattrs f) else None)\<rparr>)
 \<and> (\<forall>e. objects_dir self (u_ostree_loose_path checksum OSTREE_OBJECT_TYPE_FILE (mode self))
            = Inl e
        \<and> e \<noteq> ENOENT \<longrightarrow>
      u_ostree_repo_load_file_bare (Some (OstreeRepo self parent)) checksum wfd wst wsl wxa
        = Inl (glnx_throw_errno e))
 \<and> (objects_dir self (u_ostree_loose_path checksum OSTREE_OBJECT_TYPE_FILE (mode self)) \<noteq> Inl ENOENT \<longrightarrow>
        u_ostree_repo_load_file_bare (Some (OstreeRepo self parent)) checksum wfd wst wsl wxa
          = u_ostree_repo_load_file_bare
              (Some (OstreeRepo (self\<lparr>commit_stagedir := None\<rparr>) parent)) checksum wfd wst wsl wxa)
 \<and> (\<forall>stagedir. objects_dir self (u_ostree_loose_path checksum OSTREE_OBJECT_TYPE_FILE (mode self)) = Inl ENOENT
        \<and> commit_stagedir self = Some stagedir \<longrightarrow>
        u_ostree_repo_load_file_bare (Some (OstreeRepo self parent)) checksum wfd wst wsl wxa
          = u_ostree_repo_load_file_bare
              (Some (OstreeRepo (self\<lparr>objects_dir := stagedir, commit_stagedir := None\<rparr>) parent))
              checksum wfd wst wsl wxa)
 \<and> (absent_locally self (u_ostree_loose_path checksum OSTREE_OBJECT_TYPE_FILE (mode self)) \<longrightarrow>
        u_ostree_repo_load_file_bare (Some (OstreeRepo self parent)) checksum wfd wst wsl wxa
          = u_ostree_repo_load_file_bare parent checksum wfd wst wsl wxa)
 \<and> (u_ostree_repo_load_file_bare None checksum wfd wst wsl wxa = Inl G_IO_ERROR_NOT_FOUND)"
proof -
  let ?p = "u_ostree_loose_path checksum OSTREE_OBJECT_TYPE_FILE (mode self)"
  let ?pf = "u_ostree_loose_path checksum OSTREE_OBJECT_TYPE_FILE (mode self)"
  have found: "u_ostree_repo_load_file_bare (Some (OstreeRepo self parent)) checksum wfd wst wsl wxa
        = Inr \<lparr>bare_fd = (if wfd then Some f else None),
               bare_stbuf = (if wst then Some (stat.truncate f) else None),
               bare_symlink = None,
               bare_xattrs =
                 (if wxa then Some (if disable_xattrs self then [] else xattrs f) else None)\<rparr>"
    if loc: "load_file_bare_locate self ?p = (d, Inr f)" and df: "d ?p = Inr f"
      and bare: "mode self = OSTREE_REPO_MODE_BARE" and reg: "S_ISREG (st_mode f)"
      and rd: "readable f" for d f
  proof -
    have op: "openat d ?p = Inr f"
      using df rd by (simp add: openat_def readable_def)
    have lnk: "\<not> S_ISLNK (st_mode f)" using reg by (rule S_ISREG_not_LNK)
    show ?thesis
      using loc op bare reg lnk rd
      by (simp add: load_file_bare_project_def readable_def)
  qed
  have c1: "\<forall>f. mode self = OSTREE_REPO_MODE_BARE \<and> objects_dir self ?p = Inr f
        \<and> S_ISREG (st_mode f) \<and> readable f \<longrightarrow>
      u_ostree_repo_load_file_bare (Some (OstreeRepo self parent)) checksum wfd wst wsl wxa
        = Inr \<lparr>bare_fd = (if wfd then Some f else None),
               bare_stbuf = (if wst then Some (stat.truncate f) else None),
               bare_symlink = None,
               bare_xattrs =
                 (if wxa then Some (if disable_xattrs self then [] else xattrs f) else None)\<rparr>"
  proof (intro allI impI)
    fix f
    assume h: "mode self = OSTREE_REPO_MODE_BARE \<and> objects_dir self ?p = Inr f
        \<and> S_ISREG (st_mode f) \<and> readable f"
    then have "load_file_bare_locate self ?p = (objects_dir self, Inr f)"
      by (auto simp: load_file_bare_locate_def fstatat_def)
    with h show "u_ostree_repo_load_file_bare (Some (OstreeRepo self parent)) checksum wfd wst wsl wxa
        = Inr \<lparr>bare_fd = (if wfd then Some f else None),
               bare_stbuf = (if wst then Some (stat.truncate f) else None),
               bare_symlink = None,
               bare_xattrs =
                 (if wxa then Some (if disable_xattrs self then [] else xattrs f) else None)\<rparr>"
      using found [of "objects_dir self" f] by blast
  qed
  have c2: "\<forall>stagedir f. mode self = OSTREE_REPO_MODE_BARE \<and> objects_dir self ?p = Inl ENOENT
        \<and> commit_stagedir self = Some stagedir \<and> stagedir ?p = Inr f
        \<and> S_ISREG (st_mode f) \<and> readable f \<longrightarrow>
      u_ostree_repo_load_file_bare (Some (OstreeRepo self parent)) checksum wfd wst wsl wxa
        = Inr \<lparr>bare_fd = (if wfd then Some f else None),
               bare_stbuf = (if wst then Some (stat.truncate f) else None),
               bare_symlink = None,
               bare_xattrs =
                 (if wxa then Some (if disable_xattrs self then [] else xattrs f) else None)\<rparr>"
  proof (intro allI impI)
    fix stagedir f
    assume h: "mode self = OSTREE_REPO_MODE_BARE \<and> objects_dir self ?p = Inl ENOENT
        \<and> commit_stagedir self = Some stagedir \<and> stagedir ?p = Inr f
        \<and> S_ISREG (st_mode f) \<and> readable f"
    then have "load_file_bare_locate self ?p = (stagedir, Inr f)"
      by (auto simp: load_file_bare_locate_def fstatat_def)
    with h show "u_ostree_repo_load_file_bare (Some (OstreeRepo self parent)) checksum wfd wst wsl wxa
        = Inr \<lparr>bare_fd = (if wfd then Some f else None),
               bare_stbuf = (if wst then Some (stat.truncate f) else None),
               bare_symlink = None,
               bare_xattrs =
                 (if wxa then Some (if disable_xattrs self then [] else xattrs f) else None)\<rparr>"
      using found [of stagedir f] by blast
  qed
  have c3: "\<forall>e. objects_dir self ?p = Inl e \<and> e \<noteq> ENOENT \<longrightarrow>
      u_ostree_repo_load_file_bare (Some (OstreeRepo self parent)) checksum wfd wst wsl wxa
        = Inl (glnx_throw_errno e)"
    by (auto simp: load_file_bare_locate_def fstatat_def split: option.splits)
  have proj1: "load_file_bare_project (self\<lparr>commit_stagedir := None\<rparr>)
                 = load_file_bare_project self"
    by (simp add: load_file_bare_project_def fun_eq_iff)
  have proj2: "\<And>stagedir. load_file_bare_project
                 (self\<lparr>objects_dir := stagedir, commit_stagedir := None\<rparr>)
                 = load_file_bare_project self"
    by (simp add: load_file_bare_project_def fun_eq_iff)
  have r1: "objects_dir self ?pf \<noteq> Inl ENOENT \<longrightarrow>
        u_ostree_repo_load_file_bare (Some (OstreeRepo self parent)) checksum wfd wst wsl wxa
          = u_ostree_repo_load_file_bare
              (Some (OstreeRepo (self\<lparr>commit_stagedir := None\<rparr>) parent)) checksum wfd wst wsl wxa"
  proof
    assume ne: "objects_dir self ?pf \<noteq> Inl ENOENT"
    have loc: "load_file_bare_locate (self\<lparr>commit_stagedir := None\<rparr>) ?pf
                 = load_file_bare_locate self ?pf"
      using ne by (auto simp: load_file_bare_locate_def fstatat_def split: sum.splits option.splits)
    show "u_ostree_repo_load_file_bare (Some (OstreeRepo self parent)) checksum wfd wst wsl wxa
          = u_ostree_repo_load_file_bare
              (Some (OstreeRepo (self\<lparr>commit_stagedir := None\<rparr>) parent)) checksum wfd wst wsl wxa"
      by (simp add: loc proj1 split del: if_split cong: if_cong sum.case_cong option.case_cong)
  qed
  have r2: "\<forall>stagedir. objects_dir self ?pf = Inl ENOENT
        \<and> commit_stagedir self = Some stagedir \<longrightarrow>
        u_ostree_repo_load_file_bare (Some (OstreeRepo self parent)) checksum wfd wst wsl wxa
          = u_ostree_repo_load_file_bare
              (Some (OstreeRepo (self\<lparr>objects_dir := stagedir, commit_stagedir := None\<rparr>) parent))
              checksum wfd wst wsl wxa"
  proof (intro allI impI)
    fix stagedir
    assume h: "objects_dir self ?pf = Inl ENOENT \<and> commit_stagedir self = Some stagedir"
    have loc: "load_file_bare_locate
                 (self\<lparr>objects_dir := stagedir, commit_stagedir := None\<rparr>) ?pf
                 = load_file_bare_locate self ?pf"
      using h by (auto simp: load_file_bare_locate_def fstatat_def split: sum.splits option.splits)
    show "u_ostree_repo_load_file_bare (Some (OstreeRepo self parent)) checksum wfd wst wsl wxa
          = u_ostree_repo_load_file_bare
              (Some (OstreeRepo (self\<lparr>objects_dir := stagedir, commit_stagedir := None\<rparr>) parent))
              checksum wfd wst wsl wxa"
      by (simp add: loc proj2 split del: if_split cong: if_cong sum.case_cong option.case_cong)
  qed
  have r3: "absent_locally self ?pf \<longrightarrow>
        u_ostree_repo_load_file_bare (Some (OstreeRepo self parent)) checksum wfd wst wsl wxa
          = u_ostree_repo_load_file_bare parent checksum wfd wst wsl wxa"
    by (auto simp: load_file_bare_locate_def fstatat_def absent_locally_def
        split: sum.splits option.splits)
  have r4: "u_ostree_repo_load_file_bare None checksum wfd wst wsl wxa = Inl G_IO_ERROR_NOT_FOUND"
    by simp
  from c1 c2 c3 r1 r2 r3 r4 show ?thesis by blast
qed

lemma lookup_order_has_object:
  "(\<forall>stagedir f. commit_stagedir self = Some stagedir
        \<and> stagedir (u_ostree_loose_path checksum anytype (mode self)) = Inr f \<longrightarrow>
      ostree_repo_has_object (OstreeRepo self parent) anytype checksum = Inr True)
 \<and> (\<forall>stagedir e. commit_stagedir self = Some stagedir
        \<and> stagedir (u_ostree_loose_path checksum anytype (mode self)) = Inl e
        \<and> e \<noteq> ENOENT \<longrightarrow>
      ostree_repo_has_object (OstreeRepo self parent) anytype checksum
        = Inl (glnx_throw_errno e))
 \<and> (\<forall>f. (\<forall>stagedir. commit_stagedir self = Some stagedir \<longrightarrow>
              stagedir (u_ostree_loose_path checksum anytype (mode self)) = Inl ENOENT)
        \<and> objects_dir self (u_ostree_loose_path checksum anytype (mode self)) = Inr f \<longrightarrow>
      ostree_repo_has_object (OstreeRepo self parent) anytype checksum = Inr True)
 \<and> (\<forall>e. (\<forall>stagedir. commit_stagedir self = Some stagedir \<longrightarrow>
              stagedir (u_ostree_loose_path checksum anytype (mode self)) = Inl ENOENT)
        \<and> objects_dir self (u_ostree_loose_path checksum anytype (mode self)) = Inl e
        \<and> e \<noteq> ENOENT \<longrightarrow>
      ostree_repo_has_object (OstreeRepo self parent) anytype checksum
        = Inl (glnx_throw_errno e))
 \<and> (absent_locally self (u_ostree_loose_path checksum anytype (mode self)) \<longrightarrow>
        ostree_repo_has_object (OstreeRepo self parent) anytype checksum
          = (case parent of
               Some p \<Rightarrow> ostree_repo_has_object p anytype checksum
             | None \<Rightarrow> Inr False))"
proof -
  let ?pa = "u_ostree_loose_path checksum anytype (mode self)"
  have hits: "(\<forall>stagedir f. commit_stagedir self = Some stagedir
        \<and> stagedir (u_ostree_loose_path checksum anytype (mode self)) = Inr f \<longrightarrow>
      ostree_repo_has_object (OstreeRepo self parent) anytype checksum = Inr True)
 \<and> (\<forall>stagedir e. commit_stagedir self = Some stagedir
        \<and> stagedir (u_ostree_loose_path checksum anytype (mode self)) = Inl e
        \<and> e \<noteq> ENOENT \<longrightarrow>
      ostree_repo_has_object (OstreeRepo self parent) anytype checksum
        = Inl (glnx_throw_errno e))
 \<and> (\<forall>f. (\<forall>stagedir. commit_stagedir self = Some stagedir \<longrightarrow>
              stagedir (u_ostree_loose_path checksum anytype (mode self)) = Inl ENOENT)
        \<and> objects_dir self (u_ostree_loose_path checksum anytype (mode self)) = Inr f \<longrightarrow>
      ostree_repo_has_object (OstreeRepo self parent) anytype checksum = Inr True)
 \<and> (\<forall>e. (\<forall>stagedir. commit_stagedir self = Some stagedir \<longrightarrow>
              stagedir (u_ostree_loose_path checksum anytype (mode self)) = Inl ENOENT)
        \<and> objects_dir self (u_ostree_loose_path checksum anytype (mode self)) = Inl e
        \<and> e \<noteq> ENOENT \<longrightarrow>
      ostree_repo_has_object (OstreeRepo self parent) anytype checksum
        = Inl (glnx_throw_errno e))"
    by (cases "commit_stagedir self")
       (auto simp: u_ostree_repo_has_loose_object_def fstatat_def)
  have miss: "absent_locally self ?pa \<longrightarrow>
        ostree_repo_has_object (OstreeRepo self parent) anytype checksum
          = (case parent of
               Some p \<Rightarrow> ostree_repo_has_object p anytype checksum
             | None \<Rightarrow> Inr False)"
    by (cases "commit_stagedir self")
       (auto simp: u_ostree_repo_has_loose_object_def fstatat_def absent_locally_def
          split: sum.splits option.splits)
  from hits miss show ?thesis by blast
qed

text \<open>
  C1, amended. Object reads do not share one lookup order.

  \<open>load_metadata_internal\<close>, after a miss in the dirmeta cache, asks the object directory
  first. A file it opens there is the result, whatever the staging directory holds: the
  variant of its contents (mapped above 16384 bytes) when a variant is asked for, else the
  stream when one is asked for, and the size when it is asked for. An error other than
  \<open>ENOENT\<close> there is the error of the call. On \<open>ENOENT\<close> the staging directory, if one is
  open, is asked, with the same result for a file it has. An object in neither directory is
  loaded from the parent, always as a variant and with \<open>error_if_not_found\<close> set: the
  parent's error is the error of the call, and on success only the variant is handed back,
  so the stream and the size stay unset. With no parent the call fails with
  \<open>G_IO_ERROR_NOT_FOUND\<close> when \<open>error_if_not_found\<close> is set and succeeds with nothing
  otherwise.

  \<open>_ostree_repo_load_file_bare\<close> asks in the same order: a regular file of a \<open>BARE\<close>
  repository is returned from the object directory, or from the staging directory on
  \<open>ENOENT\<close>, with its stat fields and xattrs; in every mode the result is the one of the
  repository without its staging directory unless the object directory answers \<open>ENOENT\<close>,
  and then the one of the staging directory alone; an object in neither is the parent's
  result, and \<open>G_IO_ERROR_NOT_FOUND\<close> when no parent is left.

  \<open>ostree_repo_has_object\<close> asks the staging directory first: a file there is \<open>TRUE\<close> and
  an error other than \<open>ENOENT\<close> there is the error, before the object directory is asked;
  then a file in the object directory is \<open>TRUE\<close>; an object in neither is the parent's
  answer, and success with \<open>FALSE\<close> when no parent is left.
\<close>

theorem lookup_order_by_operation:
  assumes "OSTREE_OBJECT_TYPE_IS_META objtype"
    and "dirmeta_cache_lookup self sha = None"
  shows
    "((\<forall>fd. objects_dir self (u_ostree_loose_path sha objtype (mode self)) = Inr fd
          \<and> readable fd \<longrightarrow>
        fst (load_metadata_internal (OstreeRepo self parent) objtype sha enf wv ws wsz)
          = Inr \<lparr>out_variant =
                   (if wv then Some \<lparr>variant_type = objtype, variant_data = contents fd,
                                      variant_backing =
                                        (if 16384 < st_size fd then MappedFile else HeapBuffer)\<rparr>
                    else None),
                 out_stream = (if \<not> wv \<and> ws then Some fd else None),
                 out_size = (if wsz then Some (st_size fd) else None)\<rparr>)
   \<and> (\<forall>e. objects_dir self (u_ostree_loose_path sha objtype (mode self)) = Inl e
          \<and> e \<noteq> ENOENT \<longrightarrow>
        fst (load_metadata_internal (OstreeRepo self parent) objtype sha enf wv ws wsz)
          = Inl (glnx_throw_errno e))
   \<and> (\<forall>stagedir fd.
        objects_dir self (u_ostree_loose_path sha objtype (mode self)) = Inl ENOENT
          \<and> commit_stagedir self = Some stagedir
          \<and> stagedir (u_ostree_loose_path sha objtype (mode self)) = Inr fd
          \<and> readable fd \<longrightarrow>
        fst (load_metadata_internal (OstreeRepo self parent) objtype sha enf wv ws wsz)
          = Inr \<lparr>out_variant =
                   (if wv then Some \<lparr>variant_type = objtype, variant_data = contents fd,
                                      variant_backing =
                                        (if 16384 < st_size fd then MappedFile else HeapBuffer)\<rparr>
                    else None),
                 out_stream = (if \<not> wv \<and> ws then Some fd else None),
                 out_size = (if wsz then Some (st_size fd) else None)\<rparr>)
   \<and> (\<forall>p. absent_locally self (u_ostree_loose_path sha objtype (mode self))
          \<and> parent = Some p \<longrightarrow>
        fst (load_metadata_internal (OstreeRepo self parent) objtype sha enf wv ws wsz)
          = (case fst (load_metadata_internal p objtype sha True True False False) of
               Inl e \<Rightarrow> Inl e
             | Inr r \<Rightarrow>
                 Inr \<lparr>out_variant = (if wv then out_variant r else None),
                      out_stream = None, out_size = None\<rparr>))
   \<and> (absent_locally self (u_ostree_loose_path sha objtype (mode self))
          \<and> parent = None \<longrightarrow>
        fst (load_metadata_internal (OstreeRepo self parent) objtype sha enf wv ws wsz)
          = (if enf then Inl G_IO_ERROR_NOT_FOUND
             else Inr \<lparr>out_variant = None, out_stream = None, out_size = None\<rparr>)))
 \<and> ((\<forall>f. mode self = OSTREE_REPO_MODE_BARE
        \<and> objects_dir self (u_ostree_loose_path checksum OSTREE_OBJECT_TYPE_FILE (mode self))
            = Inr f
        \<and> S_ISREG (st_mode f) \<and> readable f \<longrightarrow>
      u_ostree_repo_load_file_bare (Some (OstreeRepo self parent)) checksum wfd wst wsl wxa
        = Inr \<lparr>bare_fd = (if wfd then Some f else None),
               bare_stbuf = (if wst then Some (stat.truncate f) else None),
               bare_symlink = None,
               bare_xattrs =
                 (if wxa then Some (if disable_xattrs self then [] else xattrs f) else None)\<rparr>)
 \<and> (\<forall>stagedir f. mode self = OSTREE_REPO_MODE_BARE
        \<and> objects_dir self (u_ostree_loose_path checksum OSTREE_OBJECT_TYPE_FILE (mode self))
            = Inl ENOENT
        \<and> commit_stagedir self = Some stagedir
        \<and> stagedir (u_ostree_loose_path checksum OSTREE_OBJECT_TYPE_FILE (mode self)) = Inr f
        \<and> S_ISREG (st_mode f) \<and> readable f \<longrightarrow>
      u_ostree_repo_load_file_bare (Some (OstreeRepo self parent)) checksum wfd wst wsl wxa
        = Inr \<lparr>bare_fd = (if wfd then Some f else None),
               bare_stbuf = (if wst then Some (stat.truncate f) else None),
               bare_symlink = None,
               bare_xattrs =
                 (if wxa then Some (if disable_xattrs self then [] else xattrs f) else None)\<rparr>)
 \<and> (\<forall>e. objects_dir self (u_ostree_loose_path checksum OSTREE_OBJECT_TYPE_FILE (mode self))
            = Inl e
        \<and> e \<noteq> ENOENT \<longrightarrow>
      u_ostree_repo_load_file_bare (Some (OstreeRepo self parent)) checksum wfd wst wsl wxa
        = Inl (glnx_throw_errno e))
 \<and> (objects_dir self (u_ostree_loose_path checksum OSTREE_OBJECT_TYPE_FILE (mode self)) \<noteq> Inl ENOENT \<longrightarrow>
        u_ostree_repo_load_file_bare (Some (OstreeRepo self parent)) checksum wfd wst wsl wxa
          = u_ostree_repo_load_file_bare
              (Some (OstreeRepo (self\<lparr>commit_stagedir := None\<rparr>) parent)) checksum wfd wst wsl wxa)
 \<and> (\<forall>stagedir. objects_dir self (u_ostree_loose_path checksum OSTREE_OBJECT_TYPE_FILE (mode self)) = Inl ENOENT
        \<and> commit_stagedir self = Some stagedir \<longrightarrow>
        u_ostree_repo_load_file_bare (Some (OstreeRepo self parent)) checksum wfd wst wsl wxa
          = u_ostree_repo_load_file_bare
              (Some (OstreeRepo (self\<lparr>objects_dir := stagedir, commit_stagedir := None\<rparr>) parent))
              checksum wfd wst wsl wxa)
 \<and> (absent_locally self (u_ostree_loose_path checksum OSTREE_OBJECT_TYPE_FILE (mode self)) \<longrightarrow>
        u_ostree_repo_load_file_bare (Some (OstreeRepo self parent)) checksum wfd wst wsl wxa
          = u_ostree_repo_load_file_bare parent checksum wfd wst wsl wxa)
 \<and> (u_ostree_repo_load_file_bare None checksum wfd wst wsl wxa = Inl G_IO_ERROR_NOT_FOUND))
 \<and> ((\<forall>stagedir f. commit_stagedir self = Some stagedir
        \<and> stagedir (u_ostree_loose_path checksum anytype (mode self)) = Inr f \<longrightarrow>
      ostree_repo_has_object (OstreeRepo self parent) anytype checksum = Inr True)
 \<and> (\<forall>stagedir e. commit_stagedir self = Some stagedir
        \<and> stagedir (u_ostree_loose_path checksum anytype (mode self)) = Inl e
        \<and> e \<noteq> ENOENT \<longrightarrow>
      ostree_repo_has_object (OstreeRepo self parent) anytype checksum
        = Inl (glnx_throw_errno e))
 \<and> (\<forall>f. (\<forall>stagedir. commit_stagedir self = Some stagedir \<longrightarrow>
              stagedir (u_ostree_loose_path checksum anytype (mode self)) = Inl ENOENT)
        \<and> objects_dir self (u_ostree_loose_path checksum anytype (mode self)) = Inr f \<longrightarrow>
      ostree_repo_has_object (OstreeRepo self parent) anytype checksum = Inr True)
 \<and> (\<forall>e. (\<forall>stagedir. commit_stagedir self = Some stagedir \<longrightarrow>
              stagedir (u_ostree_loose_path checksum anytype (mode self)) = Inl ENOENT)
        \<and> objects_dir self (u_ostree_loose_path checksum anytype (mode self)) = Inl e
        \<and> e \<noteq> ENOENT \<longrightarrow>
      ostree_repo_has_object (OstreeRepo self parent) anytype checksum
        = Inl (glnx_throw_errno e))
 \<and> (absent_locally self (u_ostree_loose_path checksum anytype (mode self)) \<longrightarrow>
        ostree_repo_has_object (OstreeRepo self parent) anytype checksum
          = (case parent of
               Some p \<Rightarrow> ostree_repo_has_object p anytype checksum
             | None \<Rightarrow> Inr False)))"
  by (rule conjI [OF lookup_order_metadata [OF assms]
        conjI [OF lookup_order_file_bare lookup_order_has_object]])

text \<open>
  The amended statement at a repository with a staging directory and a parent: a commit
  that both directories hold is read from the object directory, in the variant form and in
  the stream form; a commit that is only staged is read from the staging directory; a
  commit that the object directory refuses to open fails the load although the staging
  directory has it, and the existence check, which asks the staging directory first, finds
  it; a commit of the parent is returned as a variant, and as nothing at all in the stream
  form; a commit that is nowhere is \<open>G_IO_ERROR_NOT_FOUND\<close> for the load and \<open>FALSE\<close>
  for the existence check. The bare file load follows the metadata load.
\<close>

theorem lookup_order_by_operation_witness:
  "OSTREE_OBJECT_TYPE_IS_META OSTREE_OBJECT_TYPE_COMMIT
   \<and> dirmeta_cache_lookup example_lookup_self ''abcd'' = None
   \<and> objects_dir example_lookup_self ''ab/cd.commit''
       = Inr (example_file 0x81A4 0 0 4 ''main'' [])
   \<and> example_lookup_staging ''ab/cd.commit'' = Inr (example_file 0x81A4 0 0 6 ''staged'' [])
   \<and> readable (example_file 0x81A4 0 0 4 ''main'' [])
   \<and> fst (load_metadata_internal (OstreeRepo example_lookup_self (Some example_lookup_parent))
        OSTREE_OBJECT_TYPE_COMMIT ''abcd'' True True False False)
       = Inr \<lparr>out_variant = Some \<lparr>variant_type = OSTREE_OBJECT_TYPE_COMMIT,
                                     variant_data = ''main'', variant_backing = HeapBuffer\<rparr>,
              out_stream = None, out_size = None\<rparr>
   \<and> fst (load_metadata_internal (OstreeRepo example_lookup_self (Some example_lookup_parent))
        OSTREE_OBJECT_TYPE_COMMIT ''abcd'' True False True True)
       = Inr \<lparr>out_variant = None,
              out_stream = Some (example_file 0x81A4 0 0 4 ''main'' []),
              out_size = Some 4\<rparr>
   \<and> objects_dir example_lookup_self ''cc/cc.commit'' = Inl ENOENT
   \<and> fst (load_metadata_internal (OstreeRepo example_lookup_self (Some example_lookup_parent))
        OSTREE_OBJECT_TYPE_COMMIT ''cccc'' True True False False)
       = Inr \<lparr>out_variant = Some \<lparr>variant_type = OSTREE_OBJECT_TYPE_COMMIT,
                                     variant_data = ''fresh'', variant_backing = HeapBuffer\<rparr>,
              out_stream = None, out_size = None\<rparr>
   \<and> objects_dir example_lookup_self ''ee/ee.commit'' = Inl EACCES
   \<and> fst (load_metadata_internal (OstreeRepo example_lookup_self (Some example_lookup_parent))
        OSTREE_OBJECT_TYPE_COMMIT ''eeee'' True True False False)
       = Inl (G_IO_ERROR_ERRNO EACCES)
   \<and> ostree_repo_has_object (OstreeRepo example_lookup_self (Some example_lookup_parent))
        OSTREE_OBJECT_TYPE_COMMIT ''eeee'' = Inr True
   \<and> absent_locally example_lookup_self ''dd/dd.commit''
   \<and> fst (load_metadata_internal (OstreeRepo example_lookup_self (Some example_lookup_parent))
        OSTREE_OBJECT_TYPE_COMMIT ''dddd'' True True False False)
       = Inr \<lparr>out_variant = Some \<lparr>variant_type = OSTREE_OBJECT_TYPE_COMMIT,
                                     variant_data = ''inherited'',
                                     variant_backing = HeapBuffer\<rparr>,
              out_stream = None, out_size = None\<rparr>
   \<and> fst (load_metadata_internal (OstreeRepo example_lookup_self (Some example_lookup_parent))
        OSTREE_OBJECT_TYPE_COMMIT ''dddd'' True False True True)
       = Inr \<lparr>out_variant = None, out_stream = None, out_size = None\<rparr>
   \<and> ostree_repo_has_object (OstreeRepo example_lookup_self (Some example_lookup_parent))
        OSTREE_OBJECT_TYPE_COMMIT ''dddd'' = Inr True
   \<and> absent_locally example_lookup_self ''ff/ff.commit''
   \<and> fst (load_metadata_internal (OstreeRepo example_lookup_self (Some example_lookup_parent))
        OSTREE_OBJECT_TYPE_COMMIT ''ffff'' True True False False)
       = Inl G_IO_ERROR_NOT_FOUND
   \<and> fst (load_metadata_internal (OstreeRepo example_lookup_self None)
        OSTREE_OBJECT_TYPE_COMMIT ''ffff'' False True False False)
       = Inr \<lparr>out_variant = None, out_stream = None, out_size = None\<rparr>
   \<and> ostree_repo_has_object (OstreeRepo example_lookup_self (Some example_lookup_parent))
        OSTREE_OBJECT_TYPE_COMMIT ''ffff'' = Inr False
   \<and> u_ostree_repo_load_file_bare
        (Some (OstreeRepo example_lookup_self (Some example_lookup_parent)))
        ''abcd'' True True True True
       = Inr \<lparr>bare_fd = Some (example_file 0x81A4 0 0 4 ''main'' []),
              bare_stbuf = Some \<lparr>st_mode = 0x81A4, st_uid = 0, st_gid = 0, st_size = 4\<rparr>,
              bare_symlink = None, bare_xattrs = Some []\<rparr>
   \<and> u_ostree_repo_load_file_bare
        (Some (OstreeRepo example_lookup_self (Some example_lookup_parent)))
        ''cccc'' True True True True
       = Inr \<lparr>bare_fd = Some (example_file 0x81A4 0 0 5 ''fresh'' []),
              bare_stbuf = Some \<lparr>st_mode = 0x81A4, st_uid = 0, st_gid = 0, st_size = 5\<rparr>,
              bare_symlink = None, bare_xattrs = Some []\<rparr>
   \<and> u_ostree_repo_load_file_bare
        (Some (OstreeRepo example_lookup_self (Some example_lookup_parent)))
        ''ffff'' True True True True
       = Inl G_IO_ERROR_NOT_FOUND
   \<and> ostree_repo_has_object (OstreeRepo example_lookup_self (Some example_lookup_parent))
        OSTREE_OBJECT_TYPE_FILE ''abcd'' = Inr True
   \<and> ostree_repo_has_object (OstreeRepo example_lookup_self (Some example_lookup_parent))
        OSTREE_OBJECT_TYPE_FILE ''dddd'' = Inr False"
  using
    lookup_order_by_operation
      [where objtype = OSTREE_OBJECT_TYPE_COMMIT and sha = "''abcd''" and checksum = "''abcd''"
         and anytype = OSTREE_OBJECT_TYPE_FILE and self = example_lookup_self
         and parent = "Some example_lookup_parent"
         and enf = True and wv = True and ws = False and wsz = False
         and wfd = True and wst = True and wsl = True and wxa = True]
    lookup_order_by_operation
      [where objtype = OSTREE_OBJECT_TYPE_COMMIT and sha = "''abcd''" and checksum = "''cccc''"
         and anytype = OSTREE_OBJECT_TYPE_FILE and self = example_lookup_self
         and parent = "Some example_lookup_parent"
         and enf = True and wv = False and ws = True and wsz = True
         and wfd = True and wst = True and wsl = True and wxa = True]
    lookup_order_by_operation
      [where objtype = OSTREE_OBJECT_TYPE_COMMIT and sha = "''cccc''" and checksum = "''ffff''"
         and anytype = OSTREE_OBJECT_TYPE_COMMIT and self = example_lookup_self
         and parent = "Some example_lookup_parent"
         and enf = True and wv = True and ws = False and wsz = False
         and wfd = True and wst = True and wsl = True and wxa = True]
    lookup_order_by_operation
      [where objtype = OSTREE_OBJECT_TYPE_COMMIT and sha = "''eeee''" and checksum = "''eeee''"
         and anytype = OSTREE_OBJECT_TYPE_COMMIT and self = example_lookup_self
         and parent = "Some example_lookup_parent"
         and enf = True and wv = True and ws = False and wsz = False
         and wfd = True and wst = True and wsl = True and wxa = True]
    lookup_order_by_operation
      [where objtype = OSTREE_OBJECT_TYPE_COMMIT and sha = "''dddd''" and checksum = "''dddd''"
         and anytype = OSTREE_OBJECT_TYPE_COMMIT and self = example_lookup_self
         and parent = "Some example_lookup_parent"
         and enf = True and wv = True and ws = False and wsz = False
         and wfd = True and wst = True and wsl = True and wxa = True]
    lookup_order_by_operation
      [where objtype = OSTREE_OBJECT_TYPE_COMMIT and sha = "''dddd''" and checksum = "''dddd''"
         and anytype = OSTREE_OBJECT_TYPE_FILE and self = example_lookup_self
         and parent = "Some example_lookup_parent"
         and enf = True and wv = False and ws = True and wsz = True
         and wfd = True and wst = True and wsl = True and wxa = True]
    lookup_order_by_operation
      [where objtype = OSTREE_OBJECT_TYPE_COMMIT and sha = "''ffff''" and checksum = "''ffff''"
         and anytype = OSTREE_OBJECT_TYPE_COMMIT and self = example_lookup_self
         and parent = "Some example_lookup_parent"
         and enf = True and wv = True and ws = False and wsz = False
         and wfd = True and wst = True and wsl = True and wxa = True]
    lookup_order_by_operation
      [where objtype = OSTREE_OBJECT_TYPE_COMMIT and sha = "''ffff''" and checksum = "''ffff''"
         and anytype = OSTREE_OBJECT_TYPE_COMMIT and self = example_lookup_self
         and parent = None
         and enf = False and wv = True and ws = False and wsz = False
         and wfd = True and wst = True and wsl = True and wxa = True]
  by (simp add: example_lookup_self_def example_lookup_objects_def example_lookup_staging_def
      example_lookup_parent_def example_self_def example_file_def empty_dir_def readable_def
      absent_locally_def OSTREE_OBJECT_TYPE_IS_META_def u_ostree_loose_path_def
      metadata_open_def ot_openat_ignore_enoent_def openat_def variant_from_fd_def
      load_file_bare_locate_def fstatat_def load_file_bare_project_def S_ISREG_def S_ISLNK_def
      u_ostree_repo_has_loose_object_def dirmeta_cache_lookup_def stat.truncate_def)

section \<open>Listing remotes in a repository with a parent\<close>

lemma remote_list_returns_no_parent:
  "u_ostree_repo_remote_list self out = Some y \<Longrightarrow> parent_repo self = None"
proof -
  assume ret: "u_ostree_repo_remote_list self out = Some y"
  show "parent_repo self = None"
    by (rule u_ostree_repo_remote_list.raw_induct
          [where P = "\<lambda>r out y. parent_repo r = None", OF _ ret])
       (auto split: if_splits)
qed

lemma remote_list_parent_diverges:
  "parent_repo self \<noteq> None \<Longrightarrow> u_ostree_repo_remote_list self out = None"
  using remote_list_returns_no_parent [of self out]
  by (cases "u_ostree_repo_remote_list self out") auto

lemma fold_insert_set: "set (fold List.insert xs out) = set xs \<union> set out"
  by (induction xs arbitrary: out) auto

lemma fold_insert_distinct: "distinct out \<Longrightarrow> distinct (fold List.insert xs out)"
  by (induction xs arbitrary: out) auto

text \<open>
  Without a parent the list is what the specification says: every name of the registry
  once, in lexicographic order.
\<close>

lemma remote_list_no_parent:
  "ostree_repo_remote_list (OstreeRepo s None) = Some (arr, n) \<Longrightarrow>
     n = card (fst ` set (remotes s)) \<and>
     (case arr of
        None \<Rightarrow> remotes s = []
      | Some xs \<Rightarrow> sorted xs \<and> distinct xs \<and> set xs = fst ` set (remotes s))"
  apply (subst (asm) ostree_repo_remote_list_def)
  apply (subst (asm) u_ostree_repo_remote_list.simps)
  apply (auto simp: fold_insert_set fold_insert_distinct distinct_card [symmetric]
      split: if_splits)
  done

text \<open>
  C2: for every repository, also one with a parent, and every remote \<open>R\<close> of its
  registry, \<open>ostree_repo_remote_list\<close> terminates and returns an array that has \<open>R\<close>
  exactly once, the names in lexicographic order. The function is documented so, and the
  code breaks it when a parent is set: \<open>_ostree_repo_remote_list\<close> calls itself on
  \<open>self\<close>, not on \<open>self->parent_repo\<close>, so the call never returns. Here a repository
  with the remote \<open>origin\<close> whose parent has the remote \<open>upstream\<close>.
\<close>

theorem remote_list_with_parent_never_returns:
  "ostree_repo_remote_list
     (OstreeRepo
        (example_self OSTREE_REPO_MODE_BARE empty_dir None
           [(''origin'', example_remote ''origin'' [])])
        (Some (OstreeRepo
           (example_self OSTREE_REPO_MODE_BARE empty_dir None
              [(''upstream'', example_remote ''upstream'' [])])
           None))) = None"
  by (simp add: ostree_repo_remote_list_def remote_list_parent_diverges)

section \<open>Mode projection of bare-user-only repositories\<close>

text \<open>
  C3, as the specification states it: in a \<open>BARE_USER_ONLY\<close> repository every successful
  \<open>load_file\<close> returns uid 0, gid 0 and no extended attributes, also for an object found
  through the parent. The recursion on the parent runs with the parent's mode: here the
  child is \<open>BARE_USER_ONLY\<close> and empty, the parent is \<open>BARE\<close> and holds the file with
  uid and gid 1000 and one extended attribute, and the child returns them as they are.
\<close>

theorem bare_user_only_parent_counterexample:
  "mode (example_self OSTREE_REPO_MODE_BARE_USER_ONLY empty_dir None [])
     = OSTREE_REPO_MODE_BARE_USER_ONLY
   \<and> ostree_repo_load_file example_parse
        (OstreeRepo (example_self OSTREE_REPO_MODE_BARE_USER_ONLY empty_dir None [])
           (Some (OstreeRepo
              (example_self OSTREE_REPO_MODE_BARE
                 (empty_dir(''ab/cd.file'' :=
                    Inr (example_file 0x81A4 1000 1000 3 ''abc'' [(''user.foo'', ''bar'')])))
                 None [])
              None)))
        ''abcd'' True True True
       = Inr \<lparr>out_input = Some (example_file 0x81A4 1000 1000 3 ''abc'' [(''user.foo'', ''bar'')]),
              out_file_info =
                Some (\<lparr>st_mode = 0x81A4, st_uid = 1000, st_gid = 1000, st_size = 3\<rparr>, None),
              out_xattrs = Some [(''user.foo'', ''bar'')]\<rparr>"
  by (simp add: example_self_def example_file_def empty_dir_def u_ostree_loose_path_def
      load_file_bare_locate_def fstatat_def openat_def load_file_bare_project_def
      S_ISREG_def S_ISLNK_def stat.truncate_def inode.defs stat.defs)

text \<open>
  C3, amended: in a \<open>BARE_USER_ONLY\<close> repository every successful \<open>load_file\<close> of an
  object found in the repository's own object directory or staging directory returns
  uid 0 and gid 0 in the file information, and the empty list of extended attributes,
  whatever the file on disk has.
\<close>

theorem bare_user_only_local_projection:
  assumes "mode self = OSTREE_REPO_MODE_BARE_USER_ONLY"
    and "snd (load_file_bare_locate self
                (u_ostree_loose_path checksum OSTREE_OBJECT_TYPE_FILE (mode self))) = Inr f"
    and "ostree_repo_load_file parse (OstreeRepo self parent) checksum want_input want_file_info
           want_xattrs = Inr r"
  shows "(want_file_info \<longrightarrow>
            (\<exists>stbuf target. out_file_info r = Some (stbuf, target)
               \<and> st_uid stbuf = 0 \<and> st_gid stbuf = 0))
       \<and> (want_xattrs \<longrightarrow> out_xattrs r = Some [])"
proof -
  obtain objdir_fd where loc: "load_file_bare_locate self
      (u_ostree_loose_path checksum OSTREE_OBJECT_TYPE_FILE (mode self)) = (objdir_fd, Inr f)"
    using assms(2) by (cases "load_file_bare_locate self
      (u_ostree_loose_path checksum OSTREE_OBJECT_TYPE_FILE (mode self))") simp
  have proj: "\<And>fd ret_symlink wsl wxa. load_file_bare_project self f fd ret_symlink wsl wxa
      = Inr \<lparr>bare_fd = fd,
             bare_stbuf = Some ((stat.truncate f)\<lparr>st_uid := 0, st_gid := 0\<rparr>),
             bare_symlink = ret_symlink,
             bare_xattrs = (if wxa then Some [] else None)\<rparr>"
    using assms(1) by (simp add: load_file_bare_project_def)
  have bare: "u_ostree_repo_load_file_bare (Some (OstreeRepo self parent)) checksum want_input
                want_file_info want_file_info want_xattrs = Inr b \<Longrightarrow>
              (want_file_info \<longrightarrow> (\<exists>stbuf. bare_stbuf b = Some stbuf
                  \<and> st_uid stbuf = 0 \<and> st_gid stbuf = 0))
              \<and> (want_xattrs \<longrightarrow> bare_xattrs b = Some [])" for b
    using loc by (auto simp: proj split: sum.splits if_splits)
  obtain b where
    b: "u_ostree_repo_load_file_bare (Some (OstreeRepo self parent)) checksum want_input
          want_file_info want_file_info want_xattrs = Inr b"
    using assms(1,3)
    by (cases "u_ostree_repo_load_file_bare (Some (OstreeRepo self parent)) checksum want_input
          want_file_info want_file_info want_xattrs")
       (auto simp del: u_ostree_repo_load_file_bare.simps)
  from assms(1,3) b bare [OF b] show ?thesis
    by (auto simp del: u_ostree_repo_load_file_bare.simps split: option.splits if_splits)
qed

text \<open>The same file as in the counterexample, now in the child's own object directory.\<close>

theorem bare_user_only_local_projection_witness:
  "mode (example_self OSTREE_REPO_MODE_BARE_USER_ONLY
       (empty_dir(''ab/cd.file'' :=
          Inr (example_file 0x81A4 1000 1000 3 ''abc'' [(''user.foo'', ''bar'')])))
       None [])
     = OSTREE_REPO_MODE_BARE_USER_ONLY
   \<and> ostree_repo_load_file example_parse
        (OstreeRepo
           (example_self OSTREE_REPO_MODE_BARE_USER_ONLY
              (empty_dir(''ab/cd.file'' :=
                 Inr (example_file 0x81A4 1000 1000 3 ''abc'' [(''user.foo'', ''bar'')])))
              None [])
           None)
        ''abcd'' True True True
       = Inr \<lparr>out_input = Some (example_file 0x81A4 1000 1000 3 ''abc'' [(''user.foo'', ''bar'')]),
              out_file_info =
                Some (\<lparr>st_mode = 0x81A4, st_uid = 0, st_gid = 0, st_size = 3\<rparr>, None),
              out_xattrs = Some []\<rparr>"
  using bare_user_only_local_projection
    [where parse = example_parse and checksum = "''abcd''" and parent = None
       and want_input = True and want_file_info = True and want_xattrs = True
       and f = "example_file 0x81A4 1000 1000 3 ''abc'' [(''user.foo'', ''bar'')]"
       and self = "example_self OSTREE_REPO_MODE_BARE_USER_ONLY
              (empty_dir(''ab/cd.file'' :=
                 Inr (example_file 0x81A4 1000 1000 3 ''abc'' [(''user.foo'', ''bar'')])))
              None []"
       and r = "\<lparr>out_input = Some (example_file 0x81A4 1000 1000 3 ''abc''
                                        [(''user.foo'', ''bar'')]),
              out_file_info =
                Some (\<lparr>st_mode = 0x81A4, st_uid = 0, st_gid = 0, st_size = 3\<rparr>, None),
              out_xattrs = Some []\<rparr>"]
  by (simp add: example_self_def example_file_def empty_dir_def u_ostree_loose_path_def
      load_file_bare_locate_def fstatat_def openat_def load_file_bare_project_def
      S_ISREG_def S_ISLNK_def stat.truncate_def inode.defs stat.defs)

section \<open>Deleting a commit\<close>

lemma commit_path_neq_meta:
  "u_ostree_loose_path sha OSTREE_OBJECT_TYPE_COMMIT_META m
     \<noteq> u_ostree_loose_path sha OSTREE_OBJECT_TYPE_COMMIT m"
  by (simp add: u_ostree_loose_path_def)

text \<open>
  C4: \<open>delete_object(D, COMMIT)\<close> on a commit that is in the object directory removes the
  loose commit file and the \<open>COMMIT_META\<close> twin, whose absence is not an error, and when
  \<open>core/tombstone-commits\<close> is true it hands to the metadata writer a
  \<open>TOMBSTONE_COMMIT\<close> object for \<open>D\<close> whose dictionary records \<open>D\<close> under \<open>commit\<close>.
\<close>

theorem delete_commit_removes_twin_and_writes_tombstone:
  assumes "objects_dir self (u_ostree_loose_path sha OSTREE_OBJECT_TYPE_COMMIT (mode self))
             = Inr f"
    and "\<forall>e. objects_dir self
               (u_ostree_loose_path sha OSTREE_OBJECT_TYPE_COMMIT_META (mode self)) = Inl e
             \<longrightarrow> e = ENOENT"
    and "ot_keyfile_get_boolean_with_default (config self) ''core'' ''tombstone-commits'' False
           = Inr tombstone_commits"
  shows "ostree_repo_delete_object write_metadata_trusted (OstreeRepo self parent)
           OSTREE_OBJECT_TYPE_COMMIT sha
         = (if tombstone_commits
            then write_metadata_trusted
                   (OstreeRepo
                      (self\<lparr>objects_dir := (objects_dir self)
                         (u_ostree_loose_path sha OSTREE_OBJECT_TYPE_COMMIT_META (mode self)
                            := Inl ENOENT,
                          u_ostree_loose_path sha OSTREE_OBJECT_TYPE_COMMIT (mode self)
                            := Inl ENOENT)\<rparr>)
                      parent)
                   OSTREE_OBJECT_TYPE_TOMBSTONE_COMMIT sha
                   (GV_dict [(''commit'', GV_bytestring sha)])
            else (None,
                  OstreeRepo
                    (self\<lparr>objects_dir := (objects_dir self)
                       (u_ostree_loose_path sha OSTREE_OBJECT_TYPE_COMMIT_META (mode self)
                          := Inl ENOENT,
                        u_ostree_loose_path sha OSTREE_OBJECT_TYPE_COMMIT (mode self)
                          := Inl ENOENT)\<rparr>)
                    parent))"
proof (cases "objects_dir self
                (u_ostree_loose_path sha OSTREE_OBJECT_TYPE_COMMIT_META (mode self))")
  case (Inl e)
  with assms(2) have e: "e = ENOENT" by simp
  have idem: "(objects_dir self)
                (u_ostree_loose_path sha OSTREE_OBJECT_TYPE_COMMIT_META (mode self)
                   := Inl ENOENT) = objects_dir self"
    using Inl e by (simp add: fun_upd_idem)
  show ?thesis
    using Inl e assms(1,3) commit_path_neq_meta [of sha "mode self"]
    by (simp add: ostree_repo_delete_object_def unlinkat_def idem)
next
  case (Inr g)
  show ?thesis
    using Inr assms(1,3) commit_path_neq_meta [of sha "mode self"]
    by (simp add: ostree_repo_delete_object_def unlinkat_def)
qed

text \<open>
  A repository with the commit \<open>abcd\<close>, its detached metadata and
  \<open>tombstone-commits=true\<close>: after the call both files are gone and the tombstone is there.
\<close>

theorem delete_commit_removes_twin_and_writes_tombstone_witness:
  "fst (ostree_repo_delete_object example_write_metadata_trusted
          (OstreeRepo
             ((example_self OSTREE_REPO_MODE_BARE
                 (empty_dir(''ab/cd.commit'' := Inr (example_file 0x81A4 0 0 1 ''c'' []),
                            ''ab/cd.commitmeta'' := Inr (example_file 0x81A4 0 0 1 ''m'' [])))
                 None [])
              \<lparr>config := [''core'' \<mapsto> [''tombstone-commits'' \<mapsto> ''true'']]\<rparr>)
             None)
          OSTREE_OBJECT_TYPE_COMMIT ''abcd'') = None
   \<and> map (objects_dir (self_of (snd (ostree_repo_delete_object example_write_metadata_trusted
          (OstreeRepo
             ((example_self OSTREE_REPO_MODE_BARE
                 (empty_dir(''ab/cd.commit'' := Inr (example_file 0x81A4 0 0 1 ''c'' []),
                            ''ab/cd.commitmeta'' := Inr (example_file 0x81A4 0 0 1 ''m'' [])))
                 None [])
              \<lparr>config := [''core'' \<mapsto> [''tombstone-commits'' \<mapsto> ''true'']]\<rparr>)
             None)
          OSTREE_OBJECT_TYPE_COMMIT ''abcd''))))
       [''ab/cd.commit'', ''ab/cd.commitmeta'', ''ab/cd.commit-tombstone'']
     = [Inl ENOENT, Inl ENOENT, Inr (example_file 0x81A4 0 0 0 [] [])]"
  using delete_commit_removes_twin_and_writes_tombstone
    [where write_metadata_trusted = example_write_metadata_trusted and sha = "''abcd''"
       and parent = None and tombstone_commits = True
       and f = "example_file 0x81A4 0 0 1 ''c'' []"
       and self = "(example_self OSTREE_REPO_MODE_BARE
                 (empty_dir(''ab/cd.commit'' := Inr (example_file 0x81A4 0 0 1 ''c'' []),
                            ''ab/cd.commitmeta'' := Inr (example_file 0x81A4 0 0 1 ''m'' [])))
                 None [])
              \<lparr>config := [''core'' \<mapsto> [''tombstone-commits'' \<mapsto> ''true'']]\<rparr>"]
  by (simp add: example_self_def example_file_def empty_dir_def u_ostree_loose_path_def
      example_write_metadata_trusted_def ot_keyfile_get_boolean_with_default_def
      g_key_file_get_boolean_def g_key_file_get_string_def)

text \<open>
  C9: when the loose commit file of \<open>D\<close> is absent, \<open>delete_object(D, COMMIT)\<close> fails with
  \<open>G_IO_ERROR_NOT_FOUND\<close>, and a \<open>COMMIT_META\<close> twin that was there has been unlinked all
  the same: the repository returned with the error lacks it.
\<close>

theorem delete_missing_commit_still_unlinks_meta:
  assumes "objects_dir self (u_ostree_loose_path sha OSTREE_OBJECT_TYPE_COMMIT (mode self))
             = Inl ENOENT"
    and "objects_dir self (u_ostree_loose_path sha OSTREE_OBJECT_TYPE_COMMIT_META (mode self))
             = Inr g"
  shows "ostree_repo_delete_object write_metadata_trusted (OstreeRepo self parent)
           OSTREE_OBJECT_TYPE_COMMIT sha
         = (Some G_IO_ERROR_NOT_FOUND,
            OstreeRepo
              (self\<lparr>objects_dir := (objects_dir self)
                 (u_ostree_loose_path sha OSTREE_OBJECT_TYPE_COMMIT_META (mode self)
                    := Inl ENOENT)\<rparr>)
              parent)"
  using assms commit_path_neq_meta [of sha "mode self"]
  by (simp add: ostree_repo_delete_object_def unlinkat_def)

theorem delete_missing_commit_still_unlinks_meta_witness:
  "fst (ostree_repo_delete_object example_write_metadata_trusted
          (OstreeRepo
             (example_self OSTREE_REPO_MODE_BARE
                (empty_dir(''ab/cd.commitmeta'' := Inr (example_file 0x81A4 0 0 1 ''m'' [])))
                None [])
             None)
          OSTREE_OBJECT_TYPE_COMMIT ''abcd'') = Some G_IO_ERROR_NOT_FOUND
   \<and> empty_dir ''ab/cd.commit'' = Inl ENOENT
   \<and> (empty_dir(''ab/cd.commitmeta'' := Inr (example_file 0x81A4 0 0 1 ''m'' [])))
        ''ab/cd.commitmeta'' = Inr (example_file 0x81A4 0 0 1 ''m'' [])
   \<and> objects_dir (self_of (snd (ostree_repo_delete_object example_write_metadata_trusted
          (OstreeRepo
             (example_self OSTREE_REPO_MODE_BARE
                (empty_dir(''ab/cd.commitmeta'' := Inr (example_file 0x81A4 0 0 1 ''m'' [])))
                None [])
             None)
          OSTREE_OBJECT_TYPE_COMMIT ''abcd''))) ''ab/cd.commitmeta'' = Inl ENOENT"
  using delete_missing_commit_still_unlinks_meta
    [where write_metadata_trusted = example_write_metadata_trusted and sha = "''abcd''"
       and parent = None and g = "example_file 0x81A4 0 0 1 ''m'' []"
       and self = "example_self OSTREE_REPO_MODE_BARE
                (empty_dir(''ab/cd.commitmeta'' := Inr (example_file 0x81A4 0 0 1 ''m'' [])))
                None []"]
  by (simp add: example_self_def example_file_def empty_dir_def u_ostree_loose_path_def)

section \<open>The size threshold of metadata loads\<close>

text \<open>
  C8: a loose metadata object loaded as a variant is read into a heap buffer when its size
  is at most 16 KiB (16384 bytes), and is memory-mapped, the variant borrowing the
  mapping, from 16385 bytes on.
\<close>

theorem load_variant_size_threshold:
  assumes "OSTREE_OBJECT_TYPE_IS_META objtype"
    and "dirmeta_cache_lookup self sha = None"
    and "metadata_open self (u_ostree_loose_path sha objtype (mode self)) = Inr (Some fd)"
    and "fstat_error fd = None" and "read_error fd = None"
  shows "fst (ostree_repo_load_variant (OstreeRepo self parent) objtype sha)
           = Inr (Some \<lparr>variant_type = objtype, variant_data = contents fd,
                         variant_backing =
                           (if st_size fd \<le> 16384 then HeapBuffer else MappedFile)\<rparr>)"
  using assms
  by (simp add: ostree_repo_load_variant_def variant_from_fd_def)

theorem load_variant_size_threshold_witness:
  "fst (ostree_repo_load_variant
          (OstreeRepo
             (example_self OSTREE_REPO_MODE_BARE
                (empty_dir(''ab/cd.commit'' := Inr (example_file 0x81A4 0 0 16384 ''c'' [])))
                None [])
             None)
          OSTREE_OBJECT_TYPE_COMMIT ''abcd'')
     = Inr (Some \<lparr>variant_type = OSTREE_OBJECT_TYPE_COMMIT, variant_data = ''c'',
                   variant_backing = HeapBuffer\<rparr>)
   \<and> fst (ostree_repo_load_variant
          (OstreeRepo
             (example_self OSTREE_REPO_MODE_BARE
                (empty_dir(''ab/cd.commit'' := Inr (example_file 0x81A4 0 0 16385 ''c'' [])))
                None [])
             None)
          OSTREE_OBJECT_TYPE_COMMIT ''abcd'')
     = Inr (Some \<lparr>variant_type = OSTREE_OBJECT_TYPE_COMMIT, variant_data = ''c'',
                   variant_backing = MappedFile\<rparr>)"
  using
    load_variant_size_threshold
      [where objtype = OSTREE_OBJECT_TYPE_COMMIT and sha = "''abcd''" and parent = None
         and fd = "example_file 0x81A4 0 0 16384 ''c'' []"
         and self = "example_self OSTREE_REPO_MODE_BARE
                (empty_dir(''ab/cd.commit'' := Inr (example_file 0x81A4 0 0 16384 ''c'' [])))
                None []"]
    load_variant_size_threshold
      [where objtype = OSTREE_OBJECT_TYPE_COMMIT and sha = "''abcd''" and parent = None
         and fd = "example_file 0x81A4 0 0 16385 ''c'' []"
         and self = "example_self OSTREE_REPO_MODE_BARE
                (empty_dir(''ab/cd.commit'' := Inr (example_file 0x81A4 0 0 16385 ''c'' [])))
                None []"]
  by (simp add: example_self_def example_file_def empty_dir_def u_ostree_loose_path_def
      OSTREE_OBJECT_TYPE_IS_META_def dirmeta_cache_lookup_def metadata_open_def
      ot_openat_ignore_enoent_def openat_def)

section \<open>Remote options\<close>

text \<open>
  C5: for a remote name \<open>N\<close> that is not a \<open>file://\<close> URL and an option key \<open>K\<close>, the
  string, string-list and boolean getters all read the registries in the same way. When
  \<open>N\<close> is in the local registry and its group has \<open>K\<close>, the result is the value of the
  local key file, as a string, split into a list, or parsed as a boolean, and no parent is
  asked; a key-file error other than a missing key is the error of the call. When \<open>N\<close> is
  absent from the local registry, the whole lookup is the parent's, and without a parent
  the call fails with \<open>G_IO_ERROR_NOT_FOUND\<close>. When \<open>N\<close> is there and \<open>K\<close> is missing, the
  parent's value is taken if the parent's lookup succeeds, and the caller's default
  otherwise, also when there is no parent (the default of the list getter is \<open>NULL\<close>).
\<close>

theorem remote_option_parent_cascade:
  assumes "\<not> u_ostree_repo_remote_name_is_file remote_name"
  shows
    "(\<forall>remote v. map_of (remotes s) remote_name = Some remote
          \<and> g_key_file_get_string (options remote) (group remote) option_name = Inr v \<longrightarrow>
        ostree_repo_get_remote_option (OstreeRepo s parent) remote_name option_name dv
          = Inr (Some v))
   \<and> (\<forall>remote l. map_of (remotes s) remote_name = Some remote
          \<and> g_key_file_get_string_list (options remote) (group remote) option_name = Inr l \<longrightarrow>
        ostree_repo_get_remote_list_option (OstreeRepo s parent) remote_name option_name
          = Inr (Some l))
   \<and> (\<forall>remote b. map_of (remotes s) remote_name = Some remote
          \<and> g_key_file_get_boolean (options remote) (group remote) option_name = Inr b \<longrightarrow>
        ostree_repo_get_remote_boolean_option (OstreeRepo s parent) remote_name option_name db
          = Inr b)
   \<and> (\<forall>remote e. map_of (remotes s) remote_name = Some remote
          \<and> g_key_file_get_string (options remote) (group remote) option_name = Inl e
          \<and> e \<noteq> G_KEY_FILE_ERROR_KEY_NOT_FOUND \<longrightarrow>
        ostree_repo_get_remote_option (OstreeRepo s parent) remote_name option_name dv = Inl e
      \<and> ostree_repo_get_remote_list_option (OstreeRepo s parent) remote_name option_name
          = Inl e
      \<and> ostree_repo_get_remote_boolean_option (OstreeRepo s parent) remote_name option_name db
          = Inl e)
   \<and> (\<forall>remote. map_of (remotes s) remote_name = Some remote
          \<and> g_key_file_get_boolean (options remote) (group remote) option_name
              = Inl G_KEY_FILE_ERROR_INVALID_VALUE \<longrightarrow>
        ostree_repo_get_remote_boolean_option (OstreeRepo s parent) remote_name option_name db
          = Inl G_KEY_FILE_ERROR_INVALID_VALUE)
   \<and> (map_of (remotes s) remote_name = None \<longrightarrow>
        ostree_repo_get_remote_option (OstreeRepo s (Some p)) remote_name option_name dv
          = ostree_repo_get_remote_option p remote_name option_name dv
      \<and> ostree_repo_get_remote_list_option (OstreeRepo s (Some p)) remote_name option_name
          = ostree_repo_get_remote_list_option p remote_name option_name
      \<and> ostree_repo_get_remote_boolean_option (OstreeRepo s (Some p)) remote_name option_name db
          = ostree_repo_get_remote_boolean_option p remote_name option_name db)
   \<and> (map_of (remotes s) remote_name = None \<longrightarrow>
        ostree_repo_get_remote_option (OstreeRepo s None) remote_name option_name dv
          = Inl G_IO_ERROR_NOT_FOUND
      \<and> ostree_repo_get_remote_list_option (OstreeRepo s None) remote_name option_name
          = Inl G_IO_ERROR_NOT_FOUND
      \<and> ostree_repo_get_remote_boolean_option (OstreeRepo s None) remote_name option_name db
          = Inl G_IO_ERROR_NOT_FOUND)
   \<and> (\<forall>remote. map_of (remotes s) remote_name = Some remote
          \<and> g_key_file_get_string (options remote) (group remote) option_name
              = Inl G_KEY_FILE_ERROR_KEY_NOT_FOUND \<longrightarrow>
        ostree_repo_get_remote_option (OstreeRepo s (Some p)) remote_name option_name dv
          = (case ostree_repo_get_remote_option p remote_name option_name dv of
               Inr v \<Rightarrow> Inr v | Inl e \<Rightarrow> Inr dv)
      \<and> ostree_repo_get_remote_list_option (OstreeRepo s (Some p)) remote_name option_name
          = (case ostree_repo_get_remote_list_option p remote_name option_name of
               Inr v \<Rightarrow> Inr v | Inl e \<Rightarrow> Inr None)
      \<and> ostree_repo_get_remote_boolean_option (OstreeRepo s (Some p)) remote_name option_name db
          = (case ostree_repo_get_remote_boolean_option p remote_name option_name db of
               Inr v \<Rightarrow> Inr v | Inl e \<Rightarrow> Inr db))
   \<and> (\<forall>remote. map_of (remotes s) remote_name = Some remote
          \<and> g_key_file_get_string (options remote) (group remote) option_name
              = Inl G_KEY_FILE_ERROR_KEY_NOT_FOUND \<longrightarrow>
        ostree_repo_get_remote_option (OstreeRepo s None) remote_name option_name dv = Inr dv
      \<and> ostree_repo_get_remote_list_option (OstreeRepo s None) remote_name option_name
          = Inr None
      \<and> ostree_repo_get_remote_boolean_option (OstreeRepo s None) remote_name option_name db
          = Inr db)"
  using assms
  by (simp add: u_ostree_repo_get_remote_def g_key_file_get_string_list_def
      g_key_file_get_boolean_def)

text \<open>
  The scenario of the specification, with a list and a second boolean added: the parent
  has \<open>upstream\<close> with \<open>url\<close>, \<open>branches\<close> and \<open>gpg-verify-summary\<close>. A child without the
  remote, and a child whose \<open>upstream\<close> sets \<open>gpg-verify=false\<close> only, both find the
  parent's \<open>url\<close>, the parent's list of branches and the parent's \<open>gpg-verify-summary\<close>,
  and the second child reads its own \<open>gpg-verify\<close>. A key that nobody has gives the
  default, and a remote that nobody has is not found.
\<close>

theorem remote_option_parent_cascade_witness:
  "\<not> u_ostree_repo_remote_name_is_file ''upstream''
   \<and> map_of (remotes (example_self OSTREE_REPO_MODE_BARE empty_dir None [])) ''upstream'' = None
   \<and> ostree_repo_get_remote_option (OstreeRepo example_option_parent None)
        ''upstream'' ''url'' None = Inr (Some ''https://a/'')
   \<and> ostree_repo_get_remote_option
        (OstreeRepo (example_self OSTREE_REPO_MODE_BARE empty_dir None [])
           (Some (OstreeRepo example_option_parent None)))
        ''upstream'' ''url'' None = Inr (Some ''https://a/'')
   \<and> ostree_repo_get_remote_list_option
        (OstreeRepo (example_self OSTREE_REPO_MODE_BARE empty_dir None [])
           (Some (OstreeRepo example_option_parent None)))
        ''upstream'' ''branches'' = Inr (Some [''stable'', ''testing''])
   \<and> ostree_repo_get_remote_boolean_option
        (OstreeRepo (example_self OSTREE_REPO_MODE_BARE empty_dir None [])
           (Some (OstreeRepo example_option_parent None)))
        ''upstream'' ''gpg-verify-summary'' False = Inr True
   \<and> g_key_file_get_string
        (options (example_remote ''upstream'' [(''gpg-verify'', ''false'')]))
        (group (example_remote ''upstream'' [(''gpg-verify'', ''false'')])) ''url''
       = Inl G_KEY_FILE_ERROR_KEY_NOT_FOUND
   \<and> ostree_repo_get_remote_option
        (OstreeRepo example_option_child (Some (OstreeRepo example_option_parent None)))
        ''upstream'' ''url'' None = Inr (Some ''https://a/'')
   \<and> ostree_repo_get_remote_list_option
        (OstreeRepo example_option_child (Some (OstreeRepo example_option_parent None)))
        ''upstream'' ''branches'' = Inr (Some [''stable'', ''testing''])
   \<and> ostree_repo_get_remote_boolean_option
        (OstreeRepo example_option_child (Some (OstreeRepo example_option_parent None)))
        ''upstream'' ''gpg-verify-summary'' False = Inr True
   \<and> ostree_repo_get_remote_boolean_option
        (OstreeRepo example_option_child (Some (OstreeRepo example_option_parent None)))
        ''upstream'' ''gpg-verify'' True = Inr False
   \<and> ostree_repo_get_remote_option
        (OstreeRepo example_option_child (Some (OstreeRepo example_option_parent None)))
        ''upstream'' ''proxy'' (Some ''none'') = Inr (Some ''none'')
   \<and> ostree_repo_get_remote_list_option
        (OstreeRepo example_option_child (Some (OstreeRepo example_option_parent None)))
        ''upstream'' ''proxy'' = Inr None
   \<and> ostree_repo_get_remote_boolean_option
        (OstreeRepo example_option_child (Some (OstreeRepo example_option_parent None)))
        ''upstream'' ''proxy'' True = Inr True
   \<and> ostree_repo_get_remote_option
        (OstreeRepo (example_self OSTREE_REPO_MODE_BARE empty_dir None [])
           (Some (OstreeRepo (example_self OSTREE_REPO_MODE_BARE empty_dir None []) None)))
        ''upstream'' ''url'' (Some ''none'') = Inl G_IO_ERROR_NOT_FOUND
   \<and> ostree_repo_get_remote_list_option
        (OstreeRepo (example_self OSTREE_REPO_MODE_BARE empty_dir None [])
           (Some (OstreeRepo (example_self OSTREE_REPO_MODE_BARE empty_dir None []) None)))
        ''upstream'' ''url'' = Inl G_IO_ERROR_NOT_FOUND
   \<and> ostree_repo_get_remote_boolean_option
        (OstreeRepo (example_self OSTREE_REPO_MODE_BARE empty_dir None [])
           (Some (OstreeRepo (example_self OSTREE_REPO_MODE_BARE empty_dir None []) None)))
        ''upstream'' ''url'' True = Inl G_IO_ERROR_NOT_FOUND
   \<and> ostree_repo_get_remote_boolean_option (OstreeRepo example_option_parent None)
        ''upstream'' ''url'' True = Inl G_KEY_FILE_ERROR_INVALID_VALUE"
  using
    remote_option_parent_cascade
      [where remote_name = "''upstream''" and option_name = "''url''" and dv = None
         and db = True and s = example_option_parent and parent = None
         and p = "OstreeRepo example_option_parent None"]
    remote_option_parent_cascade
      [where remote_name = "''upstream''" and option_name = "''url''" and dv = None
         and db = True
         and s = "example_self OSTREE_REPO_MODE_BARE empty_dir None []" and parent = None
         and p = "OstreeRepo example_option_parent None"]
    remote_option_parent_cascade
      [where remote_name = "''upstream''" and option_name = "''branches''" and dv = None
         and db = True
         and s = "example_self OSTREE_REPO_MODE_BARE empty_dir None []" and parent = None
         and p = "OstreeRepo example_option_parent None"]
    remote_option_parent_cascade
      [where remote_name = "''upstream''" and option_name = "''gpg-verify-summary''"
         and dv = None and db = False
         and s = "example_self OSTREE_REPO_MODE_BARE empty_dir None []" and parent = None
         and p = "OstreeRepo example_option_parent None"]
    remote_option_parent_cascade
      [where remote_name = "''upstream''" and option_name = "''url''" and dv = None
         and db = True and s = example_option_child
         and parent = "Some (OstreeRepo example_option_parent None)"
         and p = "OstreeRepo example_option_parent None"]
    remote_option_parent_cascade
      [where remote_name = "''upstream''" and option_name = "''branches''" and dv = None
         and db = True and s = example_option_child
         and parent = "Some (OstreeRepo example_option_parent None)"
         and p = "OstreeRepo example_option_parent None"]
    remote_option_parent_cascade
      [where remote_name = "''upstream''" and option_name = "''gpg-verify-summary''"
         and dv = None and db = False and s = example_option_child
         and parent = "Some (OstreeRepo example_option_parent None)"
         and p = "OstreeRepo example_option_parent None"]
    remote_option_parent_cascade
      [where remote_name = "''upstream''" and option_name = "''gpg-verify''"
         and dv = None and db = True and s = example_option_child
         and parent = "Some (OstreeRepo example_option_parent None)"
         and p = "OstreeRepo example_option_parent None"]
    remote_option_parent_cascade
      [where remote_name = "''upstream''" and option_name = "''proxy''"
         and dv = "Some ''none''" and db = True and s = example_option_child
         and parent = "Some (OstreeRepo example_option_parent None)"
         and p = "OstreeRepo example_option_parent None"]
    remote_option_parent_cascade
      [where remote_name = "''upstream''" and option_name = "''proxy''"
         and dv = "Some ''none''" and db = True and s = example_option_parent
         and parent = None
         and p = "OstreeRepo example_option_parent None"]
    remote_option_parent_cascade
      [where remote_name = "''upstream''" and option_name = "''url''"
         and dv = "Some ''none''" and db = True
         and s = "example_self OSTREE_REPO_MODE_BARE empty_dir None []" and parent = None
         and p = "OstreeRepo (example_self OSTREE_REPO_MODE_BARE empty_dir None []) None"]
  by (simp add: example_option_parent_def example_option_child_def example_self_def
      example_remote_def u_ostree_repo_remote_name_is_file_def u_ostree_repo_get_remote_def
      g_key_file_get_string_def g_key_file_get_boolean_def g_key_file_get_string_list_def)

text \<open>
  C10: for a remote name that begins with \<open>file://\<close> the three option getters succeed
  with the caller's default (\<open>NULL\<close> for lists) whatever the repository, its registry and
  its parent are, and \<open>ostree_repo_remote_get_gpg_verify\<close> reports verification disabled.
\<close>

theorem remote_option_file_name_default:
  "u_ostree_repo_remote_name_is_file remote_name \<Longrightarrow>
     ostree_repo_get_remote_option self remote_name option_name default_value = Inr default_value
   \<and> ostree_repo_get_remote_list_option self remote_name option_name = Inr None
   \<and> ostree_repo_get_remote_boolean_option self remote_name option_name default_bool
       = Inr default_bool
   \<and> ostree_repo_remote_get_gpg_verify self remote_name = Inr False"
  by (cases self) (simp add: ostree_repo_remote_get_gpg_verify_def)

text \<open>A registry that has the very name, with other values, is not consulted.\<close>

theorem remote_option_file_name_default_witness:
  "u_ostree_repo_remote_name_is_file ''file:///srv/repo''
   \<and> ostree_repo_get_remote_option
        (OstreeRepo
           (example_self OSTREE_REPO_MODE_BARE empty_dir None
              [(''file:///srv/repo'',
                example_remote ''file:///srv/repo'' [(''url'', ''http://x/'')])])
           None)
        ''file:///srv/repo'' ''url'' (Some ''dflt'') = Inr (Some ''dflt'')
   \<and> ostree_repo_remote_get_gpg_verify
        (OstreeRepo
           (example_self OSTREE_REPO_MODE_BARE empty_dir None
              [(''file:///srv/repo'',
                example_remote ''file:///srv/repo'' [(''gpg-verify'', ''true'')])])
           None)
        ''file:///srv/repo'' = Inr False"
proof -
  have h: "u_ostree_repo_remote_name_is_file ''file:///srv/repo''"
    by (simp add: u_ostree_repo_remote_name_is_file_def)
  show ?thesis
    using h
      remote_option_file_name_default [OF h, where option_name = "''url''"
        and default_value = "Some ''dflt''"
        and self = "OstreeRepo
           (example_self OSTREE_REPO_MODE_BARE empty_dir None
              [(''file:///srv/repo'',
                example_remote ''file:///srv/repo'' [(''url'', ''http://x/'')])])
           None"]
      remote_option_file_name_default [OF h, where
        self = "OstreeRepo
           (example_self OSTREE_REPO_MODE_BARE empty_dir None
              [(''file:///srv/repo'',
                example_remote ''file:///srv/repo'' [(''gpg-verify'', ''true'')])])
           None"]
    by simp
qed

section \<open>Signing a commit twice with one key\<close>

lemma dict_insert_value_lookup:
  "map_of (g_variant_dict_insert_value dict key v) key = Some v"
  by (induction dict key v rule: g_variant_dict_insert_value.induct) auto

lemma dict_insert_value_other:
  "k \<noteq> key \<Longrightarrow> map_of (g_variant_dict_insert_value dict key v) k = map_of dict k"
  by (induction dict key v rule: g_variant_dict_insert_value.induct) auto

lemma append_gpg_sig_sigs:
  "lookup_gpgsigs (Some (u_ostree_detached_metadata_append_gpg_sig existing sig))
     = Some ((case lookup_gpgsigs existing of None \<Rightarrow> [] | Some sigs \<Rightarrow> sigs) @ [sig])"
  by (simp add: lookup_gpgsigs_def [of "Some _"] u_ostree_detached_metadata_append_gpg_sig_def
      dict_insert_value_lookup)

lemma append_gpg_sig_other:
  "k \<noteq> ''ostree.gpgsigs'' \<Longrightarrow>
     map_of (u_ostree_detached_metadata_append_gpg_sig existing sig) k
       = map_of (case existing of None \<Rightarrow> [] | Some dict \<Rightarrow> dict) k"
  by (simp add: u_ostree_detached_metadata_append_gpg_sig_def dict_insert_value_other)

lemma load_variant_keeps_repo:
  "objtype \<noteq> OSTREE_OBJECT_TYPE_DIR_META \<Longrightarrow>
     snd (ostree_repo_load_variant repo objtype sha) = repo"
  using load_metadata_keeps_repo [of objtype repo sha True True False False]
  by (cases "load_metadata_internal repo objtype sha True True False False")
     (auto simp: ostree_repo_load_variant_def split: sum.splits)

text \<open>
  C6: \<open>sign_commit\<close> on a commit that loads and whose detached metadata can be read.
  When the verification of the existing signatures finds one made with the requested key
  ID, the call fails with \<open>G_IO_ERROR_EXISTS\<close> and the repository is as before: nothing
  is written. Any verification error but not-found is the error of the call, and nothing
  is written. Otherwise (there is no signature yet, so that the verification reports
  not-found, or none by that key) the commit's bytes are signed: when the OpenPGP library
  finds the key for the requested ID under the home directory and its signing operation
  with that key over the bytes of the commit returns a signature, the call is the write
  of the detached metadata with that signature appended, where the array under
  \<open>ostree.gpgsigs\<close> is the old one followed by exactly that signature and every other
  key of the dictionary is as before; when the library has no such key the call fails
  with \<open>G_IO_ERROR_FAILED\<close>, when its signing operation fails the call fails with the
  library's error, and in both cases nothing is written.
\<close>

theorem sign_commit_exists_or_appends:
  assumes "fst (ostree_repo_load_variant repo OSTREE_OBJECT_TYPE_COMMIT commit_checksum)
             = Inr (Some commit_variant)"
    and "read_commit_detached_metadata engine repo commit_checksum = Inr old_metadata"
  shows
    "(\<forall>result.
        u_ostree_repo_gpg_verify_with_metadata engine repo (variant_data commit_variant)
          old_metadata NO_REMOTE None None = Inr result
        \<and> gpg_verify_result_lookup engine result key_id \<longrightarrow>
        ostree_repo_sign_commit engine repo commit_checksum key_id homedir
          = (Some G_IO_ERROR_EXISTS, repo))
   \<and> (\<forall>e.
        u_ostree_repo_gpg_verify_with_metadata engine repo (variant_data commit_variant)
          old_metadata NO_REMOTE None None = Inl e
        \<and> e \<noteq> G_IO_ERROR_NOT_FOUND \<longrightarrow>
        ostree_repo_sign_commit engine repo commit_checksum key_id homedir = (Some e, repo))
   \<and> (\<forall>key signature.
        (u_ostree_repo_gpg_verify_with_metadata engine repo (variant_data commit_variant)
           old_metadata NO_REMOTE None None = Inl G_IO_ERROR_NOT_FOUND
         \<or> (\<exists>result.
               u_ostree_repo_gpg_verify_with_metadata engine repo (variant_data commit_variant)
                 old_metadata NO_REMOTE None None = Inr result
               \<and> \<not> gpg_verify_result_lookup engine result key_id))
        \<and> glnx_open_tmpfile_linkable_at engine = None
        \<and> ot_gpgme_new_ctx engine homedir = None
        \<and> gpgme_get_key engine homedir key_id = Inr key
        \<and> gpgme_signers_add engine key = 0
        \<and> gpgme_data_new_from_mem engine (variant_data commit_variant) = 0
        \<and> gpgme_op_sign engine homedir key (variant_data commit_variant) = Inr signature
        \<and> g_output_stream_close engine = None
        \<and> g_mapped_file_new_from_fd engine = None \<longrightarrow>
        ostree_repo_sign_commit engine repo commit_checksum key_id homedir
          = write_commit_detached_metadata engine repo commit_checksum
              (u_ostree_detached_metadata_append_gpg_sig old_metadata signature)
        \<and> lookup_gpgsigs
            (Some (u_ostree_detached_metadata_append_gpg_sig old_metadata signature))
          = Some ((case lookup_gpgsigs old_metadata of None \<Rightarrow> [] | Some sigs \<Rightarrow> sigs)
                  @ [signature])
        \<and> (\<forall>k. k \<noteq> ''ostree.gpgsigs'' \<longrightarrow>
              map_of (u_ostree_detached_metadata_append_gpg_sig old_metadata signature) k
                = map_of (case old_metadata of None \<Rightarrow> [] | Some dict \<Rightarrow> dict) k))
   \<and> ((u_ostree_repo_gpg_verify_with_metadata engine repo (variant_data commit_variant)
           old_metadata NO_REMOTE None None = Inl G_IO_ERROR_NOT_FOUND
         \<or> (\<exists>result.
               u_ostree_repo_gpg_verify_with_metadata engine repo (variant_data commit_variant)
                 old_metadata NO_REMOTE None None = Inr result
               \<and> \<not> gpg_verify_result_lookup engine result key_id))
        \<and> glnx_open_tmpfile_linkable_at engine = None
        \<and> ot_gpgme_new_ctx engine homedir = None
        \<and> gpgme_get_key engine homedir key_id = Inl GPG_ERR_EOF \<longrightarrow>
        ostree_repo_sign_commit engine repo commit_checksum key_id homedir
          = (Some G_IO_ERROR_FAILED, repo))
   \<and> (\<forall>key err.
        (u_ostree_repo_gpg_verify_with_metadata engine repo (variant_data commit_variant)
           old_metadata NO_REMOTE None None = Inl G_IO_ERROR_NOT_FOUND
         \<or> (\<exists>result.
               u_ostree_repo_gpg_verify_with_metadata engine repo (variant_data commit_variant)
                 old_metadata NO_REMOTE None None = Inr result
               \<and> \<not> gpg_verify_result_lookup engine result key_id))
        \<and> glnx_open_tmpfile_linkable_at engine = None
        \<and> ot_gpgme_new_ctx engine homedir = None
        \<and> gpgme_get_key engine homedir key_id = Inr key
        \<and> gpgme_signers_add engine key = 0
        \<and> gpgme_data_new_from_mem engine (variant_data commit_variant) = 0
        \<and> gpgme_op_sign engine homedir key (variant_data commit_variant) = Inl err \<longrightarrow>
        ostree_repo_sign_commit engine repo commit_checksum key_id homedir
          = (Some (ot_gpgme_error_to_gio_error err), repo))"
proof -
  have ld: "ostree_repo_load_variant repo OSTREE_OBJECT_TYPE_COMMIT commit_checksum
              = (Inr (Some commit_variant), repo)"
    using assms(1) load_variant_keeps_repo [of OSTREE_OBJECT_TYPE_COMMIT repo commit_checksum]
    by (cases "ostree_repo_load_variant repo OSTREE_OBJECT_TYPE_COMMIT commit_checksum") simp
  show ?thesis
    using assms(2)
    by (auto simp: ostree_repo_sign_commit_def ld sign_data_def append_gpg_sig_sigs
        append_gpg_sig_other)
qed

text \<open>
  The commit \<open>abcd\<close> is already signed with \<open>KEY1\<close>: signing with \<open>KEY1\<close> again fails
  and changes nothing; signing with \<open>KEY2\<close> stores the old signature followed by the
  signature that the library made with \<open>KEY2\<close> over the commit; signing with a key that
  the library does not have fails and changes nothing. The commit \<open>eeee\<close> has no detached
  metadata: signing with \<open>KEY1\<close> stores that one signature.
\<close>

theorem sign_commit_exists_or_appends_witness:
  "ostree_repo_sign_commit example_engine example_sign_repo ''abcd'' ''KEY1'' None
     = (Some G_IO_ERROR_EXISTS, example_sign_repo)
   \<and> fst (ostree_repo_sign_commit example_engine example_sign_repo ''abcd'' ''KEY2'' None)
       = None
   \<and> map_sum id contents
        (objects_dir (self_of (snd (ostree_repo_sign_commit example_engine example_sign_repo
           ''abcd'' ''KEY2'' None))) ''ab/cd.commitmeta'')
       = Inr ''KEY1/c;KEY2/c;''
   \<and> ostree_repo_sign_commit example_engine example_sign_repo ''abcd'' ''KEY3'' None
       = (Some G_IO_ERROR_FAILED, example_sign_repo)
   \<and> fst (ostree_repo_sign_commit example_engine example_sign_repo ''eeee'' ''KEY1'' None)
       = None
   \<and> map_sum id contents
        (objects_dir (self_of (snd (ostree_repo_sign_commit example_engine example_sign_repo
           ''eeee'' ''KEY1'' None))) ''ee/ee.commitmeta'')
       = Inr ''KEY1/d;''"
proof -
  let ?cv = "\<lparr>variant_type = OSTREE_OBJECT_TYPE_COMMIT, variant_data = ''c'',
              variant_backing = HeapBuffer\<rparr>"
  let ?dv = "\<lparr>variant_type = OSTREE_OBJECT_TYPE_COMMIT, variant_data = ''d'',
              variant_backing = HeapBuffer\<rparr>"
  let ?old = "Some [(''vendor'', GV_string ''acme''), (''ostree.gpgsigs'', GV_aay [''KEY1/c;''])]"
  have ld: "fst (ostree_repo_load_variant example_sign_repo OSTREE_OBJECT_TYPE_COMMIT ''abcd'')
              = Inr (Some ?cv)"
    and ld2: "fst (ostree_repo_load_variant example_sign_repo OSTREE_OBJECT_TYPE_COMMIT ''eeee'')
              = Inr (Some ?dv)"
    by (simp_all add: example_sign_repo_def example_self_def example_file_def empty_dir_def
      ostree_repo_load_variant_def OSTREE_OBJECT_TYPE_IS_META_def u_ostree_loose_path_def
      metadata_open_def ot_openat_ignore_enoent_def openat_def variant_from_fd_def
      dirmeta_cache_lookup_def)
  have rd: "read_commit_detached_metadata example_engine example_sign_repo ''abcd'' = Inr ?old"
    and rd2: "read_commit_detached_metadata example_engine example_sign_repo ''eeee'' = Inr None"
    by (simp_all add: example_engine_def)
  have vf: "u_ostree_repo_gpg_verify_with_metadata example_engine example_sign_repo
              (variant_data ?cv) ?old NO_REMOTE None None = Inr [''KEY1'']"
    and vf2: "u_ostree_repo_gpg_verify_with_metadata example_engine example_sign_repo
              (variant_data ?dv) None NO_REMOTE None None = Inl G_IO_ERROR_NOT_FOUND"
    by (simp_all add: u_ostree_repo_gpg_verify_with_metadata_def lookup_gpgsigs_def
        u_ostree_repo_gpg_verify_data_internal_def verifier_for_remote_def example_engine_def)
  have lk1: "gpg_verify_result_lookup example_engine [''KEY1''] ''KEY1''"
    and lk2: "\<not> gpg_verify_result_lookup example_engine [''KEY1''] ''KEY2''"
    and lk3: "\<not> gpg_verify_result_lookup example_engine [''KEY1''] ''KEY3''"
    by (simp_all add: example_engine_def)
  have lib: "glnx_open_tmpfile_linkable_at example_engine = None"
    "ot_gpgme_new_ctx example_engine None = None"
    "gpgme_get_key example_engine None ''KEY1'' = Inr ''KEY1''"
    "gpgme_get_key example_engine None ''KEY2'' = Inr ''KEY2''"
    "gpgme_get_key example_engine None ''KEY3'' = Inl GPG_ERR_EOF"
    "gpgme_signers_add example_engine ''KEY1'' = 0"
    "gpgme_signers_add example_engine ''KEY2'' = 0"
    "gpgme_data_new_from_mem example_engine (variant_data ?cv) = 0"
    "gpgme_data_new_from_mem example_engine (variant_data ?dv) = 0"
    "gpgme_op_sign example_engine None ''KEY2'' (variant_data ?cv) = Inr ''KEY2/c;''"
    "gpgme_op_sign example_engine None ''KEY1'' (variant_data ?dv) = Inr ''KEY1/d;''"
    "g_output_stream_close example_engine = None"
    "g_mapped_file_new_from_fd example_engine = None"
    by (simp_all add: example_engine_def)
  have wr: "map_sum id contents
        (objects_dir (self_of (snd (write_commit_detached_metadata example_engine
            example_sign_repo ''abcd''
            (u_ostree_detached_metadata_append_gpg_sig ?old ''KEY2/c;'')))) ''ab/cd.commitmeta'')
       = Inr ''KEY1/c;KEY2/c;''"
    and wr1: "fst (write_commit_detached_metadata example_engine example_sign_repo ''abcd''
            (u_ostree_detached_metadata_append_gpg_sig ?old ''KEY2/c;'')) = None"
    and wr2: "map_sum id contents
        (objects_dir (self_of (snd (write_commit_detached_metadata example_engine
            example_sign_repo ''eeee''
            (u_ostree_detached_metadata_append_gpg_sig None ''KEY1/d;'')))) ''ee/ee.commitmeta'')
       = Inr ''KEY1/d;''"
    and wr3: "fst (write_commit_detached_metadata example_engine example_sign_repo ''eeee''
            (u_ostree_detached_metadata_append_gpg_sig None ''KEY1/d;'')) = None"
    by (simp_all add: example_engine_def example_sign_repo_def example_self_def example_file_def
        u_ostree_loose_path_def u_ostree_detached_metadata_append_gpg_sig_def lookup_gpgsigs_def)
  note thm1 = sign_commit_exists_or_appends [OF ld rd, where key_id = "''KEY1''" and homedir = None]
  note thm2 = sign_commit_exists_or_appends [OF ld rd, where key_id = "''KEY2''" and homedir = None]
  note thm3 = sign_commit_exists_or_appends [OF ld rd, where key_id = "''KEY3''" and homedir = None]
  note thm4 = sign_commit_exists_or_appends [OF ld2 rd2, where key_id = "''KEY1''" and homedir = None]
  from thm1 vf lk1
  have e1: "ostree_repo_sign_commit example_engine example_sign_repo ''abcd'' ''KEY1'' None
          = (Some G_IO_ERROR_EXISTS, example_sign_repo)" by blast
  from thm2 vf lk2 lib
  have e2: "ostree_repo_sign_commit example_engine example_sign_repo ''abcd'' ''KEY2'' None
          = write_commit_detached_metadata example_engine example_sign_repo ''abcd''
              (u_ostree_detached_metadata_append_gpg_sig ?old ''KEY2/c;'')" by blast
  from thm3 vf lk3 lib
  have e3: "ostree_repo_sign_commit example_engine example_sign_repo ''abcd'' ''KEY3'' None
          = (Some G_IO_ERROR_FAILED, example_sign_repo)" by blast
  from thm4 vf2 lib
  have e4: "ostree_repo_sign_commit example_engine example_sign_repo ''eeee'' ''KEY1'' None
          = write_commit_detached_metadata example_engine example_sign_repo ''eeee''
              (u_ostree_detached_metadata_append_gpg_sig None ''KEY1/d;'')" by blast
  show ?thesis
    unfolding e1 e2 e3 e4 using wr wr1 wr2 wr3 by simp
qed

section \<open>Order of the summary\<close>

lemma add_ref_entry_names:
  "summary_add_ref_entry env repo ref checksum b = Inr b' \<Longrightarrow>
     map fst b' = map fst b @ (if ref_is_local env ref then [ref] else [])"
  by (auto simp: summary_add_ref_entry_def ref_is_local_def
      split: option.splits sum.splits if_splits prod.splits)

lemma add_refs_names:
  "summary_add_refs env repo refs ordered b = Inr b' \<Longrightarrow>
     map fst b' = map fst b @ filter (ref_is_local env) ordered"
proof (induction ordered arbitrary: b)
  case Nil
  then show ?case by simp
next
  case (Cons ref ordered)
  from Cons.prems obtain b1 where
    s1: "summary_add_ref_entry env repo ref (map_of refs ref) b = Inr b1"
    and s2: "summary_add_refs env repo refs ordered b1 = Inr b'"
    by (auto split: sum.splits)
  from add_ref_entry_names [OF s1] Cons.IH [OF s2] show ?case by simp
qed

lemma strict_sorted_filter_sort:
  "distinct xs \<Longrightarrow> sorted_wrt (<) (filter P (sort xs))"
proof -
  assume "distinct xs"
  then have "sorted_wrt (<) (sort xs)"
    by (simp add: strict_sorted_iff)
  then show ?thesis by (rule sorted_wrt_filter)
qed

lemma hash_table_insert_keys:
  "set (map fst (g_hash_table_insert table key v)) = insert key (set (map fst table))"
  by (induction table key v rule: g_hash_table_insert.induct) auto

lemma hash_table_insert_distinct:
  "distinct (map fst table) \<Longrightarrow> distinct (map fst (g_hash_table_insert table key v))"
proof (induction table key v rule: g_hash_table_insert.induct)
  case (1 key v)
  then show ?case by simp
next
  case (2 k w table key v)
  then show ?case
    using hash_table_insert_keys [of table key v] by auto
qed

lemma hash_table_insert_lookup:
  "map_of (g_hash_table_insert table key v) k = (if k = key then Some v else map_of table k)"
  by (induction table key v rule: g_hash_table_insert.induct) auto

lemma fold_collection_distinct:
  "tables_distinct acc \<Longrightarrow>
     tables_distinct
       (fold (\<lambda>((ref_collection_id, ref_name), checksum) collection_map.
             g_hash_table_insert collection_map ref_collection_id
               (g_hash_table_insert
                  (case map_of collection_map ref_collection_id of
                     None \<Rightarrow> []
                   | Some ref_map \<Rightarrow> ref_map)
                  ref_name checksum))
          collection_refs acc)"
proof (induction collection_refs arbitrary: acc)
  case Nil
  then show ?case by simp
next
  case (Cons x xs)
  obtain c r k where x: "x = ((c, r), k)" by (cases x) auto
  have "tables_distinct
          (g_hash_table_insert acc c
             (g_hash_table_insert (case map_of acc c of None \<Rightarrow> [] | Some m \<Rightarrow> m) r k))"
    using Cons.prems
    by (auto simp: tables_distinct_def hash_table_insert_distinct hash_table_insert_lookup
        split: option.splits if_splits)
  then show ?case
    using Cons.IH x by simp
qed

lemma collection_map_of_distinct: "tables_distinct (collection_map_of collection_refs)"
  unfolding collection_map_of_def
  by (rule fold_collection_distinct) (simp add: tables_distinct_def)

lemma summary_collections_names:
  assumes "summary_collections env repo main cm ids (rb, cb, n) = Inr (rb', cb', n')"
    and "\<forall>cid ref_map. map_of cm cid = Some ref_map \<longrightarrow> distinct (map fst ref_map)"
  shows "map fst cb' = map fst cb @ filter (\<lambda>cid. main \<noteq> Some cid) ids
       \<and> ((\<forall>x \<in> set cb. sorted_wrt (<) (map fst (snd x)))
            \<longrightarrow> (\<forall>x \<in> set cb'. sorted_wrt (<) (map fst (snd x))))
       \<and> map fst rb' = map fst rb
           @ concat (map (\<lambda>cid. filter (ref_is_local env)
                             (sort (map fst (case map_of cm cid of None \<Rightarrow> [] | Some m \<Rightarrow> m))))
                       (filter (\<lambda>cid. main = Some cid) ids))"
  using assms(1)
proof (induction ids arbitrary: rb cb n)
  case Nil
  then show ?case by simp
next
  case (Cons cid ids)
  let ?m = "case map_of cm cid of None \<Rightarrow> [] | Some m \<Rightarrow> m"
  have dm: "distinct (map fst ?m)"
    using assms(2) by (auto split: option.splits)
  show ?case
  proof (cases "main = Some cid")
    case True
    from Cons.prems True obtain rb1 where
      a: "summary_add_refs env repo ?m (sort (map fst ?m)) rb = Inr rb1"
      and b: "summary_collections env repo main cm ids (rb1, cb, n) = Inr (rb', cb', n')"
      by (auto split: sum.splits)
    from add_refs_names [OF a] Cons.IH [OF b] True show ?thesis by simp
  next
    case False
    from Cons.prems False obtain es where
      a: "summary_add_refs env repo ?m (sort (map fst ?m)) [] = Inr es"
      and b: "summary_collections env repo main cm ids (rb, cb @ [(cid, es)], n + length ?m)
                = Inr (rb', cb', n')"
      by (auto split: sum.splits)
    have es: "sorted_wrt (<) (map fst es)"
      using add_refs_names [OF a] strict_sorted_filter_sort [OF dm] by simp
    from Cons.IH [OF b] False es show ?thesis by auto
  qed
qed

lemma filter_eq_distinct:
  "distinct xs \<Longrightarrow> filter (\<lambda>x. y = x) xs = (if y \<in> set xs then [y] else [])"
  by (induction xs) auto

lemma fold_collection_keys:
  "set (map fst
     (fold (\<lambda>((ref_collection_id, ref_name), checksum) collection_map.
             g_hash_table_insert collection_map ref_collection_id
               (g_hash_table_insert
                  (case map_of collection_map ref_collection_id of
                     None \<Rightarrow> []
                   | Some ref_map \<Rightarrow> ref_map)
                  ref_name checksum))
          collection_refs acc))
   = set (map fst acc) \<union> set (map (fst \<circ> fst) collection_refs)"
proof (induction collection_refs arbitrary: acc)
  case Nil
  then show ?case by simp
next
  case (Cons x xs)
  obtain c r k where x: "x = ((c, r), k)" by (cases x) auto
  show ?case
    using x by (simp add: Cons.IH hash_table_insert_keys del: set_map)
qed

lemma fold_collection_table:
  "set (map fst
     (case map_of
        (fold (\<lambda>((ref_collection_id, ref_name), checksum) collection_map.
             g_hash_table_insert collection_map ref_collection_id
               (g_hash_table_insert
                  (case map_of collection_map ref_collection_id of
                     None \<Rightarrow> []
                   | Some ref_map \<Rightarrow> ref_map)
                  ref_name checksum))
          collection_refs acc) cid of
        None \<Rightarrow> [] | Some ref_map \<Rightarrow> ref_map))
   = set (map fst (case map_of acc cid of None \<Rightarrow> [] | Some ref_map \<Rightarrow> ref_map))
     \<union> set (map (snd \<circ> fst) (filter (\<lambda>x. fst (fst x) = cid) collection_refs))"
proof (induction collection_refs arbitrary: acc)
  case Nil
  then show ?case by simp
next
  case (Cons x xs)
  obtain c r k where x: "x = ((c, r), k)" by (cases x) auto
  show ?case
    using x
    by (simp add: Cons.IH hash_table_insert_lookup hash_table_insert_keys del: set_map)
qed

lemma collection_map_of_keys:
  "set (map fst (collection_map_of collection_refs)) = set (map (fst \<circ> fst) collection_refs)"
  unfolding collection_map_of_def using fold_collection_keys [of collection_refs "[]"] by simp

lemma collection_map_of_table:
  "set (map fst (case map_of (collection_map_of collection_refs) cid of
                   None \<Rightarrow> [] | Some ref_map \<Rightarrow> ref_map))
     = set (map (snd \<circ> fst) (filter (\<lambda>x. fst (fst x) = cid) collection_refs))"
  unfolding collection_map_of_def using fold_collection_table [of collection_refs "[]" cid]
  by simp

lemma summary_collections_entries:
  assumes "summary_collections env repo main cm ids (rb, cb, n) = Inr (rb', cb', n')"
  shows "((\<forall>x \<in> set cb. map fst (snd x)
              = filter (ref_is_local env)
                  (sort (map fst (case map_of cm (fst x) of None \<Rightarrow> [] | Some m \<Rightarrow> m))))
            \<longrightarrow> (\<forall>x \<in> set cb'. map fst (snd x)
              = filter (ref_is_local env)
                  (sort (map fst (case map_of cm (fst x) of None \<Rightarrow> [] | Some m \<Rightarrow> m)))))
       \<and> (0 < n') = (0 < n \<or> (\<exists>cid \<in> set ids. main \<noteq> Some cid
                          \<and> (case map_of cm cid of None \<Rightarrow> [] | Some m \<Rightarrow> m) \<noteq> []))"
  using assms
proof (induction ids arbitrary: rb cb n)
  case Nil
  then show ?case by simp
next
  case (Cons cid ids)
  let ?m = "case map_of cm cid of None \<Rightarrow> [] | Some m \<Rightarrow> m"
  show ?case
  proof (cases "main = Some cid")
    case True
    from Cons.prems True obtain rb1 where
      a: "summary_add_refs env repo ?m (sort (map fst ?m)) rb = Inr rb1"
      and b: "summary_collections env repo main cm ids (rb1, cb, n) = Inr (rb', cb', n')"
      by (auto split: sum.splits)
    from Cons.IH [OF b] True show ?thesis by simp
  next
    case False
    from Cons.prems False obtain es where
      a: "summary_add_refs env repo ?m (sort (map fst ?m)) [] = Inr es"
      and b: "summary_collections env repo main cm ids (rb, cb @ [(cid, es)], n + length ?m)
                = Inr (rb', cb', n')"
      by (auto split: sum.splits)
    have es: "map fst es = filter (ref_is_local env) (sort (map fst ?m))"
      using add_refs_names [OF a] by simp
    from Cons.IH [OF b] False es show ?thesis by auto
  qed
qed

lemma sorted_list_of_names:
  fixes xs :: "string list"
  assumes "sorted_wrt (<) xs" and "set xs = set ys"
  shows "xs = sort (remdups ys)"
proof -
  have "sorted xs" and "distinct xs"
    using assms(1) by (simp_all add: strict_sorted_iff)
  moreover have "sorted (sort (remdups ys))" and "distinct (sort (remdups ys))"
    by simp_all
  moreover have "set xs = set (sort (remdups ys))"
    using assms(2) by simp
  ultimately show ?thesis
    by (rule sorted_distinct_set_unique)
qed

lemma summary_metadata_collection_map:
  "map_of (summary_metadata env repo additional_metadata delta_names deltas cb n)
           ''ostree.summary.collection-map''
         = (if n > 0 then Some (GV_collection_map cb)
            else map_of (case additional_metadata of None \<Rightarrow> [] | Some d \<Rightarrow> d)
                   ''ostree.summary.collection-map'')"
  by (auto simp: summary_metadata_def dict_insert_value_other dict_insert_value_lookup
      split: option.splits)

lemma collection_table_names:
  "filter (ref_is_local env)
     (sort (map fst (case map_of (collection_map_of collection_refs) cid of
                       None \<Rightarrow> [] | Some ref_map \<Rightarrow> ref_map)))
   = sort (remdups (filter (ref_is_local env)
       (map (snd \<circ> fst) (filter (\<lambda>x. fst (fst x) = cid) collection_refs))))"
proof (rule sorted_list_of_names)
  let ?m = "case map_of (collection_map_of collection_refs) cid of
              None \<Rightarrow> [] | Some ref_map \<Rightarrow> ref_map"
  have "distinct (map fst ?m)"
    using collection_map_of_distinct [of collection_refs]
    by (auto simp: tables_distinct_def split: option.splits)
  then show "sorted_wrt (<) (filter (ref_is_local env) (sort (map fst ?m)))"
    by (rule strict_sorted_filter_sort)
  have "set (filter (ref_is_local env) (sort (map fst ?m)))
          = {r \<in> set (map fst ?m). ref_is_local env r}"
    by auto
  also have "\<dots> = {r \<in> set (map (snd \<circ> fst) (filter (\<lambda>x. fst (fst x) = cid) collection_refs)).
                    ref_is_local env r}"
    by (simp only: collection_map_of_table)
  also have "\<dots> = set (filter (ref_is_local env)
                       (map (snd \<circ> fst) (filter (\<lambda>x. fst (fst x) = cid) collection_refs)))"
    by auto
  finally show "set (filter (ref_is_local env) (sort (map fst ?m)))
          = set (filter (ref_is_local env)
                       (map (snd \<circ> fst) (filter (\<lambda>x. fst (fst x) = cid) collection_refs)))" .
qed

lemma foreign_collection_ids:
  "filter (\<lambda>cid. main \<noteq> Some cid) (sort (map fst (collection_map_of collection_refs)))
   = sort (remdups (filter (\<lambda>cid. Some cid \<noteq> main) (map (fst \<circ> fst) collection_refs)))"
proof (rule sorted_list_of_names)
  have "distinct (map fst (collection_map_of collection_refs))"
    using collection_map_of_distinct [of collection_refs] by (simp add: tables_distinct_def)
  then show "sorted_wrt (<)
     (filter (\<lambda>cid. main \<noteq> Some cid) (sort (map fst (collection_map_of collection_refs))))"
    by (rule strict_sorted_filter_sort)
  have "set (filter (\<lambda>cid. main \<noteq> Some cid) (sort (map fst (collection_map_of collection_refs))))
          = {cid \<in> set (map fst (collection_map_of collection_refs)). main \<noteq> Some cid}"
    by auto
  also have "\<dots> = {cid \<in> set (map (fst \<circ> fst) collection_refs). main \<noteq> Some cid}"
    by (simp only: collection_map_of_keys)
  also have "\<dots> = set (filter (\<lambda>cid. Some cid \<noteq> main) (map (fst \<circ> fst) collection_refs))"
    by auto
  finally show "set (filter (\<lambda>cid. main \<noteq> Some cid)
                       (sort (map fst (collection_map_of collection_refs))))
          = set (filter (\<lambda>cid. Some cid \<noteq> main) (map (fst \<circ> fst) collection_refs))" .
qed

lemma foreign_collection_nonempty:
  "(\<exists>cid \<in> set (sort (map fst (collection_map_of collection_refs))).
       main \<noteq> Some cid
       \<and> (case map_of (collection_map_of collection_refs) cid of
            None \<Rightarrow> [] | Some m \<Rightarrow> m) \<noteq> [])
   = (\<exists>x \<in> set collection_refs. Some (fst (fst x)) \<noteq> main)"
proof
  assume "\<exists>cid \<in> set (sort (map fst (collection_map_of collection_refs))).
       main \<noteq> Some cid
       \<and> (case map_of (collection_map_of collection_refs) cid of
            None \<Rightarrow> [] | Some m \<Rightarrow> m) \<noteq> []"
  then obtain cid where "cid \<in> set (map fst (collection_map_of collection_refs))"
    and f: "main \<noteq> Some cid"
    by auto
  then have "cid \<in> set (map (fst \<circ> fst) collection_refs)"
    by (simp only: collection_map_of_keys)
  then show "\<exists>x \<in> set collection_refs. Some (fst (fst x)) \<noteq> main"
    using f by auto
next
  assume "\<exists>x \<in> set collection_refs. Some (fst (fst x)) \<noteq> main"
  then obtain x where x: "x \<in> set collection_refs" and f: "Some (fst (fst x)) \<noteq> main"
    by auto
  let ?cid = "fst (fst x)"
  let ?m = "case map_of (collection_map_of collection_refs) ?cid of
              None \<Rightarrow> [] | Some m \<Rightarrow> m"
  have "?cid \<in> set (map (fst \<circ> fst) collection_refs)"
    using x by auto
  then have k: "?cid \<in> set (map fst (collection_map_of collection_refs))"
    by (simp only: collection_map_of_keys)
  have "snd (fst x) \<in> set (map (snd \<circ> fst) (filter (\<lambda>y. fst (fst y) = ?cid) collection_refs))"
    using x by auto
  then have mem: "snd (fst x) \<in> set (map fst ?m)"
    by (simp only: collection_map_of_table)
  have "?m \<noteq> []"
  proof
    assume e: "?m = []"
    from mem show False unfolding e by simp
  qed
  then show "\<exists>cid \<in> set (sort (map fst (collection_map_of collection_refs))).
       main \<noteq> Some cid
       \<and> (case map_of (collection_map_of collection_refs) cid of
            None \<Rightarrow> [] | Some m \<Rightarrow> m) \<noteq> []"
    using k f by auto
qed

text \<open>
  C7, as the specification states it: every summary file that \<open>regenerate_summary\<close>
  writes has collection-map keys strictly increasing in collection ID. The function begins
  the metadata of the summary from the caller's additional metadata and sets
  \<open>ostree.summary.collection-map\<close> only when it has a ref of a foreign collection to put
  there. Here the repository has the refs \<open>b\<close> and \<open>a\<close> and no collection ref, and the
  caller's additional metadata has a collection map with the keys \<open>org.z\<close>, \<open>org.a\<close>:
  the summary written has that map, whose keys are not increasing.
\<close>

theorem summary_collection_map_counterexample:
  "snd (ostree_repo_regenerate_summary
          (example_summary_env [(''b'', ''deadbeef''), (''a'', ''cafebabe'')] [])
          example_summary_repo
          (Some [(''ostree.summary.collection-map'',
                  GV_collection_map
                    [(''org.z'', [(''r'', 2, ''deadbeef'', [])]),
                     (''org.a'', [(''r'', 2, ''deadbeef'', [])])])]))
     = Some
         ([(''a'', 3, ''cafebabe'', [(''ostree.commit.timestamp'', GV_uint64 7)]),
           (''b'', 2, ''deadbeef'', [(''ostree.commit.timestamp'', GV_uint64 7)])],
          [(''ostree.summary.collection-map'',
            GV_collection_map
              [(''org.z'', [(''r'', 2, ''deadbeef'', [])]),
               (''org.a'', [(''r'', 2, ''deadbeef'', [])])]),
           (''ostree.summary.last-modified'', GV_uint64 5)])
   \<and> summary_collection_map
         ([(''a'', 3, ''cafebabe'', [(''ostree.commit.timestamp'', GV_uint64 7)]),
           (''b'', 2, ''deadbeef'', [(''ostree.commit.timestamp'', GV_uint64 7)])],
          [(''ostree.summary.collection-map'',
            GV_collection_map
              [(''org.z'', [(''r'', 2, ''deadbeef'', [])]),
               (''org.a'', [(''r'', 2, ''deadbeef'', [])])]),
           (''ostree.summary.last-modified'', GV_uint64 5)])
       = Some [(''org.z'', [(''r'', 2, ''deadbeef'', [])]),
               (''org.a'', [(''r'', 2, ''deadbeef'', [])])]
   \<and> \<not> sorted_wrt (<) [''org.z'', ''org.a'' :: string]"
  by (simp add: ostree_repo_regenerate_summary_def example_summary_env_def
      example_summary_repo_def summary_main_refs_def example_self_def example_file_def
      empty_dir_def summary_add_ref_entry_def example_parse_refspec_def
      ostree_repo_load_variant_def OSTREE_OBJECT_TYPE_IS_META_def u_ostree_loose_path_def
      metadata_open_def ot_openat_ignore_enoent_def openat_def variant_from_fd_def
      dirmeta_cache_lookup_def collection_map_of_def summary_metadata_def
      summary_collection_map_def)

text \<open>
  C7, amended. Every summary that \<open>regenerate_summary\<close> writes has its refs array strictly
  increasing in ref name: in a repository without collection ID the names are the sorted
  names of the listed refs, those with a remote left out, and in a repository with a
  collection ID they are the sorted names of the listed collection refs of that collection.
  When the listed collection refs have a ref of another collection, the summary has a
  collection map built by the function: its keys are those other collection IDs, strictly
  increasing, each with a refs array whose names are the names of that collection's listed
  refs, strictly increasing. When they have none, the function builds no collection map,
  and the entry \<open>ostree.summary.collection-map\<close> of the summary is whatever the caller's
  additional metadata has under that key, in the caller's order. (The table of
  \<open>ostree_repo_list_refs\<close> holds each name once.)
\<close>

theorem summary_refs_sorted:
  assumes written: "snd (ostree_repo_regenerate_summary env repo additional_metadata)
                      = Some written_summary"
    and keys: "\<forall>refs. ostree_repo_list_refs env repo = Inr refs \<longrightarrow> distinct (map fst refs)"
  shows "sorted_wrt (<) (map fst (fst written_summary))
       \<and> (\<forall>refs. collection_id (self_of repo) = None
              \<and> ostree_repo_list_refs env repo = Inr refs \<longrightarrow>
            map fst (fst written_summary) = filter (ref_is_local env) (sort (map fst refs)))
       \<and> (\<exists>collection_refs. ostree_repo_list_collection_refs env repo = Inr collection_refs
            \<and> (\<forall>main. collection_id (self_of repo) = Some main \<longrightarrow>
                 map fst (fst written_summary)
                   = sort (remdups (filter (ref_is_local env)
                       (map (snd \<circ> fst) (filter (\<lambda>x. fst (fst x) = main) collection_refs)))))
            \<and> (if \<exists>x \<in> set collection_refs. Some (fst (fst x)) \<noteq> collection_id (self_of repo)
               then \<exists>collection_map.
                      summary_collection_map written_summary = Some collection_map
                      \<and> sorted_wrt (<) (map fst collection_map)
                      \<and> map fst collection_map
                          = sort (remdups (filter (\<lambda>cid. Some cid \<noteq> collection_id (self_of repo))
                              (map (fst \<circ> fst) collection_refs)))
                      \<and> (\<forall>entry \<in> set collection_map.
                            sorted_wrt (<) (map fst (snd entry))
                            \<and> map fst (snd entry)
                                = sort (remdups (filter (ref_is_local env)
                                    (map (snd \<circ> fst)
                                       (filter (\<lambda>x. fst (fst x) = fst entry) collection_refs)))))
               else map_of (snd written_summary) ''ostree.summary.collection-map''
                      = map_of (case additional_metadata of None \<Rightarrow> [] | Some d \<Rightarrow> d)
                          ''ostree.summary.collection-map''))"
proof -
  let ?main = "collection_id (self_of repo)"
  from written obtain rb0 delta_names deltas crefs rb cb n where
    s1: "summary_main_refs env repo = Inr rb0"
    and s4: "ostree_repo_list_collection_refs env repo = Inr crefs"
    and s5: "summary_collections env repo ?main (collection_map_of crefs)
               (sort (map fst (collection_map_of crefs))) (rb0, [], 0) = Inr (rb, cb, n)"
    and ws: "written_summary
               = (rb, summary_metadata env repo additional_metadata delta_names deltas cb n)"
    by (auto simp: ostree_repo_regenerate_summary_def
        split: sum.splits option.splits prod.splits)
  let ?cm = "collection_map_of crefs"
  let ?ids = "sort (map fst ?cm)"
  have td: "tables_distinct ?cm" by (rule collection_map_of_distinct)
  then have dk: "distinct (map fst ?cm)"
    and dm: "\<forall>cid ref_map. map_of ?cm cid = Some ref_map \<longrightarrow> distinct (map fst ref_map)"
    by (simp_all add: tables_distinct_def)
  note cn = summary_collections_names [OF s5 dm]
  note ce = summary_collections_entries [OF s5]
  have ids_strict: "sorted_wrt (<) ?ids"
    using dk by (simp add: strict_sorted_iff)
  have cb_ids: "map fst cb = sort (remdups (filter (\<lambda>cid. Some cid \<noteq> ?main)
                                             (map (fst \<circ> fst) crefs)))"
    using cn foreign_collection_ids [of ?main crefs] by simp
  have cb_keys: "sorted_wrt (<) (map fst cb)"
    using cn ids_strict by (simp add: sorted_wrt_filter)
  have cb_entries: "\<forall>x \<in> set cb. sorted_wrt (<) (map fst (snd x))"
    using cn by simp
  have cb_names: "\<forall>x \<in> set cb. map fst (snd x)
                    = sort (remdups (filter (ref_is_local env)
                        (map (snd \<circ> fst) (filter (\<lambda>y. fst (fst y) = fst x) crefs))))"
    using ce by (simp add: collection_table_names)
  have size: "(0 < n) = (\<exists>x \<in> set crefs. Some (fst (fst x)) \<noteq> ?main)"
    using ce foreign_collection_nonempty [of crefs ?main] by simp
  have rb_names: "map fst rb = map fst rb0
      @ concat (map (\<lambda>cid. filter (ref_is_local env)
                        (sort (map fst (case map_of ?cm cid of None \<Rightarrow> [] | Some m \<Rightarrow> m))))
                  (filter (\<lambda>cid. ?main = Some cid) ?ids))"
    using cn by simp
  have refs_sorted: "sorted_wrt (<) (map fst rb)
      \<and> (\<forall>refs. ?main = None \<and> ostree_repo_list_refs env repo = Inr refs \<longrightarrow>
            map fst rb = filter (ref_is_local env) (sort (map fst refs)))
      \<and> (\<forall>m. ?main = Some m \<longrightarrow>
            map fst rb = sort (remdups (filter (ref_is_local env)
                       (map (snd \<circ> fst) (filter (\<lambda>x. fst (fst x) = m) crefs)))))"
  proof (cases ?main)
    case None
    then have nomain: "filter (\<lambda>cid. ?main = Some cid) ?ids = []" by simp
    from s1 None obtain refs where
      lr: "ostree_repo_list_refs env repo = Inr refs"
      and ar: "summary_add_refs env repo refs (sort (map fst refs)) [] = Inr rb0"
      by (auto simp: summary_main_refs_def split: sum.splits)
    have "map fst rb = filter (ref_is_local env) (sort (map fst refs))"
      using rb_names nomain add_refs_names [OF ar] by simp
    moreover have "distinct (map fst refs)" using keys lr by simp
    ultimately show ?thesis
      using lr None strict_sorted_filter_sort by auto
  next
    case (Some m)
    then have rb0: "rb0 = []"
      using s1 by (simp add: summary_main_refs_def)
    have "distinct ?ids" using dk by simp
    then have one: "filter (\<lambda>cid. ?main = Some cid) ?ids = (if m \<in> set ?ids then [m] else [])"
      using Some filter_eq_distinct [of ?ids m] by simp
    let ?t = "case map_of ?cm m of None \<Rightarrow> [] | Some r \<Rightarrow> r"
    have dmm: "distinct (map fst ?t)"
      using dm by (auto split: option.splits)
    have "m \<notin> set ?ids \<Longrightarrow> map_of ?cm m = None"
      by (simp add: map_of_eq_None_iff)
    then have absent: "m \<notin> set ?ids \<Longrightarrow> ?t = []"
      by simp
    have "map fst rb = filter (ref_is_local env) (sort (map fst ?t))"
      using rb_names rb0 one absent by auto
    then have nm: "map fst rb = sort (remdups (filter (ref_is_local env)
                       (map (snd \<circ> fst) (filter (\<lambda>x. fst (fst x) = m) crefs))))"
      by (simp only: collection_table_names)
    have "sorted_wrt (<) (map fst rb)"
      unfolding nm by (simp add: strict_sorted_iff)
    then show ?thesis
      using nm Some by simp
  qed
  have cmap: "map_of (snd written_summary) ''ostree.summary.collection-map''
                = (if 0 < n then Some (GV_collection_map cb)
                   else map_of (case additional_metadata of None \<Rightarrow> [] | Some d \<Rightarrow> d)
                          ''ostree.summary.collection-map'')"
    using summary_metadata_collection_map [of env repo additional_metadata delta_names deltas cb n]
      ws by simp
  have third: "(if \<exists>x \<in> set crefs. Some (fst (fst x)) \<noteq> ?main
               then \<exists>collection_map.
                      summary_collection_map written_summary = Some collection_map
                      \<and> sorted_wrt (<) (map fst collection_map)
                      \<and> map fst collection_map
                          = sort (remdups (filter (\<lambda>cid. Some cid \<noteq> ?main)
                              (map (fst \<circ> fst) crefs)))
                      \<and> (\<forall>entry \<in> set collection_map.
                            sorted_wrt (<) (map fst (snd entry))
                            \<and> map fst (snd entry)
                                = sort (remdups (filter (ref_is_local env)
                                    (map (snd \<circ> fst)
                                       (filter (\<lambda>x. fst (fst x) = fst entry) crefs)))))
               else map_of (snd written_summary) ''ostree.summary.collection-map''
                      = map_of (case additional_metadata of None \<Rightarrow> [] | Some d \<Rightarrow> d)
                          ''ostree.summary.collection-map'')"
  proof (cases "\<exists>x \<in> set crefs. Some (fst (fst x)) \<noteq> ?main")
    case True
    then have "0 < n" using size by simp
    then have "summary_collection_map written_summary = Some cb"
      using cmap by (simp add: summary_collection_map_def)
    then show ?thesis
      using True cb_keys cb_ids cb_entries cb_names by simp
  next
    case False
    then have "\<not> 0 < n" using size by simp
    then show ?thesis
      using False cmap by simp
  qed
  have first: "sorted_wrt (<) (map fst (fst written_summary))"
    and second: "\<forall>refs. ?main = None \<and> ostree_repo_list_refs env repo = Inr refs \<longrightarrow>
            map fst (fst written_summary) = filter (ref_is_local env) (sort (map fst refs))"
    and mains: "\<forall>m. ?main = Some m \<longrightarrow>
            map fst (fst written_summary) = sort (remdups (filter (ref_is_local env)
                       (map (snd \<circ> fst) (filter (\<lambda>x. fst (fst x) = m) crefs))))"
    using refs_sorted ws by simp_all
  from s4 mains third
  have "\<exists>collection_refs. ostree_repo_list_collection_refs env repo = Inr collection_refs
            \<and> (\<forall>main. collection_id (self_of repo) = Some main \<longrightarrow>
                 map fst (fst written_summary)
                   = sort (remdups (filter (ref_is_local env)
                       (map (snd \<circ> fst) (filter (\<lambda>x. fst (fst x) = main) collection_refs)))))
            \<and> (if \<exists>x \<in> set collection_refs. Some (fst (fst x)) \<noteq> collection_id (self_of repo)
               then \<exists>collection_map.
                      summary_collection_map written_summary = Some collection_map
                      \<and> sorted_wrt (<) (map fst collection_map)
                      \<and> map fst collection_map
                          = sort (remdups (filter (\<lambda>cid. Some cid \<noteq> collection_id (self_of repo))
                              (map (fst \<circ> fst) collection_refs)))
                      \<and> (\<forall>entry \<in> set collection_map.
                            sorted_wrt (<) (map fst (snd entry))
                            \<and> map fst (snd entry)
                                = sort (remdups (filter (ref_is_local env)
                                    (map (snd \<circ> fst)
                                       (filter (\<lambda>x. fst (fst x) = fst entry) collection_refs)))))
               else map_of (snd written_summary) ''ostree.summary.collection-map''
                      = map_of (case additional_metadata of None \<Rightarrow> [] | Some d \<Rightarrow> d)
                          ''ostree.summary.collection-map'')"
    by (intro exI [of _ crefs] conjI)
  with first second show ?thesis by blast
qed


text \<open>
  Scenario 6 of the specification, with a remote ref and two foreign collections: the refs
  \<open>b\<close>, \<open>origin:x\<close>, \<open>a\<close> give the refs array \<open>a\<close>, \<open>b\<close>, and the collection refs
  give the map \<open>org.a\<close> with \<open>x\<close>, \<open>y\<close>, then \<open>org.b\<close> with \<open>z\<close>. The same listings in
  a repository of the collection \<open>org.a\<close> give the refs array \<open>x\<close>, \<open>y\<close> and the map
  \<open>org.b\<close> with \<open>z\<close>.
\<close>

theorem summary_refs_sorted_witness:
  "snd (ostree_repo_regenerate_summary
          (example_summary_env
             [(''b'', ''deadbeef''), (''origin:x'', ''deadbeef''), (''a'', ''cafebabe'')]
             [((''org.b'', ''z''), ''deadbeef''), ((''org.a'', ''y''), ''cafebabe''),
              ((''org.a'', ''x''), ''deadbeef'')])
          example_summary_repo None)
     = Some
         ([(''a'', 3, ''cafebabe'', [(''ostree.commit.timestamp'', GV_uint64 7)]),
           (''b'', 2, ''deadbeef'', [(''ostree.commit.timestamp'', GV_uint64 7)])],
          [(''ostree.summary.last-modified'', GV_uint64 5),
           (''ostree.summary.collection-map'',
            GV_collection_map
              [(''org.a'',
                [(''x'', 2, ''deadbeef'', [(''ostree.commit.timestamp'', GV_uint64 7)]),
                 (''y'', 3, ''cafebabe'', [(''ostree.commit.timestamp'', GV_uint64 7)])]),
               (''org.b'',
                [(''z'', 2, ''deadbeef'', [(''ostree.commit.timestamp'', GV_uint64 7)])])])])
   \<and> sorted_wrt (<) [''a'', ''b'' :: string]
   \<and> sorted_wrt (<) [''org.a'', ''org.b'' :: string]
   \<and> sorted_wrt (<) [''x'', ''y'' :: string]
   \<and> snd (ostree_repo_regenerate_summary
          (example_summary_env
             [(''b'', ''deadbeef''), (''origin:x'', ''deadbeef''), (''a'', ''cafebabe'')]
             [((''org.b'', ''z''), ''deadbeef''), ((''org.a'', ''y''), ''cafebabe''),
              ((''org.a'', ''x''), ''deadbeef'')])
          example_collection_repo None)
     = Some
         ([(''x'', 2, ''deadbeef'', [(''ostree.commit.timestamp'', GV_uint64 7)]),
           (''y'', 3, ''cafebabe'', [(''ostree.commit.timestamp'', GV_uint64 7)])],
          [(''ostree.summary.last-modified'', GV_uint64 5),
           (''ostree.summary.collection-id'', GV_string ''org.a''),
           (''ostree.summary.collection-map'',
            GV_collection_map
              [(''org.b'',
                [(''z'', 2, ''deadbeef'', [(''ostree.commit.timestamp'', GV_uint64 7)])])])])"
proof -
  let ?env = "example_summary_env
             [(''b'', ''deadbeef''), (''origin:x'', ''deadbeef''), (''a'', ''cafebabe'')]
             [((''org.b'', ''z''), ''deadbeef''), ((''org.a'', ''y''), ''cafebabe''),
              ((''org.a'', ''x''), ''deadbeef'')]"
  let ?s = "([(''a'', 3, ''cafebabe'', [(''ostree.commit.timestamp'', GV_uint64 7)]),
           (''b'', 2, ''deadbeef'', [(''ostree.commit.timestamp'', GV_uint64 7)])],
          [(''ostree.summary.last-modified'', GV_uint64 5),
           (''ostree.summary.collection-map'',
            GV_collection_map
              [(''org.a'',
                [(''x'', 2, ''deadbeef'', [(''ostree.commit.timestamp'', GV_uint64 7)]),
                 (''y'', 3, ''cafebabe'', [(''ostree.commit.timestamp'', GV_uint64 7)])]),
               (''org.b'',
                [(''z'', 2, ''deadbeef'', [(''ostree.commit.timestamp'', GV_uint64 7)])])])])"
  let ?t = "([(''x'', 2, ''deadbeef'', [(''ostree.commit.timestamp'', GV_uint64 7)]),
           (''y'', 3, ''cafebabe'', [(''ostree.commit.timestamp'', GV_uint64 7)])],
          [(''ostree.summary.last-modified'', GV_uint64 5),
           (''ostree.summary.collection-id'', GV_string ''org.a''),
           (''ostree.summary.collection-map'',
            GV_collection_map
              [(''org.b'',
                [(''z'', 2, ''deadbeef'', [(''ostree.commit.timestamp'', GV_uint64 7)])])])])"
  have w: "snd (ostree_repo_regenerate_summary ?env example_summary_repo None) = Some ?s"
    by (simp add: ostree_repo_regenerate_summary_def example_summary_env_def
      example_summary_repo_def summary_main_refs_def example_self_def example_file_def
      empty_dir_def summary_add_ref_entry_def example_parse_refspec_def
      ostree_repo_load_variant_def OSTREE_OBJECT_TYPE_IS_META_def u_ostree_loose_path_def
      metadata_open_def ot_openat_ignore_enoent_def openat_def variant_from_fd_def
      dirmeta_cache_lookup_def collection_map_of_def summary_metadata_def)
  have v: "snd (ostree_repo_regenerate_summary ?env example_collection_repo None) = Some ?t"
    by (simp add: ostree_repo_regenerate_summary_def example_summary_env_def
      example_collection_repo_def summary_main_refs_def example_self_def example_file_def
      empty_dir_def summary_add_ref_entry_def example_parse_refspec_def
      ostree_repo_load_variant_def OSTREE_OBJECT_TYPE_IS_META_def u_ostree_loose_path_def
      metadata_open_def ot_openat_ignore_enoent_def openat_def variant_from_fd_def
      dirmeta_cache_lookup_def collection_map_of_def summary_metadata_def)
  have k: "\<forall>refs. ostree_repo_list_refs ?env example_summary_repo = Inr refs
             \<longrightarrow> distinct (map fst refs)"
    and k2: "\<forall>refs. ostree_repo_list_refs ?env example_collection_repo = Inr refs
             \<longrightarrow> distinct (map fst refs)"
    by (simp_all add: example_summary_env_def)
  from summary_refs_sorted [OF w k] summary_refs_sorted [OF v k2] w v show ?thesis
    by simp
qed

end
